theory Spec2Isabelle
  imports Main "HOL-Library.Word"
begin

section \<open>P-code: opcodes, address spaces, varnodes\<close>

text \<open>
  The SLEIGH lifter of \<^verbatim>\<open>lib/BC/SleighLifter.cpp\<close> lowers the p-code operations of one
  machine instruction to LLVM IR.  \<^verbatim>\<open>OpCode\<close> is the C++ enum of the SLEIGH library
  (\<^verbatim>\<open>opcodes.hh\<close>): an opcode is its number, and the lifter compares opcodes both for
  equality and, in \<^verbatim>\<open>isFloatOp\<close>, by order.  Slot 45 is unused.
\<close>

type_synonym OpCode = nat

definition CPUI_COPY :: OpCode where "CPUI_COPY = 1"
definition CPUI_LOAD :: OpCode where "CPUI_LOAD = 2"
definition CPUI_STORE :: OpCode where "CPUI_STORE = 3"
definition CPUI_BRANCH :: OpCode where "CPUI_BRANCH = 4"
definition CPUI_CBRANCH :: OpCode where "CPUI_CBRANCH = 5"
definition CPUI_BRANCHIND :: OpCode where "CPUI_BRANCHIND = 6"
definition CPUI_CALL :: OpCode where "CPUI_CALL = 7"
definition CPUI_CALLIND :: OpCode where "CPUI_CALLIND = 8"
definition CPUI_CALLOTHER :: OpCode where "CPUI_CALLOTHER = 9"
definition CPUI_RETURN :: OpCode where "CPUI_RETURN = 10"
definition CPUI_INT_EQUAL :: OpCode where "CPUI_INT_EQUAL = 11"
definition CPUI_INT_NOTEQUAL :: OpCode where "CPUI_INT_NOTEQUAL = 12"
definition CPUI_INT_SLESS :: OpCode where "CPUI_INT_SLESS = 13"
definition CPUI_INT_SLESSEQUAL :: OpCode where "CPUI_INT_SLESSEQUAL = 14"
definition CPUI_INT_LESS :: OpCode where "CPUI_INT_LESS = 15"
definition CPUI_INT_LESSEQUAL :: OpCode where "CPUI_INT_LESSEQUAL = 16"
definition CPUI_INT_ZEXT :: OpCode where "CPUI_INT_ZEXT = 17"
definition CPUI_INT_SEXT :: OpCode where "CPUI_INT_SEXT = 18"
definition CPUI_INT_ADD :: OpCode where "CPUI_INT_ADD = 19"
definition CPUI_INT_SUB :: OpCode where "CPUI_INT_SUB = 20"
definition CPUI_INT_CARRY :: OpCode where "CPUI_INT_CARRY = 21"
definition CPUI_INT_SCARRY :: OpCode where "CPUI_INT_SCARRY = 22"
definition CPUI_INT_SBORROW :: OpCode where "CPUI_INT_SBORROW = 23"
definition CPUI_INT_2COMP :: OpCode where "CPUI_INT_2COMP = 24"
definition CPUI_INT_NEGATE :: OpCode where "CPUI_INT_NEGATE = 25"
definition CPUI_INT_XOR :: OpCode where "CPUI_INT_XOR = 26"
definition CPUI_INT_AND :: OpCode where "CPUI_INT_AND = 27"
definition CPUI_INT_OR :: OpCode where "CPUI_INT_OR = 28"
definition CPUI_INT_LEFT :: OpCode where "CPUI_INT_LEFT = 29"
definition CPUI_INT_RIGHT :: OpCode where "CPUI_INT_RIGHT = 30"
definition CPUI_INT_SRIGHT :: OpCode where "CPUI_INT_SRIGHT = 31"
definition CPUI_INT_MULT :: OpCode where "CPUI_INT_MULT = 32"
definition CPUI_INT_DIV :: OpCode where "CPUI_INT_DIV = 33"
definition CPUI_INT_SDIV :: OpCode where "CPUI_INT_SDIV = 34"
definition CPUI_INT_REM :: OpCode where "CPUI_INT_REM = 35"
definition CPUI_INT_SREM :: OpCode where "CPUI_INT_SREM = 36"
definition CPUI_BOOL_NEGATE :: OpCode where "CPUI_BOOL_NEGATE = 37"
definition CPUI_BOOL_XOR :: OpCode where "CPUI_BOOL_XOR = 38"
definition CPUI_BOOL_AND :: OpCode where "CPUI_BOOL_AND = 39"
definition CPUI_BOOL_OR :: OpCode where "CPUI_BOOL_OR = 40"
definition CPUI_FLOAT_EQUAL :: OpCode where "CPUI_FLOAT_EQUAL = 41"
definition CPUI_FLOAT_NOTEQUAL :: OpCode where "CPUI_FLOAT_NOTEQUAL = 42"
definition CPUI_FLOAT_LESS :: OpCode where "CPUI_FLOAT_LESS = 43"
definition CPUI_FLOAT_LESSEQUAL :: OpCode where "CPUI_FLOAT_LESSEQUAL = 44"
definition CPUI_FLOAT_NAN :: OpCode where "CPUI_FLOAT_NAN = 46"
definition CPUI_FLOAT_ADD :: OpCode where "CPUI_FLOAT_ADD = 47"
definition CPUI_FLOAT_DIV :: OpCode where "CPUI_FLOAT_DIV = 48"
definition CPUI_FLOAT_MULT :: OpCode where "CPUI_FLOAT_MULT = 49"
definition CPUI_FLOAT_SUB :: OpCode where "CPUI_FLOAT_SUB = 50"
definition CPUI_FLOAT_NEG :: OpCode where "CPUI_FLOAT_NEG = 51"
definition CPUI_FLOAT_ABS :: OpCode where "CPUI_FLOAT_ABS = 52"
definition CPUI_FLOAT_SQRT :: OpCode where "CPUI_FLOAT_SQRT = 53"
definition CPUI_FLOAT_INT2FLOAT :: OpCode where "CPUI_FLOAT_INT2FLOAT = 54"
definition CPUI_FLOAT_FLOAT2FLOAT :: OpCode where "CPUI_FLOAT_FLOAT2FLOAT = 55"
definition CPUI_FLOAT_TRUNC :: OpCode where "CPUI_FLOAT_TRUNC = 56"
definition CPUI_FLOAT_CEIL :: OpCode where "CPUI_FLOAT_CEIL = 57"
definition CPUI_FLOAT_FLOOR :: OpCode where "CPUI_FLOAT_FLOOR = 58"
definition CPUI_FLOAT_ROUND :: OpCode where "CPUI_FLOAT_ROUND = 59"
definition CPUI_MULTIEQUAL :: OpCode where "CPUI_MULTIEQUAL = 60"
definition CPUI_INDIRECT :: OpCode where "CPUI_INDIRECT = 61"
definition CPUI_PIECE :: OpCode where "CPUI_PIECE = 62"
definition CPUI_SUBPIECE :: OpCode where "CPUI_SUBPIECE = 63"
definition CPUI_CAST :: OpCode where "CPUI_CAST = 64"
definition CPUI_PTRADD :: OpCode where "CPUI_PTRADD = 65"
definition CPUI_PTRSUB :: OpCode where "CPUI_PTRSUB = 66"
definition CPUI_SEGMENTOP :: OpCode where "CPUI_SEGMENTOP = 67"
definition CPUI_CPOOLREF :: OpCode where "CPUI_CPOOLREF = 68"
definition CPUI_NEW :: OpCode where "CPUI_NEW = 69"
definition CPUI_INSERT :: OpCode where "CPUI_INSERT = 70"
definition CPUI_EXTRACT :: OpCode where "CPUI_EXTRACT = 71"
definition CPUI_POPCOUNT :: OpCode where "CPUI_POPCOUNT = 72"

lemmas OpCode_defs =
  CPUI_COPY_def CPUI_LOAD_def CPUI_STORE_def CPUI_BRANCH_def CPUI_CBRANCH_def
  CPUI_BRANCHIND_def CPUI_CALL_def CPUI_CALLIND_def CPUI_CALLOTHER_def CPUI_RETURN_def
  CPUI_INT_EQUAL_def CPUI_INT_NOTEQUAL_def CPUI_INT_SLESS_def CPUI_INT_SLESSEQUAL_def
  CPUI_INT_LESS_def CPUI_INT_LESSEQUAL_def CPUI_INT_ZEXT_def CPUI_INT_SEXT_def
  CPUI_INT_ADD_def CPUI_INT_SUB_def CPUI_INT_CARRY_def CPUI_INT_SCARRY_def
  CPUI_INT_SBORROW_def CPUI_INT_2COMP_def CPUI_INT_NEGATE_def CPUI_INT_XOR_def
  CPUI_INT_AND_def CPUI_INT_OR_def CPUI_INT_LEFT_def CPUI_INT_RIGHT_def CPUI_INT_SRIGHT_def
  CPUI_INT_MULT_def CPUI_INT_DIV_def CPUI_INT_SDIV_def CPUI_INT_REM_def CPUI_INT_SREM_def
  CPUI_BOOL_NEGATE_def CPUI_BOOL_XOR_def CPUI_BOOL_AND_def CPUI_BOOL_OR_def
  CPUI_FLOAT_EQUAL_def CPUI_FLOAT_NOTEQUAL_def CPUI_FLOAT_LESS_def CPUI_FLOAT_LESSEQUAL_def
  CPUI_FLOAT_NAN_def CPUI_FLOAT_ADD_def CPUI_FLOAT_DIV_def CPUI_FLOAT_MULT_def
  CPUI_FLOAT_SUB_def CPUI_FLOAT_NEG_def CPUI_FLOAT_ABS_def CPUI_FLOAT_SQRT_def
  CPUI_FLOAT_INT2FLOAT_def CPUI_FLOAT_FLOAT2FLOAT_def CPUI_FLOAT_TRUNC_def CPUI_FLOAT_CEIL_def
  CPUI_FLOAT_FLOOR_def CPUI_FLOAT_ROUND_def CPUI_MULTIEQUAL_def CPUI_INDIRECT_def
  CPUI_PIECE_def CPUI_SUBPIECE_def CPUI_CAST_def CPUI_PTRADD_def CPUI_PTRSUB_def
  CPUI_SEGMENTOP_def CPUI_CPOOLREF_def CPUI_NEW_def CPUI_INSERT_def CPUI_EXTRACT_def
  CPUI_POPCOUNT_def

text \<open>
  An address space as the lifter reads it: its name (\<^verbatim>\<open>getName()\<close>), its index
  (\<^verbatim>\<open>getIndex()\<close>) and the index of the constant space (\<^verbatim>\<open>constant_space_index\<close>).
\<close>

record AddrSpace =
  getName :: string
  getIndex :: nat
  constant_space_index :: nat

text \<open>\<^verbatim>\<open>VarnodeData\<close>: \<open>offset\<close> is a \<^verbatim>\<open>uintb\<close> (64 bits), the size a \<^verbatim>\<open>uint4\<close>.\<close>

record VarnodeData =
  space :: AddrSpace
  offset :: "64 word"
  size_vn :: "32 word"

record RemillPcodeOp =
  pcode_op :: OpCode
  pcode_outvar :: "VarnodeData option"
  pcode_vars :: "VarnodeData list"

record BranchTakenVar =
  index :: nat
  target_vnode :: VarnodeData

datatype LiftStatus =
    kLiftedInvalidInstruction
  | kLiftedUnsupportedInstruction
  | kLiftedLifterError
  | kLiftedInstruction

definition isVarnodeInConstantSpace :: "VarnodeData \<Rightarrow> bool" where
  "isVarnodeInConstantSpace vnode =
     (constant_space_index (space vnode) = getIndex (space vnode))"

definition isFloatOp :: "OpCode \<Rightarrow> bool" where
  "isFloatOp opc = (CPUI_FLOAT_EQUAL \<le> opc \<and> opc \<le> CPUI_FLOAT_ROUND)"

section \<open>The target IR\<close>

text \<open>
  LLVM types, values and instructions, as far as the lifter builds them.  A value is a
  constant, a function argument, the address of a register of the host state, or the
  result of an instruction (named by the instruction's number).  The builder folds an
  operation whose operands are all constants into a constant and inserts no
  instruction for it: \<open>ConstantExpr\<close> is that constant, kept symbolic.
\<close>

datatype ty = IntegerType nat | FloatTy | PointerTy | OverflowTy nat | VoidTy

datatype CastOp = ZExt | SExt | Trunc | SIToFP | FPToSI | FPTrunc

datatype BinaryOp =
    And | Or | Xor | Shl | LShr | AShr | Add | Sub | Mul | UDiv | SDiv | URem | SRem
  | FAdd | FSub | FMul | FDiv

datatype IPredicate = ICMP_EQ | ICMP_NE | ICMP_ULT | ICMP_SLT | ICMP_ULE | ICMP_SLE

datatype FPredicate = FCMP_OEQ | FCMP_ONE | FCMP_OLT | FCMP_OLE

datatype Intrinsic =
    llvm_fabs | llvm_sqrt | llvm_ceil | llvm_floor | llvm_round | llvm_ctpop
  | uadd_with_overflow | sadd_with_overflow | ssub_with_overflow
  | read_memory | write_memory

datatype 'v instr =
    Alloca ty string
  | Load ty 'v
  | Store 'v 'v
  | Cast CastOp 'v ty
  | BinOp BinaryOp 'v 'v
  | ICmp IPredicate 'v 'v
  | FCmp FPredicate 'v 'v
  | FNeg 'v
  | Select 'v 'v 'v
  | Call Intrinsic "'v list" ty
  | ExtractValue 'v nat
  | PHI ty "('v \<times> nat) list"
  | Br nat
  | CondBr 'v nat nat
  | Ret 'v

datatype val =
    ConstantInt nat nat
  | Argument nat
  | RegAddress string
  | Inst nat ty
  | ConstantExpr ty "val instr"

type_synonym instruction = "val instr"

fun getType :: "val \<Rightarrow> ty" where
  "getType (ConstantInt bits _) = IntegerType bits"
| "getType (Argument _) = PointerTy"
| "getType (RegAddress _) = PointerTy"
| "getType (Inst _ t) = t"
| "getType (ConstantExpr t _) = t"

fun isConstant :: "val \<Rightarrow> bool" where
  "isConstant (ConstantInt _ _) = True"
| "isConstant (ConstantExpr _ _) = True"
| "isConstant _ = False"

fun getIntegerBitWidth :: "ty \<Rightarrow> nat" where
  "getIntegerBitWidth (IntegerType n) = n"
| "getIntegerBitWidth _ = 0"

fun isIntegerTy :: "ty \<Rightarrow> bool" where
  "isIntegerTy (IntegerType _) = True"
| "isIntegerTy _ = False"

text \<open>\<^verbatim>\<open>ConstantInt::get(type, v)\<close>: the 64-bit \<open>v\<close> cut to the type's width.\<close>

definition ConstantInt_get :: "ty \<Rightarrow> 64 word \<Rightarrow> val" where
  "ConstantInt_get t v =
     ConstantInt (getIntegerBitWidth t) (take_bit (getIntegerBitWidth t) (unat v))"

fun result_type :: "instruction \<Rightarrow> ty" where
  "result_type (Alloca _ _) = PointerTy"
| "result_type (Load t _) = t"
| "result_type (Store _ _) = VoidTy"
| "result_type (Cast _ _ t) = t"
| "result_type (BinOp _ l _) = getType l"
| "result_type (ICmp _ _ _) = IntegerType 1"
| "result_type (FCmp _ _ _) = IntegerType 1"
| "result_type (FNeg v) = getType v"
| "result_type (Select _ t _) = getType t"
| "result_type (Call _ _ t) = t"
| "result_type (ExtractValue agg i) =
     (case getType agg of
        OverflowTy n \<Rightarrow> if i = 0 then IntegerType n else IntegerType 1
      | _ \<Rightarrow> VoidTy)"
| "result_type (PHI t _) = t"
| "result_type (Br _) = VoidTy"
| "result_type (CondBr _ _ _) = VoidTy"
| "result_type (Ret _) = VoidTy"

fun isTerminator :: "instruction \<Rightarrow> bool" where
  "isTerminator (Br _) = True"
| "isTerminator (CondBr _ _ _) = True"
| "isTerminator (Ret _) = True"
| "isTerminator _ = False"

section \<open>The lifter's state\<close>

text \<open>
  \<^verbatim>\<open>Parameter\<close> and its three subclasses: where a varnode's value lives.
  \<open>Memory\<close> keeps the memory-pointer cell and the index; its intrinsics table and
  pointer type are the lifter's.
\<close>

datatype Parameter =
    RegisterValue val
  | Memory val val
  | ConstantValue val

type_synonym UniqueRegSpace = "64 word \<rightharpoonup> val"

text \<open>
  The fields of \<^verbatim>\<open>PcodeToLLVMEmitIntoBlock\<close> that change while it runs, with the body of
  the function it emits into: \<open>blocks\<close> are the basic blocks in creation order, each a
  list of numbered instructions (block labels are left out), \<open>next_id\<close> numbers the next
  instruction.  \<open>current_replacements\<close> and \<open>used_values\<close> are the
  \<^verbatim>\<open>ConstantReplacementContext\<close>.
\<close>

record Lifter =
  blocks :: "(nat \<times> instruction) list list"
  next_id :: nat
  target_block :: nat
  status :: LiftStatus
  uniques :: UniqueRegSpace
  unknown_regs :: UniqueRegSpace
  current_replacements :: "64 word \<rightharpoonup> Parameter"
  used_values :: "64 word set"
  exit_block :: nat
  curr_id :: nat

text \<open>
  What the lifter reads and never changes: the host architecture, the SLEIGH engine's
  register names, the intrinsics table and the constructor's arguments.  Whether
  \<^verbatim>\<open>remill::LoadFromMemory\<close> and \<^verbatim>\<open>remill::StoreToMemory\<close> produce a value for a type is
  decided outside the repository's files; it is a parameter here.
\<close>

record Env =
  GetWordType :: ty
  getRegisterName :: "AddrSpace \<Rightarrow> 64 word \<Rightarrow> 32 word \<Rightarrow> string"
  GetStateRegRemappings :: "string \<rightharpoonup> string"
  ArchHasRegByName :: "string \<Rightarrow> bool"
  LoadFromMemory_ok :: "ty \<Rightarrow> bool"
  StoreToMemory_ok :: "ty \<Rightarrow> bool"
  user_op_names :: "string list"
  to_lift_btaken :: "BranchTakenVar option"

text \<open>
  \<^verbatim>\<open>LOG(FATAL)\<close> and a failed \<^verbatim>\<open>CHECK\<close> or \<^verbatim>\<open>assert\<close> end the process; reading
  through a null \<^verbatim>\<open>outvar\<close> or past the end of \<^verbatim>\<open>vars\<close> has no defined result.  Each is
  an error value, and a computation of the lifter returns an error or a result with the
  new state.
\<close>

datatype error = Fatal string | AssertionFailure string | NullDereference | OutOfBounds

type_synonym 'a Emit = "Lifter \<Rightarrow> error + ('a \<times> Lifter)"

definition returnL :: "'a \<Rightarrow> 'a Emit" where
  "returnL x = (\<lambda>st. Inr (x, st))"

definition failL :: "error \<Rightarrow> 'a Emit" where
  "failL e = (\<lambda>st. Inl e)"

definition bindL :: "'a Emit \<Rightarrow> ('a \<Rightarrow> 'b Emit) \<Rightarrow> 'b Emit" where
  "bindL m f = (\<lambda>st. case m st of Inl e \<Rightarrow> Inl e | Inr (x, st') \<Rightarrow> f x st')"

definition getL :: "(Lifter \<Rightarrow> 'a) \<Rightarrow> 'a Emit" where
  "getL f = (\<lambda>st. Inr (f st, st))"

definition modifyL :: "(Lifter \<Rightarrow> Lifter) \<Rightarrow> unit Emit" where
  "modifyL g = (\<lambda>st. Inr ((), g st))"

definition deref :: "'a option \<Rightarrow> 'a Emit" where
  "deref p = (case p of None \<Rightarrow> failL NullDereference | Some x \<Rightarrow> returnL x)"

section \<open>The IR builder\<close>

text \<open>
  An \<^verbatim>\<open>llvm::IRBuilder\<close> made from a block inserts at the end of that block, so a
  builder is the number of its block.  \<open>Insert\<close> appends the instruction and returns its
  result.
\<close>

definition Insert :: "nat \<Rightarrow> instruction \<Rightarrow> val Emit" where
  "Insert bldr i =
     bindL (getL next_id) (\<lambda>n.
     bindL (modifyL (\<lambda>st. st\<lparr>blocks := (blocks st)[bldr := blocks st ! bldr @ [(n, i)]],
                                next_id := Suc n\<rparr>)) (\<lambda>_.
       returnL (Inst n (result_type i))))"

definition CreateAlloca :: "nat \<Rightarrow> ty \<Rightarrow> string \<Rightarrow> val Emit" where
  "CreateAlloca bldr t nm = Insert bldr (Alloca t nm)"

definition CreateLoad :: "nat \<Rightarrow> ty \<Rightarrow> val \<Rightarrow> val Emit" where
  "CreateLoad bldr t p = Insert bldr (Load t p)"

definition CreateStore :: "nat \<Rightarrow> val \<Rightarrow> val \<Rightarrow> val Emit" where
  "CreateStore bldr v p = Insert bldr (Store v p)"

definition CreateCall :: "nat \<Rightarrow> Intrinsic \<Rightarrow> val list \<Rightarrow> ty \<Rightarrow> val Emit" where
  "CreateCall bldr f args t = Insert bldr (Call f args t)"

definition CreateExtractValue :: "nat \<Rightarrow> val \<Rightarrow> nat \<Rightarrow> val Emit" where
  "CreateExtractValue bldr agg i = Insert bldr (ExtractValue agg i)"

text \<open>A cast to the value's own type is the value; a cast of a constant is folded.\<close>

definition CreateCast :: "nat \<Rightarrow> CastOp \<Rightarrow> val \<Rightarrow> ty \<Rightarrow> val Emit" where
  "CreateCast bldr c v t =
     (if getType v = t then returnL v
      else if isConstant v then returnL (ConstantExpr t (Cast c v t))
      else Insert bldr (Cast c v t))"

definition CreateZExtOrTrunc :: "nat \<Rightarrow> val \<Rightarrow> ty \<Rightarrow> val Emit" where
  "CreateZExtOrTrunc bldr v t =
     (if getIntegerBitWidth (getType v) < getIntegerBitWidth t then CreateCast bldr ZExt v t
      else if getIntegerBitWidth t < getIntegerBitWidth (getType v) then CreateCast bldr Trunc v t
      else returnL v)"

definition CreateBinOp :: "nat \<Rightarrow> BinaryOp \<Rightarrow> val \<Rightarrow> val \<Rightarrow> val Emit" where
  "CreateBinOp bldr b l r =
     (if isConstant l \<and> isConstant r then returnL (ConstantExpr (getType l) (BinOp b l r))
      else Insert bldr (BinOp b l r))"

definition CreateICmp :: "nat \<Rightarrow> IPredicate \<Rightarrow> val \<Rightarrow> val \<Rightarrow> val Emit" where
  "CreateICmp bldr p l r =
     (if isConstant l \<and> isConstant r then returnL (ConstantExpr (IntegerType 1) (ICmp p l r))
      else Insert bldr (ICmp p l r))"

definition CreateFCmp :: "nat \<Rightarrow> FPredicate \<Rightarrow> val \<Rightarrow> val \<Rightarrow> val Emit" where
  "CreateFCmp bldr p l r =
     (if isConstant l \<and> isConstant r then returnL (ConstantExpr (IntegerType 1) (FCmp p l r))
      else Insert bldr (FCmp p l r))"

definition CreateFNeg :: "nat \<Rightarrow> val \<Rightarrow> val Emit" where
  "CreateFNeg bldr v =
     (if isConstant v then returnL (ConstantExpr (getType v) (FNeg v))
      else Insert bldr (FNeg v))"

definition CreateSelect :: "nat \<Rightarrow> val \<Rightarrow> val \<Rightarrow> val \<Rightarrow> val Emit" where
  "CreateSelect bldr c t f =
     (if isConstant c \<and> isConstant t \<and> isConstant f
      then returnL (ConstantExpr (getType t) (Select c t f))
      else Insert bldr (Select c t f))"

text \<open>\<^verbatim>\<open>CreateNot\<close> is an exclusive or with all ones, \<^verbatim>\<open>CreateNeg\<close> a subtraction from 0.\<close>

definition CreateNot :: "nat \<Rightarrow> val \<Rightarrow> val Emit" where
  "CreateNot bldr v =
     CreateBinOp bldr Xor v
       (ConstantInt (getIntegerBitWidth (getType v)) (2 ^ getIntegerBitWidth (getType v) - 1))"

definition CreateNeg :: "nat \<Rightarrow> val \<Rightarrow> val Emit" where
  "CreateNeg bldr v =
     CreateBinOp bldr Sub (ConstantInt (getIntegerBitWidth (getType v)) 0) v"

section \<open>Value locations\<close>

text \<open>
  Modelled from the spec: \<^verbatim>\<open>InstructionLifter::LoadRegAddress\<close> is defined outside the
  repository's files.  The spec gives it as
  "\<open>load_register_address(block, state_ptr, name) \<rightarrow> (pointer, type)\<close>", a "stable pointer into
  host state": the pointer is the value \<open>RegAddress name\<close>, and no instruction is counted
  for it.
\<close>

definition LoadRegAddress :: "string \<Rightarrow> val" where
  "LoadRegAddress reg_name = RegAddress reg_name"

definition kMemoryVariableName :: string where
  "kMemoryVariableName = ''MEMORY''"

definition GetMemoryType :: ty where
  "GetMemoryType = PointerTy"

text \<open>
  Modelled from the spec: \<^verbatim>\<open>remill::LoadFromMemory\<close> and \<^verbatim>\<open>remill::StoreToMemory\<close> are
  defined outside the repository's files.  The spec: a read "invokes the external
  memory-read intrinsic at the given offset with the requested width", a write "invokes
  the external memory-write intrinsic" and yields the new memory pointer.  The lifter
  tests their result for null; here they return \<open>None\<close>, and insert nothing, for a type
  the environment does not support.
\<close>

definition LoadFromMemory :: "Env \<Rightarrow> nat \<Rightarrow> ty \<Rightarrow> val \<Rightarrow> val \<Rightarrow> val option Emit" where
  "LoadFromMemory env bldr t mem idx =
     (if LoadFromMemory_ok env t
      then bindL (CreateCall bldr read_memory [mem, idx] t) (\<lambda>res. returnL (Some res))
      else returnL None)"

definition StoreToMemory :: "Env \<Rightarrow> nat \<Rightarrow> val \<Rightarrow> val \<Rightarrow> val \<Rightarrow> val option Emit" where
  "StoreToMemory env bldr val_to_store mem idx =
     (if StoreToMemory_ok env (getType val_to_store)
      then bindL (CreateCall bldr write_memory [mem, idx, val_to_store] GetMemoryType)
             (\<lambda>new_mem. returnL (Some new_mem))
      else returnL None)"

fun LiftAsInParam :: "Env \<Rightarrow> nat \<Rightarrow> Parameter \<Rightarrow> ty \<Rightarrow> val option Emit" where
  "LiftAsInParam env bldr (RegisterValue register_pointer) t =
     bindL (CreateLoad bldr t register_pointer) (\<lambda>v. returnL (Some v))"
| "LiftAsInParam env bldr (Memory memory_ref_ptr idx) t =
     bindL (CreateLoad bldr GetMemoryType memory_ref_ptr) (\<lambda>mem.
       LoadFromMemory env bldr t mem idx)"
| "LiftAsInParam env bldr (ConstantValue cst) t =
     (if t \<noteq> getType cst then returnL None else returnL (Some cst))"

fun StoreIntoParam :: "Env \<Rightarrow> nat \<Rightarrow> Parameter \<Rightarrow> val \<Rightarrow> LiftStatus Emit" where
  "StoreIntoParam env bldr (RegisterValue register_pointer) inner_lifted =
     bindL (CreateStore bldr inner_lifted register_pointer) (\<lambda>_.
       returnL kLiftedInstruction)"
| "StoreIntoParam env bldr (Memory memory_ref_ptr idx) inner_lifted =
     bindL (CreateLoad bldr GetMemoryType memory_ref_ptr) (\<lambda>mem.
     bindL (StoreToMemory env bldr inner_lifted mem idx) (\<lambda>new_mem.
       case new_mem of
         Some m \<Rightarrow> bindL (CreateStore bldr m memory_ref_ptr) (\<lambda>_. returnL kLiftedInstruction)
       | None \<Rightarrow> returnL kLiftedInvalidInstruction))"
| "StoreIntoParam env bldr (ConstantValue cst) inner_lifted =
     returnL kLiftedUnsupportedInstruction"

subsection \<open>Scratch cells for the unique space\<close>

text \<open>The digits of \<^verbatim>\<open>std::hex\<close> and \<^verbatim>\<open>std::dec\<close> output, for the labels of the cells.\<close>

function digits :: "nat \<Rightarrow> nat \<Rightarrow> string" where
  "digits b n =
     (if b < 2 \<or> n < b then [''0123456789abcdef'' ! n]
      else digits b (n div b) @ [''0123456789abcdef'' ! (n mod b)])"
  by pat_completeness auto
termination
  by (relation "measure snd") auto

declare digits.simps [simp del]

text \<open>
  \<^verbatim>\<open>UniqueRegSpace::GetUniquePtr\<close>: one cell per offset, allocated at the first request
  with the width of that request.  It returns the cell and the cache; the two wrappers
  are the lifter's two arenas, \<open>uniques\<close> and \<open>unknown_regs\<close>.
\<close>

definition GetUniquePtr ::
  "UniqueRegSpace \<Rightarrow> 64 word \<Rightarrow> 64 word \<Rightarrow> nat \<Rightarrow> (val \<times> UniqueRegSpace) Emit" where
  "GetUniquePtr cached_unique_ptrs offs sz bldr =
     (case cached_unique_ptrs offs of
        Some ptr \<Rightarrow> returnL (ptr, cached_unique_ptrs)
      | None \<Rightarrow>
          bindL (CreateAlloca bldr (IntegerType (unat (ucast (8 * sz) :: 32 word)))
                   (''unique_'' @ digits 16 (unat offs) @ '':'' @ digits 10 (unat sz)))
            (\<lambda>ptr. returnL (ptr, cached_unique_ptrs(offs \<mapsto> ptr))))"

definition uniques_GetUniquePtr :: "64 word \<Rightarrow> 64 word \<Rightarrow> nat \<Rightarrow> val Emit" where
  "uniques_GetUniquePtr offs sz bldr =
     bindL (getL uniques) (\<lambda>cache.
     bindL (GetUniquePtr cache offs sz bldr) (\<lambda>r.
     bindL (modifyL (\<lambda>st. st\<lparr>uniques := snd r\<rparr>)) (\<lambda>_.
       returnL (fst r))))"

definition unknown_regs_GetUniquePtr :: "64 word \<Rightarrow> 64 word \<Rightarrow> nat \<Rightarrow> val Emit" where
  "unknown_regs_GetUniquePtr offs sz bldr =
     bindL (getL unknown_regs) (\<lambda>cache.
     bindL (GetUniquePtr cache offs sz bldr) (\<lambda>r.
     bindL (modifyL (\<lambda>st. st\<lparr>unknown_regs := snd r\<rparr>)) (\<lambda>_.
       returnL (fst r))))"

subsection \<open>The constant replacement context\<close>

text \<open>
  \<^verbatim>\<open>LiftOffsetOrReplace\<close>: an offset with a recorded claim is read from the claimed
  location (and marked used), any other offset is the integer constant.  The log line for
  an offset used twice is left out.  \<^verbatim>\<open>ApplyNonEqualityClaim\<close> empties both containers.
\<close>

definition LiftOffsetOrReplace :: "Env \<Rightarrow> nat \<Rightarrow> VarnodeData \<Rightarrow> ty \<Rightarrow> val Emit" where
  "LiftOffsetOrReplace env bldr target target_type =
     bindL (getL current_replacements) (\<lambda>replacements.
       case replacements (offset target) of
         Some param \<Rightarrow>
           bindL (LiftAsInParam env bldr param target_type) (\<lambda>replacement.
             case replacement of
               None \<Rightarrow> failL (Fatal ''Failure to lift replacement value'')
             | Some v \<Rightarrow>
                 bindL (modifyL (\<lambda>st. st\<lparr>used_values :=
                                            insert (offset target) (used_values st)\<rparr>)) (\<lambda>_.
                   returnL v))
       | None \<Rightarrow> returnL (ConstantInt_get target_type (offset target)))"

definition ApplyNonEqualityClaim :: "unit Emit" where
  "ApplyNonEqualityClaim =
     modifyL (\<lambda>st. st\<lparr>current_replacements := Map.empty, used_values := {}\<rparr>)"

subsection \<open>From a varnode to its location\<close>

definition CreateMemoryAddress :: "val \<Rightarrow> Parameter" where
  "CreateMemoryAddress offs = Memory (LoadRegAddress kMemoryVariableName) offs"

definition toupper :: "char \<Rightarrow> char" where
  "toupper c =
     (case map_of (zip ''abcdefghijklmnopqrstuvwxyz'' ''ABCDEFGHIJKLMNOPQRSTUVWXYZ'') c of
        Some u \<Rightarrow> u
      | None \<Rightarrow> c)"

definition LiftNormalRegister :: "Env \<Rightarrow> nat \<Rightarrow> string \<Rightarrow> Parameter option" where
  "LiftNormalRegister env bldr reg_name =
     (let upper = map toupper reg_name;
          remapped = (case GetStateRegRemappings env upper of
                        Some el \<Rightarrow> el | None \<Rightarrow> upper)
      in if ArchHasRegByName env remapped
         then Some (RegisterValue (LoadRegAddress remapped))
         else None)"

definition LiftNormalRegisterOrCreateUnique ::
  "Env \<Rightarrow> nat \<Rightarrow> string \<Rightarrow> VarnodeData \<Rightarrow> Parameter Emit" where
  "LiftNormalRegisterOrCreateUnique env bldr reg_name target_vn =
     (case LiftNormalRegister env bldr reg_name of
        Some res \<Rightarrow> returnL res
      | None \<Rightarrow>
          bindL (unknown_regs_GetUniquePtr (offset target_vn)
                   (ucast (size_vn target_vn)) bldr)
            (\<lambda>ptr. returnL (RegisterValue ptr)))"

definition LiftParamPtr :: "Env \<Rightarrow> nat \<Rightarrow> VarnodeData \<Rightarrow> Parameter Emit" where
  "LiftParamPtr env bldr vnode =
     (let space_name = getName (space vnode) in
      if space_name = ''ram'' then
        bindL (LiftOffsetOrReplace env bldr vnode (GetWordType env)) (\<lambda>constant_offset.
          returnL (CreateMemoryAddress constant_offset))
      else if space_name = ''register'' then
        LiftNormalRegisterOrCreateUnique env bldr
          (getRegisterName env (space vnode) (offset vnode) (size_vn vnode)) vnode
      else if space_name = ''const'' then
        bindL (LiftOffsetOrReplace env bldr vnode (IntegerType (unat (size_vn vnode * 8))))
          (\<lambda>cst_v. returnL (ConstantValue cst_v))
      else if space_name = ''unique'' then
        bindL (uniques_GetUniquePtr (offset vnode) (ucast (size_vn vnode)) bldr)
          (\<lambda>reg_ptr. returnL (RegisterValue reg_ptr))
      else failL (Fatal ''Unhandled memory space''))"

text \<open>
  \<^verbatim>\<open>ApplyEqualityClaim\<close>: \<^verbatim>\<open>std::map::insert\<close> keeps an entry that is already there.
\<close>

definition ApplyEqualityClaim ::
  "Env \<Rightarrow> nat \<Rightarrow> VarnodeData \<Rightarrow> VarnodeData \<Rightarrow> unit Emit" where
  "ApplyEqualityClaim env bldr lhs_constant rhs_unfolded_value =
     (if \<not> isVarnodeInConstantSpace lhs_constant
      then failL (AssertionFailure ''isVarnodeInConstantSpace(lhs_constant)'')
      else bindL (LiftParamPtr env bldr rhs_unfolded_value) (\<lambda>param.
             modifyL (\<lambda>st.
               if current_replacements st (offset lhs_constant) = None
               then st\<lparr>current_replacements :=
                         (current_replacements st)(offset lhs_constant \<mapsto> param)\<rparr>
               else st)))"

definition FixResultForOutVarnode :: "nat \<Rightarrow> val \<Rightarrow> VarnodeData \<Rightarrow> val Emit" where
  "FixResultForOutVarnode bldr orig outvnode =
     (if \<not> isIntegerTy (getType orig) then failL (Fatal ''Check failed: isIntegerTy'')
      else if unat (size_vn outvnode * 8) = getIntegerBitWidth (getType orig) then returnL orig
      else CreateZExtOrTrunc bldr orig (IntegerType (unat (size_vn outvnode * 8))))"

definition LiftInParam :: "Env \<Rightarrow> nat \<Rightarrow> VarnodeData \<Rightarrow> ty \<Rightarrow> val option Emit" where
  "LiftInParam env bldr vnode t =
     bindL (LiftParamPtr env bldr vnode) (\<lambda>ptr. LiftAsInParam env bldr ptr t)"

definition LiftIntegerInParam :: "Env \<Rightarrow> nat \<Rightarrow> VarnodeData \<Rightarrow> val option Emit" where
  "LiftIntegerInParam env bldr vnode =
     LiftInParam env bldr vnode (IntegerType (unat (size_vn vnode * 8)))"

definition LiftFloatInParam :: "Env \<Rightarrow> nat \<Rightarrow> VarnodeData \<Rightarrow> val option Emit" where
  "LiftFloatInParam env bldr vnode = LiftInParam env bldr vnode FloatTy"

definition LiftRequireOutParam ::
  "(VarnodeData \<Rightarrow> LiftStatus Emit) \<Rightarrow> VarnodeData option \<Rightarrow> LiftStatus Emit" where
  "LiftRequireOutParam inner_lift outvar =
     (case outvar of
        Some out \<Rightarrow> inner_lift out
      | None \<Rightarrow> returnL kLiftedUnsupportedInstruction)"

definition LiftStoreIntoOutParam ::
  "Env \<Rightarrow> nat \<Rightarrow> val \<Rightarrow> VarnodeData option \<Rightarrow> LiftStatus Emit" where
  "LiftStoreIntoOutParam env bldr inner_lifted outvar =
     LiftRequireOutParam
       (\<lambda>out_param_data.
          bindL (LiftParamPtr env bldr out_param_data) (\<lambda>ptr.
            StoreIntoParam env bldr ptr inner_lifted))
       outvar"

section \<open>Control flow\<close>

definition kBranchTakenArgNum :: nat where
  "kBranchTakenArgNum = 2"

definition kNextPcArgNum :: nat where
  "kNextPcArgNum = 3"

definition GetBranchTakenRef :: val where
  "GetBranchTakenRef = Argument kBranchTakenArgNum"

definition GetNextPcRef :: val where
  "GetNextPcRef = Argument kNextPcArgNum"

text \<open>\<^verbatim>\<open>BasicBlock::Create\<close> with a parent function appends an empty block to it.\<close>

definition BasicBlock_Create :: "nat Emit" where
  "BasicBlock_Create =
     bindL (getL (\<lambda>st. length (blocks st))) (\<lambda>n.
     bindL (modifyL (\<lambda>st. st\<lparr>blocks := blocks st @ [[]]\<rparr>)) (\<lambda>_.
       returnL n))"

text \<open>\<^verbatim>\<open>getTerminator\<close>: the last instruction of the block when it is a terminator.\<close>

definition getTerminator :: "(nat \<times> instruction) list \<Rightarrow> instruction option" where
  "getTerminator b =
     (if b \<noteq> [] \<and> isTerminator (snd (last b)) then Some (snd (last b)) else None)"

text \<open>
  \<^verbatim>\<open>TerminateBlockWithCondition\<close> makes its own builder at the end of \<open>target_block\<close>,
  replaces \<open>target_block\<close> by a new block and then inserts the branch with that builder.
\<close>

definition TerminateBlockWithCondition :: "val \<Rightarrow> LiftStatus Emit" where
  "TerminateBlockWithCondition condition =
     bindL (getL target_block) (\<lambda>ir.
     bindL BasicBlock_Create (\<lambda>continuation.
     bindL (modifyL (\<lambda>st. st\<lparr>target_block := continuation\<rparr>)) (\<lambda>_.
     bindL (getL exit_block) (\<lambda>exit_blk.
     bindL (Insert ir (CondBr condition exit_blk continuation)) (\<lambda>_.
       returnL kLiftedInstruction)))))"

definition TerminateBlock :: "unit Emit" where
  "TerminateBlock =
     bindL (getL (\<lambda>st. getTerminator (blocks st ! target_block st))) (\<lambda>terminator.
       if terminator = None
       then bindL (getL target_block) (\<lambda>ir.
            bindL (getL exit_block) (\<lambda>exit_blk.
            bindL (Insert ir (Br exit_blk)) (\<lambda>_. returnL ())))
       else returnL ())"

definition RedirectControlFlow :: "nat \<Rightarrow> val \<Rightarrow> LiftStatus Emit" where
  "RedirectControlFlow bldr target_addr =
     bindL (CreateStore bldr target_addr GetNextPcRef) (\<lambda>_.
     bindL TerminateBlock (\<lambda>_.
       returnL kLiftedInstruction))"

definition UpdateStatus :: "LiftStatus \<Rightarrow> OpCode \<Rightarrow> unit Emit" where
  "UpdateStatus new_status opc =
     (if new_status \<noteq> kLiftedInstruction
      then modifyL (\<lambda>st. st\<lparr>status := new_status\<rparr>)
      else returnL ())"

section \<open>Lowering of the operations\<close>

subsection \<open>One input\<close>

definition LiftUnaryOpWithFloatIntrinsic ::
  "Env \<Rightarrow> nat \<Rightarrow> Intrinsic \<Rightarrow> VarnodeData option \<Rightarrow> VarnodeData \<Rightarrow> LiftStatus Emit" where
  "LiftUnaryOpWithFloatIntrinsic env bldr intrinsic_id outvar input_var =
     bindL (LiftInParam env bldr input_var FloatTy) (\<lambda>inval.
       case inval of
         None \<Rightarrow> returnL kLiftedUnsupportedInstruction
       | Some v \<Rightarrow>
           bindL (CreateCall bldr intrinsic_id [v] FloatTy) (\<lambda>res.
             LiftStoreIntoOutParam env bldr res outvar))"

text \<open>
  The \<^verbatim>\<open>switch\<close> of \<^verbatim>\<open>LiftUnaryOp\<close>.  A case that \<^verbatim>\<open>break\<close>s reaches the function's last
  line, which returns \<open>kLiftedUnsupportedInstruction\<close>.  Four cases read
  \<^verbatim>\<open>outvar->size\<close> or \<^verbatim>\<open>*outvar\<close> without a null test.
\<close>

definition LiftUnaryOp ::
  "Env \<Rightarrow> nat \<Rightarrow> OpCode \<Rightarrow> VarnodeData option \<Rightarrow> VarnodeData \<Rightarrow> LiftStatus Emit" where
  "LiftUnaryOp env bldr opc outvar input_var =
     (if opc = CPUI_BOOL_NEGATE then
        bindL (LiftInParam env bldr input_var (IntegerType 8)) (\<lambda>bneg_inval.
          case bneg_inval of
            Some v \<Rightarrow>
              bindL (CreateICmp bldr ICMP_EQ v (ConstantInt_get (IntegerType 8) 0)) (\<lambda>c.
              bindL (CreateCast bldr ZExt c (IntegerType 8)) (\<lambda>z.
                LiftStoreIntoOutParam env bldr z outvar))
          | None \<Rightarrow> returnL kLiftedUnsupportedInstruction)
      else if opc = CPUI_COPY \<or> opc = CPUI_CAST then
        bindL (LiftInParam env bldr input_var (IntegerType (unat (size_vn input_var * 8))))
          (\<lambda>copy_inval.
            case copy_inval of
              Some v \<Rightarrow> LiftStoreIntoOutParam env bldr v outvar
            | None \<Rightarrow> returnL kLiftedUnsupportedInstruction)
      else if opc = CPUI_BRANCH \<or> opc = CPUI_CALL then
        (if isVarnodeInConstantSpace input_var then returnL kLiftedUnsupportedInstruction
         else bindL (LiftOffsetOrReplace env bldr input_var
                       (IntegerType (unat (size_vn input_var * 8))))
                (\<lambda>input_val. RedirectControlFlow bldr input_val))
      else if opc = CPUI_RETURN \<or> opc = CPUI_BRANCHIND \<or> opc = CPUI_CALLIND then
        bindL (LiftInParam env bldr input_var (IntegerType (unat (size_vn input_var * 8))))
          (\<lambda>copy_inval.
            case copy_inval of
              None \<Rightarrow> returnL kLiftedUnsupportedInstruction
            | Some v \<Rightarrow> RedirectControlFlow bldr v)
      else if opc = CPUI_INT_ZEXT \<or> opc = CPUI_INT_SEXT then
        bindL (LiftIntegerInParam env bldr input_var) (\<lambda>zext_inval.
          case zext_inval of
            Some v \<Rightarrow>
              bindL (deref outvar) (\<lambda>out.
              bindL (CreateCast bldr (if opc = CPUI_INT_ZEXT then ZExt else SExt) v
                       (IntegerType (unat (size_vn out * 8)))) (\<lambda>zext_op.
                LiftStoreIntoOutParam env bldr zext_op outvar))
          | None \<Rightarrow> returnL kLiftedUnsupportedInstruction)
      else if opc = CPUI_INT_2COMP then
        bindL (LiftIntegerInParam env bldr input_var) (\<lambda>two_comp_inval.
          case two_comp_inval of
            Some v \<Rightarrow>
              bindL (CreateNeg bldr v) (\<lambda>r. LiftStoreIntoOutParam env bldr r outvar)
          | None \<Rightarrow> returnL kLiftedUnsupportedInstruction)
      else if opc = CPUI_INT_NEGATE then
        bindL (LiftIntegerInParam env bldr input_var) (\<lambda>negate_inval.
          case negate_inval of
            Some v \<Rightarrow>
              bindL (CreateNot bldr v) (\<lambda>r. LiftStoreIntoOutParam env bldr r outvar)
          | None \<Rightarrow> returnL kLiftedUnsupportedInstruction)
      else if opc = CPUI_FLOAT_NEG then
        bindL (LiftInParam env bldr input_var FloatTy) (\<lambda>negate_inval.
          case negate_inval of
            Some v \<Rightarrow>
              bindL (CreateFNeg bldr v) (\<lambda>r. LiftStoreIntoOutParam env bldr r outvar)
          | None \<Rightarrow> returnL kLiftedUnsupportedInstruction)
      else if opc = CPUI_FLOAT_ABS then
        LiftUnaryOpWithFloatIntrinsic env bldr llvm_fabs outvar input_var
      else if opc = CPUI_FLOAT_SQRT then
        LiftUnaryOpWithFloatIntrinsic env bldr llvm_sqrt outvar input_var
      else if opc = CPUI_FLOAT_CEIL then
        LiftUnaryOpWithFloatIntrinsic env bldr llvm_ceil outvar input_var
      else if opc = CPUI_FLOAT_FLOOR then
        LiftUnaryOpWithFloatIntrinsic env bldr llvm_floor outvar input_var
      else if opc = CPUI_FLOAT_ROUND then
        LiftUnaryOpWithFloatIntrinsic env bldr llvm_round outvar input_var
      else if opc = CPUI_FLOAT_NAN then
        bindL (LiftInParam env bldr input_var FloatTy) (\<lambda>nan_inval.
          case nan_inval of
            Some v \<Rightarrow>
              bindL (CreateFCmp bldr FCMP_OEQ v v) (\<lambda>c.
              bindL (CreateNot bldr c) (\<lambda>n.
              bindL (deref outvar) (\<lambda>out.
              bindL (CreateCast bldr ZExt n (IntegerType (unat (size_vn out * 8))))
                (\<lambda>isnan_check. LiftStoreIntoOutParam env bldr isnan_check outvar))))
          | None \<Rightarrow> returnL kLiftedUnsupportedInstruction)
      else if opc = CPUI_FLOAT_INT2FLOAT then
        bindL (LiftIntegerInParam env bldr input_var) (\<lambda>int2float_inval.
          case int2float_inval of
            Some v \<Rightarrow>
              bindL (CreateCast bldr SIToFP v FloatTy) (\<lambda>converted.
                LiftStoreIntoOutParam env bldr converted outvar)
          | None \<Rightarrow> returnL kLiftedUnsupportedInstruction)
      else if opc = CPUI_FLOAT_FLOAT2FLOAT then
        bindL (LiftInParam env bldr input_var FloatTy) (\<lambda>float2float_inval.
          case float2float_inval of
            Some v \<Rightarrow>
              bindL (CreateCast bldr FPTrunc v FloatTy) (\<lambda>r.
                LiftStoreIntoOutParam env bldr r outvar)
          | None \<Rightarrow> returnL kLiftedUnsupportedInstruction)
      else if opc = CPUI_FLOAT_TRUNC then
        bindL (LiftInParam env bldr input_var FloatTy) (\<lambda>trunc_inval.
          case trunc_inval of
            Some v \<Rightarrow>
              bindL (deref outvar) (\<lambda>out.
              bindL (CreateCast bldr FPToSI v (IntegerType (unat (size_vn out * 8))))
                (\<lambda>converted. LiftStoreIntoOutParam env bldr converted outvar))
          | None \<Rightarrow> returnL kLiftedUnsupportedInstruction)
      else if opc = CPUI_POPCOUNT then
        bindL (LiftIntegerInParam env bldr input_var) (\<lambda>ctpop_inval.
          case ctpop_inval of
            Some v \<Rightarrow>
              bindL (CreateCall bldr llvm_ctpop [v] (getType v)) (\<lambda>call.
              bindL (deref outvar) (\<lambda>out.
              bindL (FixResultForOutVarnode bldr call out) (\<lambda>ctpop_val.
                LiftStoreIntoOutParam env bldr ctpop_val outvar)))
          | None \<Rightarrow> returnL kLiftedUnsupportedInstruction)
      else returnL kLiftedUnsupportedInstruction)"

subsection \<open>Two inputs\<close>

type_synonym BinaryOperator = "val \<Rightarrow> val \<Rightarrow> nat \<Rightarrow> val Emit"

definition ExtractOverflowBitFromCallToIntrinsic :: "Intrinsic \<Rightarrow> BinaryOperator" where
  "ExtractOverflowBitFromCallToIntrinsic intrinsic lhs rhs bldr =
     bindL (CreateCall bldr intrinsic [lhs, rhs]
              (OverflowTy (getIntegerBitWidth (getType lhs)))) (\<lambda>res_val.
       CreateExtractValue bldr res_val 1)"

definition ShiftOperator :: "BinaryOp \<Rightarrow> BinaryOperator" where
  "ShiftOperator b lhs rhs bldr =
     bindL (if getType lhs \<noteq> getType rhs then CreateZExtOrTrunc bldr rhs (getType lhs)
            else returnL rhs) (\<lambda>rhs'.
       CreateBinOp bldr b lhs rhs')"

definition CompareOperator :: "IPredicate \<Rightarrow> BinaryOperator" where
  "CompareOperator p lhs rhs bldr =
     bindL (CreateICmp bldr p lhs rhs) (\<lambda>c. CreateCast bldr ZExt c (IntegerType 8))"

text \<open>
  The table \<^verbatim>\<open>INTEGER_BINARY_OPS\<close>, entry by entry: \<open>ShiftOperator\<close> is the body the
  three shifts share, \<open>CompareOperator\<close> the body the six comparisons share.
\<close>

definition INTEGER_BINARY_OPS :: "OpCode \<Rightarrow> BinaryOperator option" where
  "INTEGER_BINARY_OPS opc =
     (if opc = CPUI_INT_AND then Some (\<lambda>lhs rhs bldr. CreateBinOp bldr And lhs rhs)
      else if opc = CPUI_INT_OR then Some (\<lambda>lhs rhs bldr. CreateBinOp bldr Or lhs rhs)
      else if opc = CPUI_INT_XOR then Some (\<lambda>lhs rhs bldr. CreateBinOp bldr Xor lhs rhs)
      else if opc = CPUI_INT_LEFT then Some (ShiftOperator Shl)
      else if opc = CPUI_INT_RIGHT then Some (ShiftOperator LShr)
      else if opc = CPUI_INT_SRIGHT then Some (ShiftOperator AShr)
      else if opc = CPUI_INT_ADD then Some (\<lambda>lhs rhs bldr. CreateBinOp bldr Add lhs rhs)
      else if opc = CPUI_INT_SUB then Some (\<lambda>lhs rhs bldr. CreateBinOp bldr Sub lhs rhs)
      else if opc = CPUI_INT_MULT then Some (\<lambda>lhs rhs bldr. CreateBinOp bldr Mul lhs rhs)
      else if opc = CPUI_INT_DIV then Some (\<lambda>lhs rhs bldr. CreateBinOp bldr UDiv lhs rhs)
      else if opc = CPUI_INT_SDIV then Some (\<lambda>lhs rhs bldr. CreateBinOp bldr SDiv lhs rhs)
      else if opc = CPUI_INT_REM then Some (\<lambda>lhs rhs bldr. CreateBinOp bldr URem lhs rhs)
      else if opc = CPUI_INT_SREM then Some (\<lambda>lhs rhs bldr. CreateBinOp bldr SRem lhs rhs)
      else if opc = CPUI_INT_EQUAL then Some (CompareOperator ICMP_EQ)
      else if opc = CPUI_INT_NOTEQUAL then Some (CompareOperator ICMP_NE)
      else if opc = CPUI_INT_LESS then Some (CompareOperator ICMP_ULT)
      else if opc = CPUI_INT_SLESS then Some (CompareOperator ICMP_SLT)
      else if opc = CPUI_INT_LESSEQUAL then Some (CompareOperator ICMP_SLE)
      else if opc = CPUI_INT_SLESSEQUAL then Some (CompareOperator ICMP_ULE)
      else if opc = CPUI_INT_CARRY
        then Some (ExtractOverflowBitFromCallToIntrinsic uadd_with_overflow)
      else if opc = CPUI_INT_SCARRY
        then Some (ExtractOverflowBitFromCallToIntrinsic sadd_with_overflow)
      else if opc = CPUI_INT_SBORROW
        then Some (ExtractOverflowBitFromCallToIntrinsic ssub_with_overflow)
      else None)"

definition BOOL_BINARY_OPS :: "OpCode \<Rightarrow> BinaryOperator option" where
  "BOOL_BINARY_OPS opc =
     (if opc = CPUI_BOOL_AND then Some (\<lambda>lhs rhs bldr. CreateBinOp bldr And lhs rhs)
      else if opc = CPUI_BOOL_OR then Some (\<lambda>lhs rhs bldr. CreateBinOp bldr Or lhs rhs)
      else if opc = CPUI_BOOL_XOR then Some (\<lambda>lhs rhs bldr. CreateBinOp bldr Xor lhs rhs)
      else None)"

definition INTEGER_COMP_OPS :: "OpCode set" where
  "INTEGER_COMP_OPS =
     {CPUI_INT_EQUAL, CPUI_INT_NOTEQUAL, CPUI_INT_LESS, CPUI_INT_SLESS, CPUI_INT_LESSEQUAL,
      CPUI_INT_SLESSEQUAL, CPUI_INT_SBORROW, CPUI_INT_SCARRY, CPUI_INT_CARRY}"

definition LiftCBranch ::
  "Env \<Rightarrow> nat \<Rightarrow> VarnodeData option \<Rightarrow> VarnodeData \<Rightarrow> VarnodeData \<Rightarrow> LiftStatus Emit" where
  "LiftCBranch env bldr outvar lhs rhs =
     bindL (LiftInParam env bldr rhs (IntegerType (unat (size_vn rhs * 8)))) (\<lambda>should_branch.
       case should_branch of
         None \<Rightarrow> returnL kLiftedUnsupportedInstruction
       | Some sb \<Rightarrow>
           if isVarnodeInConstantSpace lhs then returnL kLiftedUnsupportedInstruction
           else
             bindL (LiftOffsetOrReplace env bldr lhs (IntegerType (unat (size_vn lhs * 8))))
               (\<lambda>jump_addr.
             bindL (CreateCast bldr Trunc sb (IntegerType 1)) (\<lambda>trunc_should_branch.
               case LiftNormalRegister env bldr ''PC'' of
                 None \<Rightarrow> failL (AssertionFailure ''pc_reg_param.has_value()'')
               | Some pc_reg_ptr \<Rightarrow>
                   bindL (LiftAsInParam env bldr pc_reg_ptr (GetWordType env))
                     (\<lambda>orig_pc_value.
                   bindL (case orig_pc_value of
                            Some pc \<Rightarrow>
                              bindL (CreateSelect bldr trunc_should_branch jump_addr pc)
                                (\<lambda>next_pc_value.
                              bindL (CreateStore bldr next_pc_value GetNextPcRef)
                                (\<lambda>_. returnL ()))
                          | None \<Rightarrow> returnL ()) (\<lambda>_.
                     TerminateBlockWithCondition trunc_should_branch)))))"

definition LiftIntegerBinOp ::
  "Env \<Rightarrow> nat \<Rightarrow> OpCode \<Rightarrow> VarnodeData option \<Rightarrow> VarnodeData \<Rightarrow> VarnodeData \<Rightarrow> LiftStatus Emit"
  where
  "LiftIntegerBinOp env bldr opc outvar lhs rhs =
     (case INTEGER_BINARY_OPS opc of
        Some op_func \<Rightarrow>
          bindL (LiftIntegerInParam env bldr lhs) (\<lambda>lifted_lhs.
          bindL (LiftIntegerInParam env bldr rhs) (\<lambda>lifted_rhs.
            case (lifted_lhs, lifted_rhs) of
              (Some l, Some r) \<Rightarrow>
                bindL (op_func l r bldr) (\<lambda>orig_res.
                bindL (if opc \<in> INTEGER_COMP_OPS
                          \<and> getIntegerBitWidth (getType orig_res) \<noteq> 8
                       then CreateCast bldr ZExt orig_res (IntegerType 8)
                       else returnL orig_res) (\<lambda>orig_res'.
                  LiftStoreIntoOutParam env bldr orig_res' outvar))
            | _ \<Rightarrow> returnL kLiftedUnsupportedInstruction))
      | None \<Rightarrow> returnL kLiftedUnsupportedInstruction)"

definition LiftBoolBinOp ::
  "Env \<Rightarrow> nat \<Rightarrow> OpCode \<Rightarrow> VarnodeData option \<Rightarrow> VarnodeData \<Rightarrow> VarnodeData \<Rightarrow> LiftStatus Emit"
  where
  "LiftBoolBinOp env bldr opc outvar lhs rhs =
     (case BOOL_BINARY_OPS opc of
        None \<Rightarrow> returnL kLiftedUnsupportedInstruction
      | Some op_func \<Rightarrow>
          bindL (LiftInParam env bldr lhs (IntegerType 8)) (\<lambda>lifted_lhs.
          bindL (LiftInParam env bldr rhs (IntegerType 8)) (\<lambda>lifted_rhs.
            case (lifted_lhs, lifted_rhs) of
              (Some l, Some r) \<Rightarrow>
                bindL (op_func l r bldr) (\<lambda>computed_value.
                  LiftStoreIntoOutParam env bldr computed_value outvar)
            | _ \<Rightarrow> returnL kLiftedUnsupportedInstruction)))"

definition FloatCompareOperator :: "FPredicate \<Rightarrow> BinaryOperator" where
  "FloatCompareOperator p lhs rhs bldr =
     bindL (CreateFCmp bldr p lhs rhs) (\<lambda>c. CreateCast bldr ZExt c (IntegerType 8))"

definition FindFloatBinOpFunc :: "OpCode \<Rightarrow> BinaryOperator option" where
  "FindFloatBinOpFunc opc =
     (if opc = CPUI_FLOAT_EQUAL then Some (FloatCompareOperator FCMP_OEQ)
      else if opc = CPUI_FLOAT_NOTEQUAL then Some (FloatCompareOperator FCMP_ONE)
      else if opc = CPUI_FLOAT_LESS then Some (FloatCompareOperator FCMP_OLT)
      else if opc = CPUI_FLOAT_LESSEQUAL then Some (FloatCompareOperator FCMP_OLE)
      else if opc = CPUI_FLOAT_ADD then Some (\<lambda>lhs rhs bldr. CreateBinOp bldr FAdd lhs rhs)
      else if opc = CPUI_FLOAT_SUB then Some (\<lambda>lhs rhs bldr. CreateBinOp bldr FSub lhs rhs)
      else if opc = CPUI_FLOAT_MULT then Some (\<lambda>lhs rhs bldr. CreateBinOp bldr FMul lhs rhs)
      else if opc = CPUI_FLOAT_DIV then Some (\<lambda>lhs rhs bldr. CreateBinOp bldr FDiv lhs rhs)
      else None)"

definition LiftFloatBinOp ::
  "Env \<Rightarrow> nat \<Rightarrow> OpCode \<Rightarrow> VarnodeData option \<Rightarrow> VarnodeData \<Rightarrow> VarnodeData \<Rightarrow> LiftStatus Emit"
  where
  "LiftFloatBinOp env bldr opc outvar lhs rhs =
     (case FindFloatBinOpFunc opc of
        None \<Rightarrow> returnL kLiftedUnsupportedInstruction
      | Some op_func \<Rightarrow>
          bindL (LiftFloatInParam env bldr lhs) (\<lambda>lifted_lhs.
          bindL (LiftFloatInParam env bldr rhs) (\<lambda>lifted_rhs.
            case (lifted_lhs, lifted_rhs) of
              (Some l, Some r) \<Rightarrow>
                bindL (op_func l r bldr) (\<lambda>res. LiftStoreIntoOutParam env bldr res outvar)
            | _ \<Rightarrow> returnL kLiftedUnsupportedInstruction)))"

text \<open>
  The tail of \<^verbatim>\<open>LiftBinOp\<close> is a row of \<^verbatim>\<open>if\<close> blocks, each of which returns or falls
  through to the next: \<open>Some s\<close> is a return of \<open>s\<close>, \<open>None\<close> falls through.
\<close>

definition orElse :: "LiftStatus option Emit \<Rightarrow> LiftStatus Emit \<Rightarrow> LiftStatus Emit" where
  "orElse m k = bindL m (\<lambda>r. case r of Some s \<Rightarrow> returnL s | None \<Rightarrow> k)"

definition LiftLoad ::
  "Env \<Rightarrow> nat \<Rightarrow> VarnodeData \<Rightarrow> VarnodeData \<Rightarrow> LiftStatus option Emit" where
  "LiftLoad env bldr out_op addr_operand =
     bindL (LiftInParam env bldr addr_operand (GetWordType env)) (\<lambda>lifted_addr_offset.
       case lifted_addr_offset of
         None \<Rightarrow> returnL (Some kLiftedUnsupportedInstruction)
       | Some a \<Rightarrow>
           bindL (LiftAsInParam env bldr (CreateMemoryAddress a)
                    (IntegerType (unat (size_vn out_op * 8)))) (\<lambda>loaded_value.
             case loaded_value of
               None \<Rightarrow> returnL (Some kLiftedUnsupportedInstruction)
             | Some v \<Rightarrow>
                 bindL (LiftParamPtr env bldr out_op) (\<lambda>lifted_out.
                 bindL (StoreIntoParam env bldr lifted_out v) (\<lambda>s. returnL (Some s)))))"

definition LiftPiece ::
  "Env \<Rightarrow> nat \<Rightarrow> VarnodeData \<Rightarrow> VarnodeData \<Rightarrow> VarnodeData \<Rightarrow> LiftStatus option Emit" where
  "LiftPiece env bldr out lhs rhs =
     (if size_vn rhs + size_vn lhs \<noteq> size_vn out
      then failL (AssertionFailure ''rhs.size + lhs.size == outvar->size'')
      else
        bindL (LiftInParam env bldr lhs (IntegerType (unat (size_vn lhs * 8)))) (\<lambda>lifted_lhs.
        bindL (LiftInParam env bldr rhs (IntegerType (unat (size_vn rhs * 8)))) (\<lambda>lifted_rhs.
          case (lifted_lhs, lifted_rhs) of
            (Some l, Some r) \<Rightarrow>
              bindL (CreateCast bldr ZExt l (IntegerType (unat (size_vn out)))) (\<lambda>ms_operand.
              bindL (CreateBinOp bldr Shl ms_operand
                       (ConstantInt_get (IntegerType 8) (ucast (size_vn rhs))))
                (\<lambda>shifted_ms_operand.
              bindL (CreateBinOp bldr Or shifted_ms_operand r) (\<lambda>concat.
              bindL (LiftStoreIntoOutParam env bldr concat (Some out)) (\<lambda>s.
                returnL (Some s)))))
          | _ \<Rightarrow> returnL None)))"

definition LiftSubpiece ::
  "Env \<Rightarrow> nat \<Rightarrow> VarnodeData \<Rightarrow> VarnodeData \<Rightarrow> VarnodeData \<Rightarrow> LiftStatus option Emit" where
  "LiftSubpiece env bldr out lhs rhs =
     bindL (LiftInParam env bldr lhs (IntegerType (unat (size_vn lhs * 8)))) (\<lambda>lifted_lhs.
       case lifted_lhs of
         Some l \<Rightarrow>
           (let new_size = (ucast (size_vn lhs) :: 64 word) - offset rhs in
            bindL (CreateCast bldr Trunc l
                     (IntegerType (unat (ucast (new_size * 8) :: 32 word)))) (\<lambda>subpiece_lhs.
            bindL (if new_size < ucast (size_vn out)
                   then CreateCast bldr ZExt subpiece_lhs (IntegerType (unat (8 * size_vn out)))
                   else if new_size > ucast (size_vn out)
                   then CreateCast bldr Trunc subpiece_lhs (IntegerType (unat (8 * size_vn out)))
                   else returnL subpiece_lhs) (\<lambda>subpiece_lhs'.
            bindL (LiftStoreIntoOutParam env bldr subpiece_lhs' (Some out)) (\<lambda>s.
              returnL (Some s)))))
       | None \<Rightarrow> returnL None)"

definition LiftBinOp ::
  "Env \<Rightarrow> nat \<Rightarrow> OpCode \<Rightarrow> VarnodeData option \<Rightarrow> VarnodeData \<Rightarrow> VarnodeData \<Rightarrow> LiftStatus Emit"
  where
  "LiftBinOp env bldr opc outvar lhs rhs =
     (if opc = CPUI_CBRANCH then LiftCBranch env bldr outvar lhs rhs
      else
        bindL (LiftIntegerBinOp env bldr opc outvar lhs rhs) (\<lambda>res.
        if res = kLiftedInstruction then returnL res
        else
          bindL (LiftBoolBinOp env bldr opc outvar lhs rhs) (\<lambda>sres.
          if sres = kLiftedInstruction then returnL sres
          else
            bindL (LiftFloatBinOp env bldr opc outvar lhs rhs) (\<lambda>sres.
            if sres = kLiftedInstruction then returnL sres
            else
              orElse (case outvar of
                        Some out \<Rightarrow> if opc = CPUI_LOAD then LiftLoad env bldr out rhs
                                    else returnL None
                      | None \<Rightarrow> returnL None)
             (orElse (case outvar of
                        Some out \<Rightarrow> if opc = CPUI_PIECE then LiftPiece env bldr out lhs rhs
                                    else returnL None
                      | None \<Rightarrow> returnL None)
             (orElse (case outvar of
                        Some out \<Rightarrow> if opc = CPUI_SUBPIECE
                                    then LiftSubpiece env bldr out lhs rhs
                                    else returnL None
                      | None \<Rightarrow> returnL None)
             (orElse (returnL (if opc = CPUI_INDIRECT \<and> outvar \<noteq> None
                               then Some kLiftedUnsupportedInstruction else None))
             (orElse (returnL (if opc = CPUI_NEW \<and> outvar \<noteq> None
                               then Some kLiftedUnsupportedInstruction else None))
                (returnL kLiftedUnsupportedInstruction)))))))))"

subsection \<open>Three inputs, and any number\<close>

definition LiftThreeOperandOp ::
  "Env \<Rightarrow> nat \<Rightarrow> OpCode \<Rightarrow> VarnodeData option \<Rightarrow> VarnodeData \<Rightarrow> VarnodeData \<Rightarrow> VarnodeData
     \<Rightarrow> LiftStatus Emit" where
  "LiftThreeOperandOp env bldr opc outvar param0 param1 param2 =
     (if opc = CPUI_STORE then
        bindL (LiftInParam env bldr param1 (GetWordType env)) (\<lambda>lifted_addr_offset.
          case lifted_addr_offset of
            Some a \<Rightarrow>
              bindL (LiftInParam env bldr param2 (IntegerType (unat (size_vn param2 * 8))))
                (\<lambda>store_param.
                  case store_param of
                    Some v \<Rightarrow> StoreIntoParam env bldr (CreateMemoryAddress a) v
                  | None \<Rightarrow> returnL kLiftedUnsupportedInstruction)
          | None \<Rightarrow> returnL kLiftedUnsupportedInstruction)
      else if opc = CPUI_PTRADD then
        bindL (LiftInParam env bldr param0 (GetWordType env)) (\<lambda>lifted_addr.
        bindL (LiftIntegerInParam env bldr param1) (\<lambda>lifted_index.
          case (lifted_addr, lifted_index) of
            (Some a, Some i) \<Rightarrow>
              bindL (CreateBinOp bldr Mul i
                       (ConstantInt_get (IntegerType (unat (size_vn param2 * 8)))
                          (offset param2))) (\<lambda>offs.
              bindL (CreateBinOp bldr Add a offs) (\<lambda>ptr_add.
                LiftStoreIntoOutParam env bldr ptr_add outvar))
          | _ \<Rightarrow> returnL kLiftedUnsupportedInstruction))
      else if opc = CPUI_PTRSUB then
        bindL (LiftInParam env bldr param0 (GetWordType env)) (\<lambda>lifted_addr.
        bindL (LiftIntegerInParam env bldr param1) (\<lambda>lifted_offset.
          case (lifted_addr, lifted_offset) of
            (Some a, Some off) \<Rightarrow>
              bindL (CreateBinOp bldr Add a off) (\<lambda>r.
                LiftStoreIntoOutParam env bldr r outvar)
          | _ \<Rightarrow> returnL kLiftedUnsupportedInstruction))
      else returnL kLiftedUnsupportedInstruction)"

text \<open>
  \<^verbatim>\<open>CreatePHI\<close> inserts a node without incoming values; \<^verbatim>\<open>addIncoming\<close> adds one to the
  node where it stands.
\<close>

definition PHINode_addIncoming ::
  "val \<Rightarrow> val \<Rightarrow> nat \<Rightarrow> nat \<times> instruction \<Rightarrow> nat \<times> instruction" where
  "PHINode_addIncoming phi_node v blk x =
     (case x of (i, ins) \<Rightarrow>
        (i, case ins of
              PHI t incoming \<Rightarrow>
                if Inst i t = phi_node then PHI t (incoming @ [(v, blk)]) else ins
            | _ \<Rightarrow> ins))"

definition addIncoming :: "nat \<Rightarrow> val \<Rightarrow> val \<Rightarrow> nat \<Rightarrow> unit Emit" where
  "addIncoming bldr phi_node v blk =
     modifyL (\<lambda>st. st\<lparr>blocks := (blocks st)[bldr :=
       map (PHINode_addIncoming phi_node v blk) (blocks st ! bldr)]\<rparr>)"

text \<open>The loop of the \<^verbatim>\<open>CPUI_MULTIEQUAL\<close> case: \<open>False\<close> when an input cannot be read.\<close>

fun LiftPhiInputs :: "Env \<Rightarrow> nat \<Rightarrow> val \<Rightarrow> VarnodeData list \<Rightarrow> bool Emit" where
  "LiftPhiInputs env bldr phi_node [] = returnL True"
| "LiftPhiInputs env bldr phi_node (var # rest) =
     bindL (LiftInParam env bldr var (IntegerType (unat (size_vn var * 8)))) (\<lambda>inval.
       case inval of
         None \<Rightarrow> returnL False
       | Some v \<Rightarrow>
           bindL (addIncoming bldr phi_node v bldr) (\<lambda>_.
             LiftPhiInputs env bldr phi_node rest))"

definition LiftVariadicOp ::
  "Env \<Rightarrow> nat \<Rightarrow> OpCode \<Rightarrow> VarnodeData option \<Rightarrow> VarnodeData list \<Rightarrow> LiftStatus Emit" where
  "LiftVariadicOp env bldr opc outvar vars =
     (if opc = CPUI_MULTIEQUAL then
        (case vars of
           [] \<Rightarrow> failL OutOfBounds
         | v0 # _ \<Rightarrow>
             bindL (Insert bldr (PHI (IntegerType (unat (size_vn v0 * 8))) [])) (\<lambda>phi_node.
             bindL (LiftPhiInputs env bldr phi_node vars) (\<lambda>ok.
               if ok then LiftStoreIntoOutParam env bldr phi_node outvar
               else returnL kLiftedUnsupportedInstruction)))
      else if opc = CPUI_CPOOLREF then returnL kLiftedUnsupportedInstruction
      else returnL kLiftedUnsupportedInstruction)"

subsection \<open>User-defined operations\<close>

definition kEqualityClaimName :: string where
  "kEqualityClaimName = ''claim_eq''"

definition kEqualityClaimArity :: nat where
  "kEqualityClaimArity = 3"

definition GetOtherFuncName :: "Env \<Rightarrow> VarnodeData list \<Rightarrow> string option" where
  "GetOtherFuncName env ivars =
     (case ivars of
        [] \<Rightarrow> None
      | v0 # _ \<Rightarrow>
          if length (user_op_names env) \<le> unat (offset v0) then None
          else Some (user_op_names env ! unat (offset v0)))"

definition HandleCallOther ::
  "Env \<Rightarrow> nat \<Rightarrow> VarnodeData option \<Rightarrow> VarnodeData list \<Rightarrow> LiftStatus Emit" where
  "HandleCallOther env bldr outvar vars =
     (case GetOtherFuncName env vars of
        Some other_func_name \<Rightarrow>
          if other_func_name = kEqualityClaimName \<and> length vars = kEqualityClaimArity
          then bindL (ApplyEqualityClaim env bldr (vars ! 1) (vars ! 2)) (\<lambda>_.
                 returnL kLiftedInstruction)
          else returnL kLiftedUnsupportedInstruction
      | None \<Rightarrow> returnL kLiftedUnsupportedInstruction)"

subsection \<open>The branch-taken flag\<close>

definition LiftBranchTaken :: "Env \<Rightarrow> nat \<Rightarrow> BranchTakenVar \<Rightarrow> LiftStatus Emit" where
  "LiftBranchTaken env bldr btaken_var =
     bindL (LiftIntegerInParam env bldr (target_vnode btaken_var)) (\<lambda>maybe_should_branch.
       case maybe_should_branch of
         None \<Rightarrow> returnL kLiftedLifterError
       | Some v \<Rightarrow>
           bindL (CreateZExtOrTrunc bldr v (IntegerType 8)) (\<lambda>should_branch.
           bindL (CreateStore bldr should_branch GetBranchTakenRef) (\<lambda>_.
             returnL kLiftedInstruction)))"

definition LiftBtakenIfReached :: "Env \<Rightarrow> nat \<Rightarrow> OpCode \<Rightarrow> unit Emit" where
  "LiftBtakenIfReached env bldr opc =
     (case to_lift_btaken env of
        Some btaken \<Rightarrow>
          bindL (getL curr_id) (\<lambda>cid.
            if cid = index btaken
            then bindL (LiftBranchTaken env bldr btaken) (\<lambda>s. UpdateStatus s opc)
            else returnL ())
      | None \<Rightarrow> returnL ())"

section \<open>One operation, one instruction\<close>

definition LiftPcodeOp ::
  "Env \<Rightarrow> nat \<Rightarrow> OpCode \<Rightarrow> VarnodeData option \<Rightarrow> VarnodeData list \<Rightarrow> unit Emit" where
  "LiftPcodeOp env bldr opc outvar vars =
     (if opc = CPUI_MULTIEQUAL \<or> opc = CPUI_CPOOLREF then
        bindL (LiftVariadicOp env bldr opc outvar vars) (\<lambda>s. UpdateStatus s opc)
      else if opc = CPUI_CALLOTHER then
        bindL (HandleCallOther env bldr outvar vars) (\<lambda>s. UpdateStatus s opc)
      else
        (case vars of
           [v0] \<Rightarrow> bindL (LiftUnaryOp env bldr opc outvar v0) (\<lambda>s. UpdateStatus s opc)
         | [v0, v1] \<Rightarrow> bindL (LiftBinOp env bldr opc outvar v0 v1) (\<lambda>s. UpdateStatus s opc)
         | [v0, v1, v2] \<Rightarrow>
             bindL (LiftThreeOperandOp env bldr opc outvar v0 v1 v2) (\<lambda>s. UpdateStatus s opc)
         | _ \<Rightarrow> UpdateStatus kLiftedUnsupportedInstruction opc))"

text \<open>
  \<^verbatim>\<open>dump\<close> is called by the decoder for each operation, in order: it makes a builder at
  the end of the current \<open>target_block\<close>, writes the branch-taken flag when its index is
  reached, lowers the operation and counts it.
\<close>

definition dump :: "Env \<Rightarrow> OpCode \<Rightarrow> VarnodeData option \<Rightarrow> VarnodeData list \<Rightarrow> unit Emit" where
  "dump env opc outvar vars =
     bindL (getL target_block) (\<lambda>bldr.
     bindL (LiftBtakenIfReached env bldr opc) (\<lambda>_.
     bindL (LiftPcodeOp env bldr opc outvar vars) (\<lambda>_.
       modifyL (\<lambda>st. st\<lparr>curr_id := Suc (curr_id st)\<rparr>))))"

fun oneInstruction :: "Env \<Rightarrow> RemillPcodeOp list \<Rightarrow> unit Emit" where
  "oneInstruction env [] = returnL ()"
| "oneInstruction env (p # ps) =
     bindL (dump env (pcode_op p) (pcode_outvar p) (pcode_vars p)) (\<lambda>_.
       oneInstruction env ps)"

text \<open>
  Modelled from the spec: \<^verbatim>\<open>remill::LoadMemoryPointer\<close> is defined outside the repository's
  files.  The spec calls its result "the current memory pointer"; the lifter's own
  \<^verbatim>\<open>Memory::LiftAsInParam\<close> reads that pointer with a load from the memory-pointer cell,
  and so does this.
\<close>

definition LoadMemoryPointer :: "nat \<Rightarrow> val Emit" where
  "LoadMemoryPointer block =
     CreateLoad block GetMemoryType (LoadRegAddress kMemoryVariableName)"

definition DefineInstructionFunction :: "nat Emit" where
  "DefineInstructionFunction =
     bindL BasicBlock_Create (\<lambda>block.
     bindL (CreateAlloca block PointerTy ''MEMORY'') (\<lambda>memory_var.
     bindL (CreateStore block (Argument 1) memory_var) (\<lambda>_.
       returnL block)))"

definition empty_function :: Lifter where
  "empty_function =
     \<lparr>blocks = [], next_id = 0, target_block = 0, status = kLiftedInstruction,
      uniques = Map.empty, unknown_regs = Map.empty, current_replacements = Map.empty,
      used_values = {}, exit_block = 0, curr_id = 0\<rparr>"

text \<open>
  \<^verbatim>\<open>LiftIntoInternalBlockWithSleighState\<close>, given the operations the decoder produces for
  the instruction's bytes: the status, and the body of the emitted function if there is
  one.  The function's attributes and linkage are left out.
\<close>

definition LiftIntoInternalBlockWithSleighState ::
  "Env \<Rightarrow> RemillPcodeOp list \<Rightarrow> error + (LiftStatus \<times> (nat \<times> instruction) list list option)"
  where
  "LiftIntoInternalBlockWithSleighState env ops =
     (if list_ex (\<lambda>p. isFloatOp (pcode_op p)) ops
      then Inr (kLiftedUnsupportedInstruction, None)
      else
        case (bindL DefineInstructionFunction (\<lambda>entry.
              bindL BasicBlock_Create (\<lambda>exit_blk.
              bindL (LoadMemoryPointer exit_blk) (\<lambda>mem.
              bindL (Insert exit_blk (Ret mem)) (\<lambda>_.
              bindL (modifyL (\<lambda>st. st\<lparr>target_block := entry, exit_block := exit_blk,
                                         status := kLiftedInstruction, curr_id := 0\<rparr>)) (\<lambda>_.
              bindL (oneInstruction env ops) (\<lambda>_.
                TerminateBlock))))))) empty_function of
          Inl e \<Rightarrow> Inl e
        | Inr (_, st) \<Rightarrow> Inr (status st, Some (blocks st)))"

section \<open>Properties of the emitters\<close>

text \<open>
  An emitter is \<open>status_free\<close> when it neither reads nor writes the status: started with
  another status it does the same and leaves that status.
\<close>

definition status_free :: "'a Emit \<Rightarrow> bool" where
  "status_free m =
     (\<forall>st t. m (st\<lparr>status := t\<rparr>) =
        (case m st of Inl e \<Rightarrow> Inl e | Inr (x, st') \<Rightarrow> Inr (x, st'\<lparr>status := t\<rparr>)))"

text \<open>
  The shape of the emitted function.  In a function of \<open>n\<close> blocks with exit block \<open>e\<close>,
  an instruction of block \<open>b\<close> is \<open>branch_ok\<close> when it is not a return and every target
  of it is the exit block or a later block than \<open>b\<close>.
\<close>

fun branch_ok :: "nat \<Rightarrow> nat \<Rightarrow> nat \<Rightarrow> instruction \<Rightarrow> bool" where
  "branch_ok n e b (Br t) = (t = e \<or> (b < t \<and> t < n))"
| "branch_ok n e b (CondBr _ t f) = ((t = e \<or> (b < t \<and> t < n)) \<and> (f = e \<or> (b < f \<and> f < n)))"
| "branch_ok n e b (Ret _) = False"
| "branch_ok n e b _ = True"

text \<open>The exit block: it loads the memory pointer and returns it.\<close>

definition exit_block_body :: "(nat \<times> instruction) list" where
  "exit_block_body =
     [(2, Load GetMemoryType (LoadRegAddress kMemoryVariableName)), (3, Ret (Inst 2 GetMemoryType))]"

text \<open>
  The invariant of the lifter's state while the operations are lowered: the exit block
  is not block 0, it and the current block exist and differ, the exit block is
  \<open>exit_block_body\<close>, every block other than these two ends in a terminator, and every
  instruction outside the exit block is \<open>branch_ok\<close>.
\<close>

definition cfg_invariant :: "Lifter \<Rightarrow> bool" where
  "cfg_invariant st =
     (0 < exit_block st \<and>
      exit_block st < length (blocks st) \<and> target_block st < length (blocks st) \<and>
      target_block st \<noteq> exit_block st \<and>
      blocks st ! exit_block st = exit_block_body \<and>
      (\<forall>b < length (blocks st). b \<noteq> target_block st \<longrightarrow> b \<noteq> exit_block st \<longrightarrow>
          getTerminator (blocks st ! b) \<noteq> None) \<and>
      (\<forall>b < length (blocks st). b \<noteq> exit_block st \<longrightarrow>
          list_all (\<lambda>x. branch_ok (length (blocks st)) (exit_block st) b (snd x))
            (blocks st ! b)))"

text \<open>
  An emitter that \<open>keeps_cfg b\<close> keeps the invariant and the current block \<open>b\<close>; it is
  \<open>simple\<close> when it is \<open>status_free\<close> as well.  A binary operator of the tables is
  \<open>simple_operator\<close> when it is \<open>simple\<close> on all operands.
\<close>

definition keeps_cfg :: "nat \<Rightarrow> 'a Emit \<Rightarrow> bool" where
  "keeps_cfg b m =
     (\<forall>st x st'. cfg_invariant st \<and> target_block st = b \<and> m st = Inr (x, st')
        \<longrightarrow> cfg_invariant st' \<and> target_block st' = b)"

definition simple :: "nat \<Rightarrow> 'a Emit \<Rightarrow> bool" where
  "simple b m = (status_free m \<and> keeps_cfg b m)"

named_theorems simple_intros

named_theorems status_free_intros

definition simple_operator :: "BinaryOperator \<Rightarrow> bool" where
  "simple_operator f = (\<forall>b l r. simple b (f l r b))"

text \<open>
  The lowering of a conditional branch closes the current block and opens another: it
  \<open>ends_cfg\<close>, that is keeps the invariant but not the current block.  \<open>keeps_inv\<close> is
  the invariant alone, whatever the current block.
\<close>

definition ends_cfg :: "nat \<Rightarrow> 'a Emit \<Rightarrow> bool" where
  "ends_cfg b m =
     (\<forall>st x st'. cfg_invariant st \<and> target_block st = b \<and> m st = Inr (x, st')
        \<longrightarrow> cfg_invariant st')"

definition keeps_inv :: "'a Emit \<Rightarrow> bool" where
  "keeps_inv m = (\<forall>st x st'. cfg_invariant st \<and> m st = Inr (x, st') \<longrightarrow> cfg_invariant st')"

text \<open>
  How the status is threaded: an emitter is \<open>sticky\<close> when, started with status \<open>t\<close>, it
  does what it does started with \<open>Lifted\<close>, and ends with the status it sets, or with
  \<open>t\<close> when it sets none.
\<close>

definition sticky :: "'a Emit \<Rightarrow> bool" where
  "sticky m =
     (\<forall>st t. m (st\<lparr>status := t\<rparr>) =
        (case m (st\<lparr>status := kLiftedInstruction\<rparr>) of
           Inl e \<Rightarrow> Inl e
         | Inr (x, st') \<Rightarrow>
             Inr (x, st'\<lparr>status := (if status st' = kLiftedInstruction then t else status st')\<rparr>)))"

section \<open>Reading the emitted function\<close>

text \<open>
  A block \<open>has_terminator\<close> when \<^verbatim>\<open>getTerminator\<close> finds one.  Execution of a block stops
  at its first terminator; \<open>returns_within n f b\<close> holds when every path from block \<open>b\<close>
  of \<open>f\<close> reaches, in fewer than \<open>n\<close> blocks, a return of a value of the memory-pointer
  type.
\<close>

definition has_terminator :: "(nat \<times> instruction) list \<Rightarrow> bool" where
  "has_terminator blk = (getTerminator blk \<noteq> None)"

fun first_terminator :: "(nat \<times> instruction) list \<Rightarrow> instruction option" where
  "first_terminator [] = None"
| "first_terminator (x # rest) = (if isTerminator (snd x) then Some (snd x) else first_terminator rest)"

fun returns_within :: "nat \<Rightarrow> (nat \<times> instruction) list list \<Rightarrow> nat \<Rightarrow> bool" where
  "returns_within 0 f b = False"
| "returns_within (Suc n) f b =
     (b < length f \<and>
      (case first_terminator (f ! b) of
         Some (Ret v) \<Rightarrow> getType v = GetMemoryType
       | Some (Br t) \<Rightarrow> returns_within n f t
       | Some (CondBr c t e) \<Rightarrow> returns_within n f t \<and> returns_within n f e
       | _ \<Rightarrow> False))"

text \<open>
  The state in which the first operation is lowered: the entry block with the
  memory-pointer cell, the exit block, and nothing recorded.
\<close>

definition initial_lifter :: Lifter where
  "initial_lifter =
     \<lparr>blocks = [[(0, Alloca PointerTy ''MEMORY''), (1, Store (Argument 1) (Inst 0 PointerTy))],
                exit_block_body],
      next_id = 4, target_block = 0, status = kLiftedInstruction,
      uniques = Map.empty, unknown_regs = Map.empty, current_replacements = Map.empty,
      used_values = {}, exit_block = 1, curr_id = 0\<rparr>"

section \<open>An architecture and some operations\<close>

text \<open>
  Four address spaces, and a 64-bit architecture with three general registers and a
  program counter, memory intrinsics for 8, 16, 32 and 64 bits and the one user-defined
  operation \<^verbatim>\<open>claim_eq\<close>.
\<close>

definition ram_space :: AddrSpace where
  "ram_space = \<lparr>getName = ''ram'', getIndex = 1, constant_space_index = 0\<rparr>"

definition register_space :: AddrSpace where
  "register_space = \<lparr>getName = ''register'', getIndex = 2, constant_space_index = 0\<rparr>"

definition const_space :: AddrSpace where
  "const_space = \<lparr>getName = ''const'', getIndex = 0, constant_space_index = 0\<rparr>"

definition unique_space :: AddrSpace where
  "unique_space = \<lparr>getName = ''unique'', getIndex = 3, constant_space_index = 0\<rparr>"

definition example_env :: Env where
  "example_env =
     \<lparr>GetWordType = IntegerType 64,
      getRegisterName = (\<lambda>spc off sz.
        if off = 0 then ''r0'' else if off = 8 then ''r1'' else if off = 16 then ''r2'' else ''''),
      GetStateRegRemappings = Map.empty,
      ArchHasRegByName = (\<lambda>n. n \<in> {''R0'', ''R1'', ''R2'', ''PC''}),
      LoadFromMemory_ok = (\<lambda>t. t \<in> {IntegerType 8, IntegerType 16, IntegerType 32, IntegerType 64}),
      StoreToMemory_ok = (\<lambda>t. t \<in> {IntegerType 8, IntegerType 16, IntegerType 32, IntegerType 64}),
      user_op_names = [''claim_eq''],
      to_lift_btaken = None\<rparr>"

definition varnode :: "AddrSpace \<Rightarrow> 64 word \<Rightarrow> 32 word \<Rightarrow> VarnodeData" where
  "varnode spc off sz = \<lparr>space = spc, offset = off, size_vn = sz\<rparr>"

definition pcode :: "OpCode \<Rightarrow> VarnodeData option \<Rightarrow> VarnodeData list \<Rightarrow> RemillPcodeOp" where
  "pcode opc out ins = \<lparr>pcode_op = opc, pcode_outvar = out, pcode_vars = ins\<rparr>"

text \<open>
  The entry block of every emitted function starts with the memory-pointer cell and the
  store of the memory argument into it (\<^verbatim>\<open>DefineInstructionFunction\<close>).
\<close>

definition entry_block_body :: "(nat \<times> instruction) list" where
  "entry_block_body =
     [(0, Alloca PointerTy ''MEMORY''), (1, Store (Argument 1) (Inst 0 PointerTy))]"

text \<open>
  The operations that \<^verbatim>\<open>LiftPcodeOp\<close> refuses before it reads an operand: \<^verbatim>\<open>CPOOLREF\<close>;
  a number of inputs other than one, two or three; with one input, an opcode outside
  the \<^verbatim>\<open>switch\<close> of \<^verbatim>\<open>LiftUnaryOp\<close>, or a \<^verbatim>\<open>BRANCH\<close> or \<^verbatim>\<open>CALL\<close> whose target is in the
  constant space; with two inputs, an opcode other than \<^verbatim>\<open>CBRANCH\<close> that is in none of
  the three operator tables and is not a \<^verbatim>\<open>LOAD\<close>, \<^verbatim>\<open>PIECE\<close> or \<^verbatim>\<open>SUBPIECE\<close> with an
  output varnode; with three inputs, an opcode other than \<^verbatim>\<open>STORE\<close>, \<^verbatim>\<open>PTRADD\<close> and
  \<^verbatim>\<open>PTRSUB\<close>.  (\<^verbatim>\<open>MULTIEQUAL\<close> and \<^verbatim>\<open>CALLOTHER\<close> are not among them.)
\<close>

definition no_lowering :: "OpCode \<Rightarrow> VarnodeData option \<Rightarrow> VarnodeData list \<Rightarrow> bool" where
  "no_lowering opc outvar vars =
     (if opc = CPUI_CPOOLREF then True
      else if opc = CPUI_MULTIEQUAL \<or> opc = CPUI_CALLOTHER then False
      else
        (case vars of
           [v0] \<Rightarrow>
             opc \<notin> {CPUI_BOOL_NEGATE, CPUI_COPY, CPUI_CAST, CPUI_BRANCH, CPUI_CALL, CPUI_RETURN,
                     CPUI_BRANCHIND, CPUI_CALLIND, CPUI_INT_ZEXT, CPUI_INT_SEXT, CPUI_INT_2COMP,
                     CPUI_INT_NEGATE, CPUI_FLOAT_NEG, CPUI_FLOAT_ABS, CPUI_FLOAT_SQRT,
                     CPUI_FLOAT_CEIL, CPUI_FLOAT_FLOOR, CPUI_FLOAT_ROUND, CPUI_FLOAT_NAN,
                     CPUI_FLOAT_INT2FLOAT, CPUI_FLOAT_FLOAT2FLOAT, CPUI_FLOAT_TRUNC,
                     CPUI_POPCOUNT}
             \<or> ((opc = CPUI_BRANCH \<or> opc = CPUI_CALL) \<and> isVarnodeInConstantSpace v0)
         | [v0, v1] \<Rightarrow>
             opc \<noteq> CPUI_CBRANCH
             \<and> (case INTEGER_BINARY_OPS opc of None \<Rightarrow> True | Some _ \<Rightarrow> False)
             \<and> (case BOOL_BINARY_OPS opc of None \<Rightarrow> True | Some _ \<Rightarrow> False)
             \<and> (case FindFloatBinOpFunc opc of None \<Rightarrow> True | Some _ \<Rightarrow> False)
             \<and> (outvar = None \<or> opc \<notin> {CPUI_LOAD, CPUI_PIECE, CPUI_SUBPIECE})
         | [v0, v1, v2] \<Rightarrow> opc \<notin> {CPUI_STORE, CPUI_PTRADD, CPUI_PTRSUB}
         | _ \<Rightarrow> True))"

text \<open>
  The status that \<^verbatim>\<open>LiftPcodeOp\<close> passes to \<^verbatim>\<open>UpdateStatus\<close>: the result of the lowering
  function that its two \<^verbatim>\<open>switch\<close> statements select for the opcode and the number of
  inputs.  This is the status of the operation, Lifted or not.
\<close>

definition LiftPcodeOp_status ::
  "Env \<Rightarrow> nat \<Rightarrow> OpCode \<Rightarrow> VarnodeData option \<Rightarrow> VarnodeData list \<Rightarrow> LiftStatus Emit" where
  "LiftPcodeOp_status env bldr opc outvar vars =
     (if opc = CPUI_MULTIEQUAL \<or> opc = CPUI_CPOOLREF then LiftVariadicOp env bldr opc outvar vars
      else if opc = CPUI_CALLOTHER then HandleCallOther env bldr outvar vars
      else
        (case vars of
           [v0] \<Rightarrow> LiftUnaryOp env bldr opc outvar v0
         | [v0, v1] \<Rightarrow> LiftBinOp env bldr opc outvar v0 v1
         | [v0, v1, v2] \<Rightarrow> LiftThreeOperandOp env bldr opc outvar v0 v1 v2
         | _ \<Rightarrow> returnL kLiftedUnsupportedInstruction))"

section \<open>Emitters that leave the status and the graph alone\<close>

text \<open>
  Everything but the branches and \<^verbatim>\<open>UpdateStatus\<close> is \<open>simple\<close>: the rules below follow
  the structure of the definitions, from the monad and the builder up to the lowering of
  the operations.
\<close>

lemma simple_returnL [simple_intros]: "simple b (returnL x)"
  by (simp add: simple_def status_free_def keeps_cfg_def returnL_def)

lemma simple_failL [simple_intros]: "simple b (failL e)"
  by (simp add: simple_def status_free_def keeps_cfg_def failL_def)

lemma status_free_bindL:
  assumes "status_free m" and "\<And>x. status_free (f x)"
  shows "status_free (bindL m f)"
  using assms unfolding status_free_def bindL_def
  by (auto split: sum.splits prod.splits)

lemma keeps_cfg_bindL:
  assumes "keeps_cfg b m" and "\<And>x. keeps_cfg b (f x)"
  shows "keeps_cfg b (bindL m f)"
  unfolding keeps_cfg_def bindL_def
proof (intro allI impI)
  fix st x st'
  assume a: "cfg_invariant st \<and> target_block st = b \<and>
    (case m st of Inl e \<Rightarrow> Inl e | Inr (y, s) \<Rightarrow> f y s) = Inr (x, st')"
  then obtain y s where ms: "m st = Inr (y, s)" and fy: "f y s = Inr (x, st')"
    by (auto split: sum.splits)
  from assms(1) a ms have "cfg_invariant s \<and> target_block s = b"
    unfolding keeps_cfg_def by blast
  with assms(2) [of y] fy show "cfg_invariant st' \<and> target_block st' = b"
    unfolding keeps_cfg_def by blast
qed

lemma simple_bindL [simple_intros]:
  assumes "simple b m" and "\<And>x. simple b (f x)"
  shows "simple b (bindL m f)"
  using assms by (simp add: simple_def status_free_bindL keeps_cfg_bindL)

lemma simple_if [simple_intros]:
  "simple b m \<Longrightarrow> simple b k \<Longrightarrow> simple b (if c then m else k)"
  by simp

lemma simple_case_option [simple_intros]:
  "simple b m \<Longrightarrow> (\<And>x. simple b (k x)) \<Longrightarrow> simple b (case opt of None \<Rightarrow> m | Some x \<Rightarrow> k x)"
  by (cases opt) simp_all

lemma simple_case_list [simple_intros]:
  "simple b m \<Longrightarrow> (\<And>x xs. simple b (k x xs))
     \<Longrightarrow> simple b (case l of [] \<Rightarrow> m | x # xs \<Rightarrow> k x xs)"
  by (cases l) simp_all

lemma simple_deref [simple_intros]: "simple b (deref p)"
  by (cases p) (simp_all add: deref_def simple_intros)

lemma getTerminator_append:
  "getTerminator (xs @ [(i, ins)]) = (if isTerminator ins then Some ins else None)"
  by (simp add: getTerminator_def)

lemma simple_getL [simple_intros]:
  assumes "\<And>st t. f (st\<lparr>status := t\<rparr>) = f st"
  shows "simple b (getL f)"
  using assms by (simp add: simple_def status_free_def keeps_cfg_def getL_def)

lemma simple_modifyL:
  assumes "\<And>st t. g (st\<lparr>status := t\<rparr>) = (g st)\<lparr>status := t\<rparr>"
    and "\<And>st. cfg_invariant st \<Longrightarrow> target_block st = b
           \<Longrightarrow> cfg_invariant (g st) \<and> target_block (g st) = b"
  shows "simple b (modifyL g)"
  using assms by (simp add: simple_def status_free_def keeps_cfg_def modifyL_def)

lemma simple_Insert [simple_intros]:
  assumes "\<not> isTerminator i"
  shows "simple b (Insert b i)"
proof -
  have bo: "\<And>n e c. branch_ok n e c i" using assms by (cases i) auto
  have "simple b (modifyL (\<lambda>st. st\<lparr>blocks := (blocks st)[b := blocks st ! b @ [(n, i)]],
                                next_id := Suc n\<rparr>))" for n
    by (rule simple_modifyL) (auto simp: cfg_invariant_def nth_list_update bo)
  then show ?thesis
    unfolding Insert_def by (auto intro!: simple_intros)
qed

lemma simple_builder [simple_intros]:
  "simple b (CreateAlloca b t nm)"
  "simple b (CreateLoad b t p)"
  "simple b (CreateStore b v p)"
  "simple b (CreateCall b f args t)"
  "simple b (CreateExtractValue b agg i)"
  "simple b (CreateCast b c v t)"
  "simple b (CreateBinOp b bo l r)"
  "simple b (CreateICmp b ip l r)"
  "simple b (CreateFCmp b fp l r)"
  "simple b (CreateFNeg b v)"
  "simple b (CreateSelect b cnd x y)"
  by (auto simp: CreateAlloca_def CreateLoad_def CreateStore_def CreateCall_def
      CreateExtractValue_def CreateCast_def CreateBinOp_def CreateICmp_def CreateFCmp_def
      CreateFNeg_def CreateSelect_def intro!: simple_intros)

lemma simple_builder2 [simple_intros]:
  "simple b (CreateZExtOrTrunc b v t)"
  "simple b (CreateNot b v)"
  "simple b (CreateNeg b v)"
  by (auto simp: CreateZExtOrTrunc_def CreateNot_def CreateNeg_def intro!: simple_intros)

lemma simple_memory [simple_intros]:
  "simple b (LoadFromMemory env b t mem idx)"
  "simple b (StoreToMemory env b v mem idx)"
  by (auto simp: LoadFromMemory_def StoreToMemory_def intro!: simple_intros)

lemma simple_LiftAsInParam [simple_intros]: "simple b (LiftAsInParam env b p t)"
  by (cases p) (auto intro!: simple_intros)

lemma simple_StoreIntoParam [simple_intros]: "simple b (StoreIntoParam env b p v)"
  by (cases p) (auto intro!: simple_intros split: option.splits)

lemma simple_GetUniquePtr [simple_intros]: "simple b (GetUniquePtr cache offs sz b)"
  by (auto simp: GetUniquePtr_def intro!: simple_intros split: option.splits)

lemma simple_field_updates [simple_intros]:
  "simple b (modifyL (\<lambda>st. st\<lparr>uniques := u\<rparr>))"
  "simple b (modifyL (\<lambda>st. st\<lparr>unknown_regs := u\<rparr>))"
  "simple b (modifyL (\<lambda>st. st\<lparr>used_values := insert k (used_values st)\<rparr>))"
  "simple b (modifyL (\<lambda>st. st\<lparr>current_replacements := Map.empty, used_values := {}\<rparr>))"
  "simple b (modifyL (\<lambda>st. if current_replacements st k = None
               then st\<lparr>current_replacements := (current_replacements st)(k \<mapsto> param)\<rparr>
               else st))"
  by (rule simple_modifyL; simp add: cfg_invariant_def)+

lemma simple_uniques_GetUniquePtr [simple_intros]:
  "simple b (uniques_GetUniquePtr offs sz b)"
  "simple b (unknown_regs_GetUniquePtr offs sz b)"
  unfolding uniques_GetUniquePtr_def unknown_regs_GetUniquePtr_def
  by (auto intro!: simple_intros)

lemma simple_LiftOffsetOrReplace [simple_intros]:
  "simple b (LiftOffsetOrReplace env b target t)"
  unfolding LiftOffsetOrReplace_def
  by (auto intro!: simple_intros split: option.splits)

lemma simple_ApplyNonEqualityClaim [simple_intros]: "simple b ApplyNonEqualityClaim"
  unfolding ApplyNonEqualityClaim_def by (auto intro!: simple_intros)

lemma simple_LiftNormalRegisterOrCreateUnique [simple_intros]:
  "simple b (LiftNormalRegisterOrCreateUnique env b nm vn)"
  unfolding LiftNormalRegisterOrCreateUnique_def
  by (auto intro!: simple_intros split: option.splits)

lemma simple_LiftParamPtr [simple_intros]: "simple b (LiftParamPtr env b vn)"
  unfolding LiftParamPtr_def Let_def
  by (auto intro!: simple_intros)

lemma simple_ApplyEqualityClaim [simple_intros]: "simple b (ApplyEqualityClaim env b l r)"
  unfolding ApplyEqualityClaim_def
  by (auto intro!: simple_intros)

lemma simple_FixResultForOutVarnode [simple_intros]: "simple b (FixResultForOutVarnode b v vn)"
  unfolding FixResultForOutVarnode_def
  by (auto intro!: simple_intros)

lemma simple_LiftInParam [simple_intros]:
  "simple b (LiftInParam env b vn t)"
  "simple b (LiftIntegerInParam env b vn)"
  "simple b (LiftFloatInParam env b vn)"
  unfolding LiftInParam_def LiftIntegerInParam_def LiftFloatInParam_def
  by (auto intro!: simple_intros)

lemma simple_LiftStoreIntoOutParam [simple_intros]:
  "simple b (LiftStoreIntoOutParam env b v ov)"
  unfolding LiftStoreIntoOutParam_def LiftRequireOutParam_def
  by (auto intro!: simple_intros split: option.splits)

lemma status_free_basic [status_free_intros]:
  "status_free (returnL x)"
  "status_free (failL e)"
  "status_free (Insert b i)"
  "(\<And>st t. f (st\<lparr>status := t\<rparr>) = f st) \<Longrightarrow> status_free (getL f)"
  "(\<And>st t. g (st\<lparr>status := t\<rparr>) = (g st)\<lparr>status := t\<rparr>) \<Longrightarrow> status_free (modifyL g)"
  by (simp_all add: status_free_def returnL_def failL_def Insert_def getL_def modifyL_def bindL_def)

lemmas status_free_bind [status_free_intros] = status_free_bindL

lemma simple_status_free: "simple b m \<Longrightarrow> status_free m"
  by (simp add: simple_def)

lemma simple_keeps_cfg: "simple b m \<Longrightarrow> keeps_cfg b m"
  by (simp add: simple_def)

lemma status_free_BasicBlock_Create [status_free_intros]: "status_free BasicBlock_Create"
  unfolding BasicBlock_Create_def by (auto intro!: status_free_intros)

lemma status_free_TerminateBlock [status_free_intros]: "status_free TerminateBlock"
  unfolding TerminateBlock_def by (auto intro!: status_free_intros)

lemma keeps_cfg_TerminateBlock: "keeps_cfg b TerminateBlock"
  unfolding keeps_cfg_def TerminateBlock_def bindL_def getL_def Insert_def modifyL_def returnL_def
  by (auto simp: cfg_invariant_def nth_list_update split: if_splits)

lemma simple_TerminateBlock [simple_intros]: "simple b TerminateBlock"
  by (simp add: simple_def status_free_TerminateBlock keeps_cfg_TerminateBlock)

lemma simple_RedirectControlFlow [simple_intros]: "simple b (RedirectControlFlow b v)"
  unfolding RedirectControlFlow_def by (auto intro!: simple_intros)

lemma simple_LiftUnaryOpWithFloatIntrinsic [simple_intros]:
  "simple b (LiftUnaryOpWithFloatIntrinsic env b f ov iv)"
  unfolding LiftUnaryOpWithFloatIntrinsic_def
  by (intro simple_intros)

lemma simple_LiftUnaryOp [simple_intros]: "simple b (LiftUnaryOp env b opc ov iv)"
  unfolding LiftUnaryOp_def
  by (intro simple_intros)

lemma simple_operators [simple_intros]:
  "simple b (ExtractOverflowBitFromCallToIntrinsic f l r b)"
  "simple b (ShiftOperator bo l r b)"
  "simple b (CompareOperator p l r b)"
  "simple b (FloatCompareOperator fp l r b)"
  unfolding ExtractOverflowBitFromCallToIntrinsic_def ShiftOperator_def CompareOperator_def
    FloatCompareOperator_def
  by (intro simple_intros)+

lemma pred_option_if:
  "pred_option P x \<Longrightarrow> pred_option P y \<Longrightarrow> pred_option P (if c then x else y)"
  by simp

lemma simple_operator_intros:
  "simple_operator (\<lambda>lhs rhs bldr. CreateBinOp bldr bo lhs rhs)"
  "simple_operator (ShiftOperator bo)"
  "simple_operator (CompareOperator p)"
  "simple_operator (FloatCompareOperator fp)"
  "simple_operator (ExtractOverflowBitFromCallToIntrinsic f)"
  by (simp_all add: simple_operator_def simple_intros)

lemma simple_tables:
  "pred_option simple_operator (INTEGER_BINARY_OPS opc)"
  "pred_option simple_operator (BOOL_BINARY_OPS opc)"
  "pred_option simple_operator (FindFloatBinOpFunc opc)"
  unfolding INTEGER_BINARY_OPS_def BOOL_BINARY_OPS_def FindFloatBinOpFunc_def
  by (intro pred_option_if; simp add: simple_operator_intros)+

lemma simple_LiftIntegerBinOp [simple_intros]:
  "simple b (LiftIntegerBinOp env b opc ov l r)"
proof (cases "INTEGER_BINARY_OPS opc")
  case None
  then show ?thesis by (simp add: LiftIntegerBinOp_def simple_intros)
next
  case (Some f)
  with simple_tables(1) [of opc] have f: "\<And>x y. simple b (f x y b)"
    by (simp add: simple_operator_def)
  show ?thesis
    unfolding LiftIntegerBinOp_def Some
    by (simp only: option.case prod.case) (intro simple_intros f)
qed

lemma simple_LiftBoolBinOp [simple_intros]:
  "simple b (LiftBoolBinOp env b opc ov l r)"
proof (cases "BOOL_BINARY_OPS opc")
  case None
  then show ?thesis by (simp add: LiftBoolBinOp_def simple_intros)
next
  case (Some f)
  with simple_tables(2) [of opc] have f: "\<And>x y. simple b (f x y b)"
    by (simp add: simple_operator_def)
  show ?thesis
    unfolding LiftBoolBinOp_def Some
    by (simp only: option.case prod.case) (intro simple_intros f)
qed

lemma simple_LiftFloatBinOp [simple_intros]:
  "simple b (LiftFloatBinOp env b opc ov l r)"
proof (cases "FindFloatBinOpFunc opc")
  case None
  then show ?thesis by (simp add: LiftFloatBinOp_def simple_intros)
next
  case (Some f)
  with simple_tables(3) [of opc] have f: "\<And>x y. simple b (f x y b)"
    by (simp add: simple_operator_def)
  show ?thesis
    unfolding LiftFloatBinOp_def Some
    by (simp only: option.case prod.case) (intro simple_intros f)
qed

lemma simple_orElse [simple_intros]:
  "simple b m \<Longrightarrow> simple b k \<Longrightarrow> simple b (orElse m k)"
  unfolding orElse_def by (intro simple_intros)

lemma simple_LiftLoad [simple_intros]: "simple b (LiftLoad env b out addr)"
  unfolding LiftLoad_def by (intro simple_intros)

lemma simple_LiftPiece [simple_intros]: "simple b (LiftPiece env b out l r)"
  unfolding LiftPiece_def by (simp only: option.case prod.case) (intro simple_intros)

lemma simple_LiftSubpiece [simple_intros]: "simple b (LiftSubpiece env b out l r)"
  unfolding LiftSubpiece_def Let_def by (intro simple_intros)

lemma simple_LiftThreeOperandOp [simple_intros]:
  "simple b (LiftThreeOperandOp env b opc ov p0 p1 p2)"
  unfolding LiftThreeOperandOp_def by (simp only: option.case prod.case) (intro simple_intros)

lemma branch_ok_addIncoming:
  "branch_ok n e c (snd x) \<Longrightarrow> branch_ok n e c (snd (PHINode_addIncoming phi v blk x))"
  by (cases x) (auto simp: PHINode_addIncoming_def split: instr.splits)

lemma simple_addIncoming [simple_intros]: "simple b (addIncoming b phi v blk)"
  unfolding addIncoming_def
  by (rule simple_modifyL)
     (auto simp: cfg_invariant_def nth_list_update list_all_iff branch_ok_addIncoming)

lemma simple_LiftPhiInputs [simple_intros]: "simple b (LiftPhiInputs env b phi vs)"
  by (induction vs) (simp_all, (intro simple_intros; assumption?)+)

lemma simple_LiftVariadicOp [simple_intros]: "simple b (LiftVariadicOp env b opc ov vs)"
  unfolding LiftVariadicOp_def
  by (intro simple_intros) simp

lemma simple_HandleCallOther [simple_intros]: "simple b (HandleCallOther env b ov vs)"
  unfolding HandleCallOther_def by (intro simple_intros)

lemma simple_LiftBranchTaken [simple_intros]: "simple b (LiftBranchTaken env b bt)"
  unfolding LiftBranchTaken_def by (intro simple_intros)

section \<open>The graph under the branches\<close>

lemma simple_ends_cfg: "simple b m \<Longrightarrow> ends_cfg b m"
  unfolding simple_def keeps_cfg_def ends_cfg_def by blast

lemma ends_cfg_bindL:
  assumes "simple b m" and "\<And>x. ends_cfg b (f x)"
  shows "ends_cfg b (bindL m f)"
  unfolding ends_cfg_def bindL_def
proof (intro allI impI)
  fix st x st'
  assume a: "cfg_invariant st \<and> target_block st = b \<and>
    (case m st of Inl e \<Rightarrow> Inl e | Inr (y, s) \<Rightarrow> f y s) = Inr (x, st')"
  then obtain y s where ms: "m st = Inr (y, s)" and fy: "f y s = Inr (x, st')"
    by (auto split: sum.splits)
  from assms(1) a ms have "cfg_invariant s \<and> target_block s = b"
    unfolding simple_def keeps_cfg_def by blast
  with assms(2) [of y] fy show "cfg_invariant st'"
    unfolding ends_cfg_def by blast
qed

lemma ends_cfg_if:
  "ends_cfg b m \<Longrightarrow> ends_cfg b k \<Longrightarrow> ends_cfg b (if c then m else k)"
  by simp

lemma ends_cfg_case_option:
  "ends_cfg b m \<Longrightarrow> (\<And>x. ends_cfg b (k x))
     \<Longrightarrow> ends_cfg b (case opt of None \<Rightarrow> m | Some x \<Rightarrow> k x)"
  by (cases opt) simp_all

lemma branch_ok_Suc: "branch_ok n e c i \<Longrightarrow> branch_ok (Suc n) e c i"
  by (cases i) auto

lemma TerminateBlockWithCondition_result:
  assumes "target_block st < length (blocks st)"
  shows "TerminateBlockWithCondition c st =
     Inr (kLiftedInstruction,
          st\<lparr>blocks := (blocks st)[target_block st :=
                  blocks st ! target_block st
                    @ [(next_id st, CondBr c (exit_block st) (length (blocks st)))]] @ [[]],
             next_id := Suc (next_id st),
             target_block := length (blocks st)\<rparr>)"
proof -
  have "(blocks st @ [[]])[target_block st := (blocks st @ [[]]) ! target_block st @ x]
          = (blocks st)[target_block st := blocks st ! target_block st @ x] @ [[]]" for x
    using assms by (simp add: list_update_append1 nth_append)
  then show ?thesis
    by (simp add: TerminateBlockWithCondition_def BasicBlock_Create_def bindL_def getL_def
        Insert_def modifyL_def returnL_def)
qed

lemma cfg_invariantD:
  assumes inv: "cfg_invariant st"
  shows "exit_block st < length (blocks st)" and "target_block st < length (blocks st)"
    and "target_block st \<noteq> exit_block st"
    and "blocks st ! exit_block st = exit_block_body"
    and "\<And>k. k < length (blocks st) \<Longrightarrow> k \<noteq> target_block st \<Longrightarrow> k \<noteq> exit_block st
                 \<Longrightarrow> getTerminator (blocks st ! k) \<noteq> None"
    and "\<And>k. k < length (blocks st) \<Longrightarrow> k \<noteq> exit_block st
                 \<Longrightarrow> list_all (\<lambda>x. branch_ok (length (blocks st)) (exit_block st) k (snd x))
                       (blocks st ! k)"
    and "0 < exit_block st"
  using inv unfolding cfg_invariant_def by blast+

lemma ends_cfg_TerminateBlockWithCondition: "ends_cfg b (TerminateBlockWithCondition c)"
  unfolding ends_cfg_def
proof (intro allI impI, elim conjE)
  fix st x st'
  assume inv: "cfg_invariant st" and tb: "target_block st = b"
    and run: "TerminateBlockWithCondition c st = Inr (x, st')"
  let ?n = "length (blocks st)"
  let ?br = "(next_id st, CondBr c (exit_block st) ?n)"
  note e = cfg_invariantD(1) [OF inv] and t = cfg_invariantD(2) [OF inv]
    and ne = cfg_invariantD(3) [OF inv] and ex = cfg_invariantD(4) [OF inv]
    and tmn = cfg_invariantD(5) [OF inv] and ok = cfg_invariantD(6) [OF inv]
    and e1 = cfg_invariantD(7) [OF inv]
  from run have st': "st' = st\<lparr>blocks := (blocks st)[target_block st :=
                  blocks st ! target_block st @ [?br]] @ [[]],
             next_id := Suc (next_id st), target_block := ?n\<rparr>"
    by (simp add: TerminateBlockWithCondition_result [OF t])
  have len: "length (blocks st') = Suc ?n" by (simp add: st')
  have nth: "\<And>k. k < ?n \<Longrightarrow> blocks st' ! k =
      (if k = target_block st then blocks st ! k @ [?br] else blocks st ! k)"
    by (simp add: st' nth_append nth_list_update)
  have last: "blocks st' ! ?n = []" by (simp add: st' nth_append)
  have c3: "getTerminator (blocks st' ! k) \<noteq> None"
    if "k < Suc ?n" "k \<noteq> ?n" "k \<noteq> exit_block st" for k
  proof (cases "k = target_block st")
    case True
    with that t show ?thesis by (simp add: nth getTerminator_append)
  next
    case False
    with that tmn [of k] show ?thesis by (simp add: nth)
  qed
  have c4: "list_all (\<lambda>x. branch_ok (Suc ?n) (exit_block st) k (snd x)) (blocks st' ! k)"
    if "k < Suc ?n" "k \<noteq> exit_block st" for k
  proof (cases "k = ?n")
    case True
    then show ?thesis by (simp add: last)
  next
    case False
    with that have k: "k < ?n" by simp
    from ok [OF k that(2)]
    have old: "list_all (\<lambda>x. branch_ok (Suc ?n) (exit_block st) k (snd x)) (blocks st ! k)"
      by (simp add: list_all_iff branch_ok_Suc)
    show ?thesis
    proof (cases "k = target_block st")
      case True
      with old t show ?thesis by (simp add: nth)
    next
      case False
      with old k show ?thesis by (simp add: nth)
    qed
  qed
  have c1: "exit_block st' = exit_block st" "target_block st' = ?n"
    by (simp_all add: st')
  have c2: "blocks st' ! exit_block st = exit_block_body"
    using e ne ex by (simp add: nth)
  show "cfg_invariant st'"
    unfolding cfg_invariant_def c1 len
  proof (intro conjI allI impI)
    show "0 < exit_block st" by (rule e1)
    show "exit_block st < Suc ?n" using e by simp
    show "?n < Suc ?n" by simp
    show "?n \<noteq> exit_block st" using e by simp
    show "blocks st' ! exit_block st = exit_block_body" by (rule c2)
    show "getTerminator (blocks st' ! k) \<noteq> None"
      if "k < Suc ?n" "k \<noteq> ?n" "k \<noteq> exit_block st" for k
      by (rule c3 [OF that])
    show "list_all (\<lambda>x. branch_ok (Suc ?n) (exit_block st) k (snd x)) (blocks st' ! k)"
      if "k < Suc ?n" "k \<noteq> exit_block st" for k
      by (rule c4 [OF that])
  qed
qed

lemma ends_cfg_bindL_keeps:
  assumes "keeps_cfg b m" and "\<And>x. ends_cfg b (f x)"
  shows "ends_cfg b (bindL m f)"
  unfolding ends_cfg_def bindL_def
proof (intro allI impI)
  fix st x st'
  assume a: "cfg_invariant st \<and> target_block st = b \<and>
    (case m st of Inl e \<Rightarrow> Inl e | Inr (y, s) \<Rightarrow> f y s) = Inr (x, st')"
  then obtain y s where ms: "m st = Inr (y, s)" and fy: "f y s = Inr (x, st')"
    by (auto split: sum.splits)
  from assms(1) a ms have "cfg_invariant s \<and> target_block s = b"
    unfolding keeps_cfg_def by blast
  with assms(2) [of y] fy show "cfg_invariant st'"
    unfolding ends_cfg_def by blast
qed

lemma ends_cfg_bindL_inv:
  assumes "ends_cfg b m" and "\<And>x. keeps_inv (f x)"
  shows "ends_cfg b (bindL m f)"
  unfolding ends_cfg_def bindL_def
proof (intro allI impI)
  fix st x st'
  assume a: "cfg_invariant st \<and> target_block st = b \<and>
    (case m st of Inl e \<Rightarrow> Inl e | Inr (y, s) \<Rightarrow> f y s) = Inr (x, st')"
  then obtain y s where ms: "m st = Inr (y, s)" and fy: "f y s = Inr (x, st')"
    by (auto split: sum.splits)
  from assms(1) a ms have "cfg_invariant s"
    unfolding ends_cfg_def by blast
  with assms(2) [of y] fy show "cfg_invariant st'"
    unfolding keeps_inv_def by blast
qed

lemma ends_cfg_leaves:
  "ends_cfg b (returnL x)"
  "ends_cfg b (failL e)"
  by (simp_all add: simple_ends_cfg simple_intros)

lemmas ends_cfg_intros =
  ends_cfg_bindL ends_cfg_if ends_cfg_case_option ends_cfg_leaves
  ends_cfg_TerminateBlockWithCondition

lemma ends_cfg_LiftCBranch: "ends_cfg b (LiftCBranch env b ov l r)"
  unfolding LiftCBranch_def
  by (intro ends_cfg_intros simple_intros)

lemma ends_cfg_LiftBinOp: "ends_cfg b (LiftBinOp env b opc ov l r)"
  unfolding LiftBinOp_def
  by (rule ends_cfg_if, rule ends_cfg_LiftCBranch, rule simple_ends_cfg)
     (intro simple_intros; simp)

lemma keeps_inv_UpdateStatus: "keeps_inv (UpdateStatus s opc)"
  by (simp add: keeps_inv_def UpdateStatus_def modifyL_def returnL_def cfg_invariant_def)

lemma keeps_cfg_UpdateStatus: "keeps_cfg b (UpdateStatus s opc)"
  by (simp add: keeps_cfg_def UpdateStatus_def modifyL_def returnL_def cfg_invariant_def)

lemma ends_cfg_LiftPcodeOp: "ends_cfg b (LiftPcodeOp env b opc ov vs)"
proof -
  have u: "\<And>m. ends_cfg b m \<Longrightarrow> ends_cfg b (bindL m (\<lambda>s. UpdateStatus s opc))"
    by (rule ends_cfg_bindL_inv) (simp_all add: keeps_inv_UpdateStatus)
  have k: "ends_cfg b (UpdateStatus kLiftedUnsupportedInstruction opc)"
    using keeps_cfg_UpdateStatus [of b] unfolding keeps_cfg_def ends_cfg_def by blast
  have cl: "\<And>m f l. ends_cfg b m \<Longrightarrow> (\<And>x xs. ends_cfg b (f x xs))
              \<Longrightarrow> ends_cfg b (case l of [] \<Rightarrow> m | x # xs \<Rightarrow> f x xs)"
    by (simp split: list.splits)
  show ?thesis
    unfolding LiftPcodeOp_def
    by (intro ends_cfg_if cl u k ends_cfg_LiftBinOp
          simple_ends_cfg [OF simple_LiftVariadicOp] simple_ends_cfg [OF simple_HandleCallOther]
          simple_ends_cfg [OF simple_LiftUnaryOp] simple_ends_cfg [OF simple_LiftThreeOperandOp])
qed

lemma keeps_cfg_LiftBtakenIfReached: "keeps_cfg b (LiftBtakenIfReached env b opc)"
proof -
  have "keeps_cfg b (bindL (LiftBranchTaken env b bt) (\<lambda>s. UpdateStatus s opc))" for bt
    by (intro keeps_cfg_bindL simple_keeps_cfg simple_intros keeps_cfg_UpdateStatus)
  moreover have "keeps_cfg b (getL curr_id)" "keeps_cfg b (returnL ())"
    by (simp_all add: simple_keeps_cfg simple_intros)
  ultimately show ?thesis
    unfolding LiftBtakenIfReached_def
    by (cases "to_lift_btaken env") (auto intro!: keeps_cfg_bindL)
qed

lemma dump_unfold:
  "dump env opc ov vs st =
     bindL (LiftBtakenIfReached env (target_block st) opc) (\<lambda>_.
     bindL (LiftPcodeOp env (target_block st) opc ov vs) (\<lambda>_.
       modifyL (\<lambda>st. st\<lparr>curr_id := Suc (curr_id st)\<rparr>))) st"
  by (simp add: dump_def bindL_def getL_def)

lemma keeps_inv_dump: "keeps_inv (dump env opc ov vs)"
proof -
  have c: "keeps_inv (modifyL (\<lambda>st. st\<lparr>curr_id := Suc (curr_id st)\<rparr>))"
    by (simp add: keeps_inv_def modifyL_def cfg_invariant_def)
  have "ends_cfg b (bindL (LiftBtakenIfReached env b opc) (\<lambda>_.
     bindL (LiftPcodeOp env b opc ov vs) (\<lambda>_.
       modifyL (\<lambda>st. st\<lparr>curr_id := Suc (curr_id st)\<rparr>))))" for b
    by (intro ends_cfg_bindL_keeps keeps_cfg_LiftBtakenIfReached ends_cfg_bindL_inv
          ends_cfg_LiftPcodeOp c)
  then show ?thesis
    unfolding keeps_inv_def ends_cfg_def dump_unfold by blast
qed

lemma keeps_inv_oneInstruction: "keeps_inv (oneInstruction env ops)"
proof (induction ops)
  case Nil
  then show ?case by (simp add: keeps_inv_def returnL_def)
next
  case (Cons p ps)
  show ?case
    unfolding keeps_inv_def
  proof (intro allI impI, elim conjE)
    fix st x st'
    assume inv: "cfg_invariant st" and run: "oneInstruction env (p # ps) st = Inr (x, st')"
    from run obtain y s where d: "dump env (pcode_op p) (pcode_outvar p) (pcode_vars p) st = Inr (y, s)"
      and r: "oneInstruction env ps s = Inr (x, st')"
      by (auto simp: bindL_def split: sum.splits)
    from keeps_inv_dump inv d have "cfg_invariant s" unfolding keeps_inv_def by blast
    with Cons.IH r show "cfg_invariant st'" unfolding keeps_inv_def by blast
  qed
qed

section \<open>The status through an instruction\<close>

lemma stickyD:
  assumes "sticky m"
  shows "m (st\<lparr>status := kLiftedInstruction\<rparr>) = Inl e \<Longrightarrow> m (st\<lparr>status := t\<rparr>) = Inl e"
    and "m (st\<lparr>status := kLiftedInstruction\<rparr>) = Inr (x, st')
     \<Longrightarrow> m (st\<lparr>status := t\<rparr>) =
           Inr (x, st'\<lparr>status := (if status st' = kLiftedInstruction then t else status st')\<rparr>)"
proof -
  from assms have eq: "m (st\<lparr>status := t\<rparr>) =
        (case m (st\<lparr>status := kLiftedInstruction\<rparr>) of
           Inl e \<Rightarrow> Inl e
         | Inr (x, st') \<Rightarrow>
             Inr (x, st'\<lparr>status := (if status st' = kLiftedInstruction then t else status st')\<rparr>))"
    unfolding sticky_def by blast
  show "m (st\<lparr>status := kLiftedInstruction\<rparr>) = Inl e \<Longrightarrow> m (st\<lparr>status := t\<rparr>) = Inl e"
    by (subst eq) simp
  show "m (st\<lparr>status := kLiftedInstruction\<rparr>) = Inr (x, st')
     \<Longrightarrow> m (st\<lparr>status := t\<rparr>) =
           Inr (x, st'\<lparr>status := (if status st' = kLiftedInstruction then t else status st')\<rparr>)"
    by (subst eq) simp
qed

lemma status_free_sticky: "status_free m \<Longrightarrow> sticky m"
  unfolding status_free_def sticky_def
  by (simp split: sum.splits prod.splits)

lemma sticky_bindL:
  assumes m: "sticky m" and f: "\<And>x. sticky (f x)"
  shows "sticky (bindL m f)"
  unfolding sticky_def
proof (intro allI)
  fix st t
  let ?L = kLiftedInstruction
  show "bindL m f (st\<lparr>status := t\<rparr>) =
        (case bindL m f (st\<lparr>status := ?L\<rparr>) of
           Inl e \<Rightarrow> Inl e
         | Inr (x, st') \<Rightarrow>
             Inr (x, st'\<lparr>status := (if status st' = ?L then t else status st')\<rparr>))"
  proof (cases "m (st\<lparr>status := ?L\<rparr>)")
    case (Inl e)
    with stickyD(1) [OF m Inl, of t] show ?thesis by (simp add: bindL_def)
  next
    case (Inr p)
    obtain x s1 where p: "p = (x, s1)" by (cases p)
    let ?a = "if status s1 = ?L then t else status s1"
    from stickyD(2) [OF m, of st x s1 t] Inr p
    have mt: "m (st\<lparr>status := t\<rparr>) = Inr (x, s1\<lparr>status := ?a\<rparr>)" by simp
    have s1: "s1 = (s1\<lparr>status := ?L\<rparr>)\<lparr>status := status s1\<rparr>" by simp
    show ?thesis
    proof (cases "f x (s1\<lparr>status := ?L\<rparr>)")
      case (Inl e)
      have "f x (s1\<lparr>status := ?a\<rparr>) = Inl e"
        using stickyD(1) [OF f Inl, of ?a] by simp
      moreover have "f x s1 = Inl e"
        using stickyD(1) [OF f Inl, of "status s1"] by simp
      ultimately show ?thesis using Inr p mt by (simp add: bindL_def)
    next
      case (Inr q)
      obtain y s2 where q: "q = (y, s2)" by (cases q)
      have "f x (s1\<lparr>status := ?a\<rparr>) =
              Inr (y, s2\<lparr>status := (if status s2 = ?L then ?a else status s2)\<rparr>)"
        using stickyD(2) [OF f, of x s1 y s2 ?a] Inr q by simp
      moreover have "f x s1 =
              Inr (y, s2\<lparr>status := (if status s2 = ?L then status s1 else status s2)\<rparr>)"
        using stickyD(2) [OF f, of x s1 y s2 "status s1"] Inr q by simp
      ultimately show ?thesis using \<open>m (st\<lparr>status := ?L\<rparr>) = Inr p\<close> p mt
        by (simp add: bindL_def)
    qed
  qed
qed

lemma sticky_UpdateStatus: "sticky (UpdateStatus s opc)"
  by (simp add: sticky_def UpdateStatus_def modifyL_def returnL_def)

lemma sticky_if: "sticky m \<Longrightarrow> sticky k \<Longrightarrow> sticky (if c then m else k)"
  by simp

lemma sticky_case_list:
  "sticky m \<Longrightarrow> (\<And>x xs. sticky (f x xs)) \<Longrightarrow> sticky (case l of [] \<Rightarrow> m | x # xs \<Rightarrow> f x xs)"
  by (simp split: list.splits)

lemma status_free_if [status_free_intros]:
  "status_free m \<Longrightarrow> status_free k \<Longrightarrow> status_free (if c then m else k)"
  by simp

lemma status_free_case_option [status_free_intros]:
  "status_free m \<Longrightarrow> (\<And>x. status_free (k x))
     \<Longrightarrow> status_free (case opt of None \<Rightarrow> m | Some x \<Rightarrow> k x)"
  by (cases opt) simp_all

lemma status_free_TerminateBlockWithCondition: "status_free (TerminateBlockWithCondition c)"
  unfolding TerminateBlockWithCondition_def
  by (intro status_free_intros; simp)

lemma status_free_LiftCBranch: "status_free (LiftCBranch env b ov l r)"
  unfolding LiftCBranch_def
  by (intro status_free_bindL status_free_if status_free_case_option
        status_free_TerminateBlockWithCondition status_free_basic(1,2)
        simple_status_free [OF simple_LiftInParam(1)]
        simple_status_free [OF simple_LiftOffsetOrReplace]
        simple_status_free [OF simple_builder(6)]
        simple_status_free [OF simple_LiftAsInParam]
        simple_status_free [OF simple_builder(11)]
        simple_status_free [OF simple_builder(3)])

lemma status_free_LiftBinOp: "status_free (LiftBinOp env b opc ov l r)"
  unfolding LiftBinOp_def
  by (rule status_free_if, rule status_free_LiftCBranch, rule simple_status_free [where b = b])
     (intro simple_intros; simp)

lemma sticky_LiftPcodeOp: "sticky (LiftPcodeOp env b opc ov vs)"
proof -
  have u: "\<And>m. status_free m \<Longrightarrow> sticky (bindL m (\<lambda>s. UpdateStatus s opc))"
    by (intro sticky_bindL status_free_sticky sticky_UpdateStatus)
  show ?thesis
    unfolding LiftPcodeOp_def
    by (intro sticky_if sticky_case_list u sticky_UpdateStatus status_free_LiftBinOp
          simple_status_free [OF simple_LiftVariadicOp] simple_status_free [OF simple_HandleCallOther]
          simple_status_free [OF simple_LiftUnaryOp] simple_status_free [OF simple_LiftThreeOperandOp])
qed

lemma sticky_LiftBtakenIfReached: "sticky (LiftBtakenIfReached env b opc)"
proof -
  have "sticky (bindL (LiftBranchTaken env b bt) (\<lambda>s. UpdateStatus s opc))" for bt
    by (intro sticky_bindL status_free_sticky sticky_UpdateStatus
          simple_status_free [OF simple_LiftBranchTaken])
  moreover have "sticky (getL curr_id)" "sticky (returnL ())"
    by (simp_all add: status_free_sticky status_free_basic)
  ultimately show ?thesis
    unfolding LiftBtakenIfReached_def
    by (cases "to_lift_btaken env") (auto intro!: sticky_bindL)
qed

lemma sticky_dump: "sticky (dump env opc ov vs)"
  unfolding dump_def
  by (intro sticky_bindL sticky_LiftBtakenIfReached sticky_LiftPcodeOp status_free_sticky
        status_free_basic; simp)

lemma sticky_oneInstruction: "sticky (oneInstruction env ops)"
  by (induction ops)
     (simp_all add: status_free_sticky status_free_basic sticky_bindL sticky_dump)

section \<open>The function as a whole\<close>

lemma lift_unfold:
  "LiftIntoInternalBlockWithSleighState env ops =
     (if list_ex (\<lambda>p. isFloatOp (pcode_op p)) ops
      then Inr (kLiftedUnsupportedInstruction, None)
      else case bindL (oneInstruction env ops) (\<lambda>_. TerminateBlock) initial_lifter of
             Inl e \<Rightarrow> Inl e
           | Inr (_, st) \<Rightarrow> Inr (status st, Some (blocks st)))"
  by (simp add: LiftIntoInternalBlockWithSleighState_def DefineInstructionFunction_def
      BasicBlock_Create_def LoadMemoryPointer_def CreateAlloca_def CreateStore_def CreateLoad_def
      Insert_def bindL_def getL_def modifyL_def returnL_def empty_function_def initial_lifter_def
      exit_block_body_def eval_nat_numeral)

lemma cfg_invariant_initial: "cfg_invariant initial_lifter"
  by (simp add: cfg_invariant_def initial_lifter_def less_Suc_eq numeral_2_eq_2)

lemma first_terminator_Some:
  "getTerminator blk \<noteq> None
     \<Longrightarrow> \<exists>ins. first_terminator blk = Some ins \<and> isTerminator ins \<and> ins \<in> snd ` set blk"
proof (induction blk)
  case Nil
  then show ?case by (simp add: getTerminator_def)
next
  case (Cons x rest)
  show ?case
  proof (cases "isTerminator (snd x)")
    case True
    then show ?thesis by simp
  next
    case False
    with Cons.prems have "rest \<noteq> []" by (auto simp: getTerminator_def)
    with Cons.prems have "getTerminator rest \<noteq> None"
      by (auto simp: getTerminator_def split: if_splits)
    from Cons.IH [OF this] False show ?thesis by auto
  qed
qed

lemma returns_exit:
  "e < length f \<Longrightarrow> f ! e = exit_block_body \<Longrightarrow> returns_within (Suc j) f e"
  by (simp add: exit_block_body_def GetMemoryType_def)

lemma returns_from:
  assumes ok: "\<And>b. b < length f \<Longrightarrow> b \<noteq> e
                 \<Longrightarrow> list_all (\<lambda>x. branch_ok (length f) e b (snd x)) (f ! b)"
    and tm: "\<And>b. b < length f \<Longrightarrow> getTerminator (f ! b) \<noteq> None"
    and e: "e < length f" and ex: "f ! e = exit_block_body"
  shows "b < length f \<Longrightarrow> b \<noteq> e \<Longrightarrow> length f - b < k \<Longrightarrow> returns_within k f b"
proof (induction k arbitrary: b)
  case 0
  then show ?case by simp
next
  case (Suc k)
  from first_terminator_Some [OF tm [OF Suc.prems(1)]]
  obtain ins where ft: "first_terminator (f ! b) = Some ins" and it: "isTerminator ins"
    and mem: "ins \<in> snd ` set (f ! b)" by blast
  from ok [OF Suc.prems(1,2)] mem have bo: "branch_ok (length f) e b ins"
    by (auto simp: list_all_iff)
  from Suc.prems have k1: "0 < k" by simp
  then obtain j where kj: "k = Suc j" by (cases k) auto
  have tgt: "returns_within k f t" if "t = e \<or> (b < t \<and> t < length f)" for t
  proof (cases "t = e")
    case True
    then show ?thesis using returns_exit [OF e ex] kj by simp
  next
    case False
    with that have "b < t" "t < length f" by auto
    moreover from this Suc.prems have "length f - t < k" by simp
    ultimately show ?thesis using Suc.IH False by blast
  qed
  show ?case
    using bo it tgt Suc.prems(1) by (cases ins) (simp_all add: ft)
qed

lemma TerminateBlock_terminates:
  assumes "TerminateBlock st = Inr (x, st')" and "target_block st < length (blocks st)"
  shows "getTerminator (blocks st' ! target_block st') \<noteq> None"
  using assms
  by (auto simp: TerminateBlock_def bindL_def getL_def Insert_def modifyL_def returnL_def
      getTerminator_append split: if_splits)

section \<open>Evaluation\<close>

text \<open>The defining equations by which the lifter is run on a given operation.\<close>

lemmas example_defs = ram_space_def register_space_def const_space_def unique_space_def
  example_env_def varnode_def pcode_def initial_lifter_def exit_block_body_def

lemmas monad_defs = bindL_def returnL_def failL_def getL_def modifyL_def deref_def orElse_def

lemmas builder_defs = Insert_def CreateAlloca_def CreateLoad_def CreateStore_def CreateCall_def
  CreateExtractValue_def CreateCast_def CreateZExtOrTrunc_def CreateBinOp_def CreateICmp_def
  CreateFCmp_def CreateFNeg_def CreateSelect_def CreateNot_def CreateNeg_def

lemmas location_defs = LoadRegAddress_def kMemoryVariableName_def GetMemoryType_def
  LoadFromMemory_def StoreToMemory_def GetUniquePtr_def uniques_GetUniquePtr_def
  unknown_regs_GetUniquePtr_def LiftOffsetOrReplace_def CreateMemoryAddress_def toupper_def
  LiftNormalRegister_def LiftNormalRegisterOrCreateUnique_def LiftParamPtr_def
  ApplyEqualityClaim_def FixResultForOutVarnode_def LiftInParam_def LiftIntegerInParam_def
  LiftFloatInParam_def LiftRequireOutParam_def LiftStoreIntoOutParam_def ConstantInt_get_def
  isVarnodeInConstantSpace_def

lemmas control_defs = kBranchTakenArgNum_def kNextPcArgNum_def GetBranchTakenRef_def
  GetNextPcRef_def BasicBlock_Create_def getTerminator_def TerminateBlockWithCondition_def
  TerminateBlock_def RedirectControlFlow_def UpdateStatus_def

lemmas lowering_defs = LiftUnaryOp_def ExtractOverflowBitFromCallToIntrinsic_def ShiftOperator_def
  CompareOperator_def INTEGER_BINARY_OPS_def BOOL_BINARY_OPS_def INTEGER_COMP_OPS_def
  LiftCBranch_def LiftIntegerBinOp_def LiftBoolBinOp_def FindFloatBinOpFunc_def
  LiftFloatBinOp_def LiftLoad_def LiftPiece_def LiftSubpiece_def LiftBinOp_def
  LiftThreeOperandOp_def LiftVariadicOp_def kEqualityClaimName_def kEqualityClaimArity_def
  GetOtherFuncName_def HandleCallOther_def LiftBranchTaken_def LiftBtakenIfReached_def
  LiftPcodeOp_def dump_def

lemmas eval_defs = example_defs monad_defs builder_defs location_defs control_defs lowering_defs
  OpCode_defs

section \<open>The claims\<close>

text \<open>
  Claim C1 (the lowering of \<^verbatim>\<open>INT_LESSEQUAL\<close> emits the unsigned less-or-equal predicate,
  \<^verbatim>\<open>INT_SLESSEQUAL\<close> the signed one, and the result is zero-extended to 8 bits).  The code
  does the opposite: the table maps \<^verbatim>\<open>INT_LESSEQUAL\<close> to \<^verbatim>\<open>ICMP_SLE\<close> and
  \<^verbatim>\<open>INT_SLESSEQUAL\<close> to \<^verbatim>\<open>ICMP_ULE\<close>, while its neighbours \<^verbatim>\<open>INT_LESS\<close> and \<^verbatim>\<open>INT_SLESS\<close>
  are \<^verbatim>\<open>ICMP_ULT\<close> and \<^verbatim>\<open>ICMP_SLT\<close>.  Lowering \<^verbatim>\<open>r0 = INT_LESSEQUAL r1, r2\<close> on one-byte
  registers emits a signed comparison; the zero-extension to 8 bits and the store are as
  claimed.  With r1 = 0x01 and r2 = 0xFF the emitted code writes 0, the unsigned
  comparison is true.
\<close>

theorem INT_LESSEQUAL_emits_signed_predicate:
  "INTEGER_BINARY_OPS CPUI_INT_LESSEQUAL = Some (CompareOperator ICMP_SLE) \<and>
   INTEGER_BINARY_OPS CPUI_INT_SLESSEQUAL = Some (CompareOperator ICMP_ULE) \<and>
   map_sum id (\<lambda>(r, st). (r, blocks st ! 0))
      (LiftBinOp example_env 0 CPUI_INT_LESSEQUAL (Some (varnode register_space 0 1))
         (varnode register_space 8 1) (varnode register_space 16 1) initial_lifter)
     = Inr (kLiftedInstruction,
            entry_block_body @
            [(4, Load (IntegerType 8) (RegAddress ''R1'')),
             (5, Load (IntegerType 8) (RegAddress ''R2'')),
             (6, ICmp ICMP_SLE (Inst 4 (IntegerType 8)) (Inst 5 (IntegerType 8))),
             (7, Cast ZExt (Inst 6 (IntegerType 1)) (IntegerType 8)),
             (8, Store (Inst 7 (IntegerType 8)) (RegAddress ''R0''))])"
  by (simp add: eval_defs entry_block_body_def)

text \<open>
  Claim C2 (\<^verbatim>\<open>PIECE\<close> zero-extends the high input to the output's width in bits, so that
  hi = 0xAA and lo = 0xBB give 0xAABB in a two-byte output).  The code passes the
  output's size in bytes as the number of bits of the target type: for a two-byte output
  the high byte is "extended" from 8 bits to the 2-bit integer type, then shifted by the
  low input's size in bytes (1), or-ed with the 8-bit low input and the 2-bit result
  is stored.  No 16-bit value is ever formed.
\<close>

theorem PIECE_extends_to_size_in_bits:
  "map_sum id (\<lambda>(r, st). (r, blocks st ! 0))
      (LiftBinOp example_env 0 CPUI_PIECE (Some (varnode register_space 0 2))
         (varnode register_space 8 1) (varnode register_space 16 1) initial_lifter)
     = Inr (kLiftedInstruction,
            entry_block_body @
            [(4, Load (IntegerType 8) (RegAddress ''R1'')),
             (5, Load (IntegerType 8) (RegAddress ''R2'')),
             (6, Cast ZExt (Inst 4 (IntegerType 8)) (IntegerType 2)),
             (7, BinOp Shl (Inst 6 (IntegerType 2)) (ConstantInt 8 1)),
             (8, BinOp Or (Inst 7 (IntegerType 2)) (Inst 5 (IntegerType 8))),
             (9, Store (Inst 8 (IntegerType 2)) (RegAddress ''R0''))])"
  by (simp add: eval_defs entry_block_body_def)


lemma oneInstruction_append:
  "oneInstruction env (pre @ post) st
     = bindL (oneInstruction env pre) (\<lambda>_. oneInstruction env post) st"
proof (induction pre arbitrary: st)
  case Nil
  show ?case by (simp add: bindL_def returnL_def)
next
  case (Cons p pre)
  show ?case
    by (simp add: bindL_def Cons.IH split: sum.splits)
qed

lemma status_freeD:
  assumes "status_free m" and "m st = Inr (x, st')"
  shows "status st' = status st"
proof -
  from assms(1) have "m (st\<lparr>status := status st\<rparr>)
      = (case m st of Inl e \<Rightarrow> Inl e | Inr (x, st') \<Rightarrow> Inr (x, st'\<lparr>status := status st\<rparr>))"
    unfolding status_free_def by blast
  with assms(2) have "st' = st'\<lparr>status := status st\<rparr>" by simp
  then have "status st' = status (st'\<lparr>status := status st\<rparr>)" by simp
  then show ?thesis by simp
qed

lemma status_free_case_list:
  "status_free m \<Longrightarrow> (\<And>x xs. status_free (f x xs))
     \<Longrightarrow> status_free (case l of [] \<Rightarrow> m | x # xs \<Rightarrow> f x xs)"
  by (simp split: list.splits)

lemma status_free_LiftPcodeOp_status: "status_free (LiftPcodeOp_status env b opc ov vs)"
  unfolding LiftPcodeOp_status_def
  by (intro status_free_if status_free_case_list status_free_basic(1) status_free_LiftBinOp
        simple_status_free [OF simple_LiftVariadicOp] simple_status_free [OF simple_HandleCallOther]
        simple_status_free [OF simple_LiftUnaryOp] simple_status_free [OF simple_LiftThreeOperandOp])

lemma UpdateStatus_records:
  "UpdateStatus s opc st = Inr ((), if s = kLiftedInstruction then st else st\<lparr>status := s\<rparr>)"
  by (simp add: UpdateStatus_def modifyL_def returnL_def)

lemma LiftPcodeOp_records:
  "LiftPcodeOp env bldr opc outvar vars
     = bindL (LiftPcodeOp_status env bldr opc outvar vars) (\<lambda>s. UpdateStatus s opc)"
proof -
  have "UpdateStatus kLiftedUnsupportedInstruction opc
          = bindL (returnL kLiftedUnsupportedInstruction) (\<lambda>s. UpdateStatus s opc)"
    by (simp add: bindL_def returnL_def)
  then show ?thesis
    by (simp add: LiftPcodeOp_def LiftPcodeOp_status_def split: list.splits)
qed

lemma last_failure_wins:
  assumes pre: "oneInstruction env pre st = Inr (u, stA)"
    and bt: "LiftBtakenIfReached env (target_block stA) (pcode_op p) stA = Inr (u', stA')"
    and p: "LiftPcodeOp_status env (target_block stA) (pcode_op p) (pcode_outvar p)
              (pcode_vars p) stA' = Inr (s, stB)"
    and s: "s \<noteq> kLiftedInstruction"
    and post: "oneInstruction env post
                 (stB\<lparr>status := kLiftedInstruction, curr_id := Suc (curr_id stB)\<rparr>)
               = Inr (w, stC)"
    and none: "status stC = kLiftedInstruction"
  shows "oneInstruction env (pre @ p # post) st = Inr ((), stC\<lparr>status := s\<rparr>)"
proof -
  have d: "dump env (pcode_op p) (pcode_outvar p) (pcode_vars p) stA
             = Inr ((), stB\<lparr>status := s, curr_id := Suc (curr_id stB)\<rparr>)"
    using bt p s
    by (simp add: dump_def LiftPcodeOp_records UpdateStatus_records bindL_def getL_def
        modifyL_def)
  have e: "stB\<lparr>status := x, curr_id := Suc (curr_id stB)\<rparr>
             = (stB\<lparr>curr_id := Suc (curr_id stB)\<rparr>)\<lparr>status := x\<rparr>" for x
    by simp
  have st: "oneInstruction env post
          ((stB\<lparr>curr_id := Suc (curr_id stB)\<rparr>)\<lparr>status := s\<rparr>)
        = (case oneInstruction env post
                  ((stB\<lparr>curr_id := Suc (curr_id stB)\<rparr>)\<lparr>status := kLiftedInstruction\<rparr>) of
             Inl e \<Rightarrow> Inl e
           | Inr (x, st') \<Rightarrow>
               Inr (x, st'\<lparr>status := (if status st' = kLiftedInstruction then s
                                        else status st')\<rparr>))"
    using sticky_oneInstruction [of env post] unfolding sticky_def by blast
  from post have post': "oneInstruction env post
          ((stB\<lparr>curr_id := Suc (curr_id stB)\<rparr>)\<lparr>status := kLiftedInstruction\<rparr>)
        = Inr (w, stC)"
    unfolding e .
  have "oneInstruction env post
          ((stB\<lparr>curr_id := Suc (curr_id stB)\<rparr>)\<lparr>status := s\<rparr>)
        = Inr ((), stC\<lparr>status := s\<rparr>)"
    unfolding st post' using none by simp
  then have "oneInstruction env post (stB\<lparr>status := s, curr_id := Suc (curr_id stB)\<rparr>)
               = Inr ((), stC\<lparr>status := s\<rparr>)"
    unfolding e .
  with pre d show ?thesis
    by (simp add: oneInstruction_append bindL_def)
qed



text \<open>
  Claim C4 (the pending substitution for a constant offset is discarded when an operation
  that is not a claim is lowered).  \<^verbatim>\<open>ApplyNonEqualityClaim\<close> is never called by
  \<^verbatim>\<open>LiftPcodeOp\<close> or anything else: after \<^verbatim>\<open>claim_eq(0xDEAD, r1)\<close> and a \<^verbatim>\<open>COPY\<close>, a
  \<^verbatim>\<open>BRANCH\<close> to offset 0xDEAD still stores the value of r1, not the constant 0xDEAD,
  into the next-PC cell.
\<close>

theorem claim_survives_a_non_claim_op:
  "LiftIntoInternalBlockWithSleighState example_env
     [pcode CPUI_CALLOTHER None
        [varnode const_space 0 4, varnode const_space 0xDEAD 8, varnode register_space 8 8],
      pcode CPUI_COPY (Some (varnode register_space 0 8)) [varnode register_space 16 8],
      pcode CPUI_BRANCH None [varnode ram_space 0xDEAD 8]]
   = Inr (kLiftedInstruction,
      Some [entry_block_body @
            [(4, Load (IntegerType 64) (RegAddress ''R2'')),
             (5, Store (Inst 4 (IntegerType 64)) (RegAddress ''R0'')),
             (6, Load (IntegerType 64) (RegAddress ''R1'')),
             (7, Store (Inst 6 (IntegerType 64)) GetNextPcRef),
             (8, Br 1)],
            exit_block_body])"
  by (simp add: lift_unfold isFloatOp_def eval_defs entry_block_body_def)

text \<open>
  Claim C5 says that the target of a \<^verbatim>\<open>CBRANCH\<close> is resolved at the width of the
  condition.  With an 8-byte target in \<open>ram\<close> and a one-byte condition in a register, the
  target is the 64-bit constant, not an 8-bit one.
\<close>

theorem CBRANCH_target_width_counterexample:
  "map_sum id (\<lambda>(r, st). (r, blocks st, target_block st))
      (LiftCBranch example_env 0 None (varnode ram_space 0x1000 8) (varnode register_space 8 1)
         initial_lifter)
     = Inr (kLiftedInstruction,
            [entry_block_body @
             [(4, Load (IntegerType 8) (RegAddress ''R1'')),
              (5, Cast Trunc (Inst 4 (IntegerType 8)) (IntegerType 1)),
              (6, Load (IntegerType 64) (RegAddress ''PC'')),
              (7, Select (Inst 5 (IntegerType 1)) (ConstantInt 64 4096) (Inst 6 (IntegerType 64))),
              (8, Store (Inst 7 (IntegerType 64)) GetNextPcRef),
              (9, CondBr (Inst 5 (IntegerType 1)) 1 2)],
             exit_block_body, []], 2) \<and>
   getType (ConstantInt 64 4096) = IntegerType 64 \<and>
   unat (size_vn (varnode register_space 8 1) * 8) = 8"
  by (simp add: eval_defs entry_block_body_def)

lemma LiftAsInParam_type:
  "LiftAsInParam env bldr p t st = Inr (Some v, st') \<Longrightarrow> getType v = t"
  by (cases p)
     (auto simp: CreateLoad_def LoadFromMemory_def CreateCall_def Insert_def bindL_def getL_def
        modifyL_def returnL_def split: if_splits)

lemma LiftInParam_type:
  "LiftInParam env bldr vnode t st = Inr (Some v, st') \<Longrightarrow> getType v = t"
  by (auto simp: LiftInParam_def bindL_def LiftAsInParam_type split: sum.splits)

lemma width_in_bits_not_1: "unat (w * 8 :: 32 word) \<noteq> 1"
proof
  assume "unat (w * 8) = 1"
  then have "w * 8 = 1" by (simp add: word_unat_eq_iff)
  moreover have "even (w * 8)" by simp
  ultimately show False by simp
qed

lemma CBRANCH_condition_width:
  "LiftInParam env bldr rhs (IntegerType (unat (size_vn rhs * 8))) st = Inr (Some sb, st1)
     \<Longrightarrow> getType sb \<noteq> IntegerType 1"
  using LiftInParam_type [of env bldr rhs "IntegerType (unat (size_vn rhs * 8))" st sb st1]
    width_in_bits_not_1 [of "size_vn rhs"]
  by auto

text \<open>
  Claim C5, as the code has it: the target is resolved at the width of the TARGET
  varnode.  A \<^verbatim>\<open>CBRANCH\<close> whose condition \<open>rhs\<close> cannot be read at its own width is
  \<open>Unsupported\<close>.  For a target \<open>lhs\<close> outside the constant space, when the condition is
  read at its own width as \<open>sb\<close>, the target is resolved through the replacement context
  at \<open>8 * size lhs\<close> bits as \<open>jump_addr\<close>, the architecture has a program counter and the
  builder stands at the current block, the lowering appends to that block the truncation
  of \<open>sb\<close> to one bit, the load of the program counter, the select between \<open>jump_addr\<close>
  and the program counter, its store into the next-PC cell and a conditional branch to
  the exit block (condition true) or to a new empty block, which becomes the current
  block.  When \<open>sb\<close> is a constant the builder folds the truncation: no instruction is
  emitted for it, and the select and the branch take the folded constant.
\<close>

theorem CBRANCH_lowering:
  "(\<forall>st1. LiftInParam env bldr rhs (IntegerType (unat (size_vn rhs * 8))) st = Inr (None, st1)
      \<longrightarrow> LiftCBranch env bldr outvar lhs rhs st = Inr (kLiftedUnsupportedInstruction, st1)) \<and>
   (\<forall>sb st1 jump_addr st2 pc_ptr n.
      \<not> isVarnodeInConstantSpace lhs \<and>
      LiftInParam env bldr rhs (IntegerType (unat (size_vn rhs * 8))) st = Inr (Some sb, st1) \<and>
      LiftOffsetOrReplace env bldr lhs (IntegerType (unat (size_vn lhs * 8))) st1
        = Inr (jump_addr, st2) \<and>
      LiftNormalRegister env bldr ''PC'' = Some (RegisterValue pc_ptr) \<and>
      target_block st2 = bldr \<and> bldr < length (blocks st2) \<and> n = next_id st2
      \<longrightarrow> getType jump_addr = IntegerType (unat (size_vn lhs * 8)) \<and>
          LiftCBranch env bldr outvar lhs rhs st
            = Inr (kLiftedInstruction,
                   if isConstant sb
                   then st2\<lparr>blocks := (blocks st2)
                          [bldr := blocks st2 ! bldr @
                             [(n, Load (GetWordType env) pc_ptr),
                              (n + 1, Select (ConstantExpr (IntegerType 1)
                                                (Cast Trunc sb (IntegerType 1)))
                                        jump_addr (Inst n (GetWordType env))),
                              (n + 2, Store (Inst (n + 1) (getType jump_addr)) GetNextPcRef),
                              (n + 3, CondBr (ConstantExpr (IntegerType 1)
                                                (Cast Trunc sb (IntegerType 1)))
                                        (exit_block st2) (length (blocks st2)))]]
                          @ [[]],
                       next_id := n + 4,
                       target_block := length (blocks st2)\<rparr>
                   else st2\<lparr>blocks := (blocks st2)
                          [bldr := blocks st2 ! bldr @
                             [(n, Cast Trunc sb (IntegerType 1)),
                              (n + 1, Load (GetWordType env) pc_ptr),
                              (n + 2, Select (Inst n (IntegerType 1)) jump_addr
                                        (Inst (n + 1) (GetWordType env))),
                              (n + 3, Store (Inst (n + 2) (getType jump_addr)) GetNextPcRef),
                              (n + 4, CondBr (Inst n (IntegerType 1)) (exit_block st2)
                                        (length (blocks st2)))]]
                          @ [[]],
                       next_id := n + 5,
                       target_block := length (blocks st2)\<rparr>))"
proof (intro conjI allI impI)
  fix st1
  assume "LiftInParam env bldr rhs (IntegerType (unat (size_vn rhs * 8))) st = Inr (None, st1)"
  then show "LiftCBranch env bldr outvar lhs rhs st = Inr (kLiftedUnsupportedInstruction, st1)"
    by (simp add: LiftCBranch_def bindL_def returnL_def)
next
  fix sb st1 jump_addr st2 pc_ptr n
  assume a: "\<not> isVarnodeInConstantSpace lhs \<and>
      LiftInParam env bldr rhs (IntegerType (unat (size_vn rhs * 8))) st = Inr (Some sb, st1) \<and>
      LiftOffsetOrReplace env bldr lhs (IntegerType (unat (size_vn lhs * 8))) st1
        = Inr (jump_addr, st2) \<and>
      LiftNormalRegister env bldr ''PC'' = Some (RegisterValue pc_ptr) \<and>
      target_block st2 = bldr \<and> bldr < length (blocks st2) \<and> n = next_id st2"
  then have tgt: "LiftOffsetOrReplace env bldr lhs (IntegerType (unat (size_vn lhs * 8))) st1
        = Inr (jump_addr, st2)" by simp
  show "getType jump_addr = IntegerType (unat (size_vn lhs * 8))"
  proof (cases "current_replacements st1 (offset lhs)")
    case None
    with tgt show ?thesis
      by (auto simp: LiftOffsetOrReplace_def bindL_def getL_def returnL_def ConstantInt_get_def)
  next
    case (Some param)
    with tgt show ?thesis
      by (auto simp: LiftOffsetOrReplace_def bindL_def getL_def returnL_def failL_def modifyL_def
          LiftAsInParam_type split: sum.splits option.splits)
  qed
next
  fix sb st1 jump_addr st2 pc_ptr n
  assume a: "\<not> isVarnodeInConstantSpace lhs \<and>
      LiftInParam env bldr rhs (IntegerType (unat (size_vn rhs * 8))) st = Inr (Some sb, st1) \<and>
      LiftOffsetOrReplace env bldr lhs (IntegerType (unat (size_vn lhs * 8))) st1
        = Inr (jump_addr, st2) \<and>
      LiftNormalRegister env bldr ''PC'' = Some (RegisterValue pc_ptr) \<and>
      target_block st2 = bldr \<and> bldr < length (blocks st2) \<and> n = next_id st2"
  then have w: "getType sb \<noteq> IntegerType 1"
    using CBRANCH_condition_width by blast
  show "LiftCBranch env bldr outvar lhs rhs st
            = Inr (kLiftedInstruction,
                   if isConstant sb
                   then st2\<lparr>blocks := (blocks st2)
                          [bldr := blocks st2 ! bldr @
                             [(n, Load (GetWordType env) pc_ptr),
                              (n + 1, Select (ConstantExpr (IntegerType 1)
                                                (Cast Trunc sb (IntegerType 1)))
                                        jump_addr (Inst n (GetWordType env))),
                              (n + 2, Store (Inst (n + 1) (getType jump_addr)) GetNextPcRef),
                              (n + 3, CondBr (ConstantExpr (IntegerType 1)
                                                (Cast Trunc sb (IntegerType 1)))
                                        (exit_block st2) (length (blocks st2)))]]
                          @ [[]],
                       next_id := n + 4,
                       target_block := length (blocks st2)\<rparr>
                   else st2\<lparr>blocks := (blocks st2)
                          [bldr := blocks st2 ! bldr @
                             [(n, Cast Trunc sb (IntegerType 1)),
                              (n + 1, Load (GetWordType env) pc_ptr),
                              (n + 2, Select (Inst n (IntegerType 1)) jump_addr
                                        (Inst (n + 1) (GetWordType env))),
                              (n + 3, Store (Inst (n + 2) (getType jump_addr)) GetNextPcRef),
                              (n + 4, CondBr (Inst n (IntegerType 1)) (exit_block st2)
                                        (length (blocks st2)))]]
                          @ [[]],
                       next_id := n + 5,
                       target_block := length (blocks st2)\<rparr>)"
    using a w
    by (simp add: LiftCBranch_def TerminateBlockWithCondition_def BasicBlock_Create_def
        CreateCast_def CreateSelect_def CreateStore_def CreateLoad_def Insert_def
        bindL_def getL_def modifyL_def returnL_def nth_append list_update_append
        eval_nat_numeral)
qed

theorem CBRANCH_lowering_witness:
  "LiftCBranch example_env 0 None (varnode ram_space 0x1000 8) (varnode register_space 8 1)
     initial_lifter
   = Inr (kLiftedInstruction,
          initial_lifter
            \<lparr>blocks :=
               [entry_block_body @
                [(4, Load (IntegerType 8) (RegAddress ''R1'')),
                 (5, Cast Trunc (Inst 4 (IntegerType 8)) (IntegerType 1)),
                 (6, Load (IntegerType 64) (RegAddress ''PC'')),
                 (7, Select (Inst 5 (IntegerType 1)) (ConstantInt 64 4096)
                       (Inst 6 (IntegerType 64))),
                 (8, Store (Inst 7 (IntegerType 64)) GetNextPcRef),
                 (9, CondBr (Inst 5 (IntegerType 1)) 1 2)],
                exit_block_body, []],
             next_id := 10, target_block := 2\<rparr>) \<and>
   LiftCBranch example_env 0 None (varnode ram_space 0x1000 8) (varnode const_space 1 1)
     initial_lifter
   = Inr (kLiftedInstruction,
          initial_lifter
            \<lparr>blocks :=
               [entry_block_body @
                [(4, Load (IntegerType 64) (RegAddress ''PC'')),
                 (5, Select (ConstantExpr (IntegerType 1)
                               (Cast Trunc (ConstantInt 8 1) (IntegerType 1)))
                       (ConstantInt 64 4096) (Inst 4 (IntegerType 64))),
                 (6, Store (Inst 5 (IntegerType 64)) GetNextPcRef),
                 (7, CondBr (ConstantExpr (IntegerType 1)
                               (Cast Trunc (ConstantInt 8 1) (IntegerType 1))) 1 2)],
                exit_block_body, []],
             next_id := 8, target_block := 2\<rparr>) \<and>
   LiftCBranch example_env 0 None (varnode ram_space 0x1000 8) (varnode ram_space 0x2000 16)
     initial_lifter
   = Inr (kLiftedUnsupportedInstruction,
          initial_lifter
            \<lparr>blocks :=
               [entry_block_body @ [(4, Load PointerTy (RegAddress ''MEMORY''))],
                exit_block_body],
             next_id := 5\<rparr>)"
proof -
  let ?st1 = "initial_lifter
    \<lparr>blocks := [entry_block_body @ [(4, Load (IntegerType 8) (RegAddress ''R1''))],
                 exit_block_body],
     next_id := 5\<rparr>"
  let ?st3 = "initial_lifter
    \<lparr>blocks := [entry_block_body @ [(4, Load PointerTy (RegAddress ''MEMORY''))],
                 exit_block_body],
     next_id := 5\<rparr>"
  note th = CBRANCH_lowering [where env = example_env and bldr = 0 and outvar = None
      and lhs = "varnode ram_space 0x1000 8" and st = initial_lifter]
  have nc: "\<not> isVarnodeInConstantSpace (varnode ram_space 0x1000 8)"
    by (simp add: eval_defs)
  have pc: "LiftNormalRegister example_env 0 ''PC'' = Some (RegisterValue (RegAddress ''PC''))"
    by (simp add: eval_defs)
  have cond1: "LiftInParam example_env 0 (varnode register_space 8 1)
                (IntegerType (unat (size_vn (varnode register_space 8 1) * 8))) initial_lifter
              = Inr (Some (Inst 4 (IntegerType 8)), ?st1)"
    by (simp add: eval_defs entry_block_body_def)
  have tgt1: "LiftOffsetOrReplace example_env 0 (varnode ram_space 0x1000 8)
               (IntegerType (unat (size_vn (varnode ram_space 0x1000 8) * 8))) ?st1
             = Inr (ConstantInt 64 4096, ?st1)"
    by (simp add: eval_defs entry_block_body_def)
  have cond2: "LiftInParam example_env 0 (varnode const_space 1 1)
                (IntegerType (unat (size_vn (varnode const_space 1 1) * 8))) initial_lifter
              = Inr (Some (ConstantInt 8 1), initial_lifter)"
    by (simp add: eval_defs Let_def)
  have tgt2: "LiftOffsetOrReplace example_env 0 (varnode ram_space 0x1000 8)
               (IntegerType (unat (size_vn (varnode ram_space 0x1000 8) * 8))) initial_lifter
             = Inr (ConstantInt 64 4096, initial_lifter)"
    by (simp add: eval_defs)
  have cond3: "LiftInParam example_env 0 (varnode ram_space 0x2000 16)
                (IntegerType (unat (size_vn (varnode ram_space 0x2000 16) * 8))) initial_lifter
              = Inr (None, ?st3)"
    by (simp add: eval_defs entry_block_body_def Let_def)
  have a: "LiftCBranch example_env 0 None (varnode ram_space 0x1000 8)
             (varnode register_space 8 1) initial_lifter
           = Inr (kLiftedInstruction,
          initial_lifter
            \<lparr>blocks :=
               [entry_block_body @
                [(4, Load (IntegerType 8) (RegAddress ''R1'')),
                 (5, Cast Trunc (Inst 4 (IntegerType 8)) (IntegerType 1)),
                 (6, Load (IntegerType 64) (RegAddress ''PC'')),
                 (7, Select (Inst 5 (IntegerType 1)) (ConstantInt 64 4096)
                       (Inst 6 (IntegerType 64))),
                 (8, Store (Inst 7 (IntegerType 64)) GetNextPcRef),
                 (9, CondBr (Inst 5 (IntegerType 1)) 1 2)],
                exit_block_body, []],
             next_id := 10, target_block := 2\<rparr>)"
    using th [where rhs = "varnode register_space 8 1", THEN conjunct2, rule_format,
              of "Inst 4 (IntegerType 8)" ?st1 "ConstantInt 64 4096" ?st1 "RegAddress ''PC''" 5]
      nc cond1 tgt1 pc
    by (simp add: example_defs entry_block_body_def)
  have b: "LiftCBranch example_env 0 None (varnode ram_space 0x1000 8)
             (varnode const_space 1 1) initial_lifter
   = Inr (kLiftedInstruction,
          initial_lifter
            \<lparr>blocks :=
               [entry_block_body @
                [(4, Load (IntegerType 64) (RegAddress ''PC'')),
                 (5, Select (ConstantExpr (IntegerType 1)
                               (Cast Trunc (ConstantInt 8 1) (IntegerType 1)))
                       (ConstantInt 64 4096) (Inst 4 (IntegerType 64))),
                 (6, Store (Inst 5 (IntegerType 64)) GetNextPcRef),
                 (7, CondBr (ConstantExpr (IntegerType 1)
                               (Cast Trunc (ConstantInt 8 1) (IntegerType 1))) 1 2)],
                exit_block_body, []],
             next_id := 8, target_block := 2\<rparr>)"
    using th [where rhs = "varnode const_space 1 1", THEN conjunct2, rule_format,
              of "ConstantInt 8 1" initial_lifter "ConstantInt 64 4096" initial_lifter
                 "RegAddress ''PC''" 4]
      nc cond2 tgt2 pc
    by (simp add: example_defs entry_block_body_def)
  have c: "LiftCBranch example_env 0 None (varnode ram_space 0x1000 8)
             (varnode ram_space 0x2000 16) initial_lifter
           = Inr (kLiftedUnsupportedInstruction, ?st3)"
    using th [where rhs = "varnode ram_space 0x2000 16", THEN conjunct1, rule_format, of ?st3]
      cond3
    by simp
  from a b c show ?thesis by blast
qed

text \<open>
  Claim C6 says that \<^verbatim>\<open>claim_eq\<close> emits no instruction.  When the claimed value is a
  varnode of the unique space that has no cell yet, recording the claim allocates it.
\<close>

theorem claim_emits_alloca_counterexample:
  "map_sum id (\<lambda>(r, st). (r, blocks st ! 0))
      (HandleCallOther example_env 0 None
         [varnode const_space 0 4, varnode const_space 0xDEAD 8, varnode unique_space 0x100 8]
         initial_lifter)
     = Inr (kLiftedInstruction,
            entry_block_body @ [(4, Alloca (IntegerType 64) ''unique_100:8'')])"
  by (simp add: eval_defs entry_block_body_def digits.simps)

text \<open>
  Claim C6, as the code has it.  A \<^verbatim>\<open>CALLOTHER\<close> with no input, or whose first input's
  offset is not an index of the list of names, is \<open>Unsupported\<close> and changes nothing;
  so is one whose name is not \<^verbatim>\<open>claim_eq\<close>, and a \<^verbatim>\<open>claim_eq\<close> that does not have exactly
  three inputs.  A \<^verbatim>\<open>claim_eq\<close> with three inputs, the second in the constant space,
  locates the third with \<^verbatim>\<open>LiftParamPtr\<close> and returns \<open>Lifted\<close> from the state that
  leaves, with the claim recorded unless the offset already has one.  Locating a register
  the architecture names changes nothing (no instruction is emitted); locating a
  unique-space varnode that has no cell yet appends the allocation of its cell.
\<close>

theorem CALLOTHER_lowering:
  "(vars = [] \<or> length (user_op_names env) \<le> unat (offset (vars ! 0))
      \<longrightarrow> HandleCallOther env bldr outvar vars st = Inr (kLiftedUnsupportedInstruction, st)) \<and>
   (vars \<noteq> [] \<and> unat (offset (vars ! 0)) < length (user_op_names env) \<and>
    (user_op_names env ! unat (offset (vars ! 0)) \<noteq> kEqualityClaimName \<or> length vars \<noteq> 3)
      \<longrightarrow> HandleCallOther env bldr outvar vars st = Inr (kLiftedUnsupportedInstruction, st)) \<and>
   (length vars = 3 \<and> unat (offset (vars ! 0)) < length (user_op_names env) \<and>
    user_op_names env ! unat (offset (vars ! 0)) = kEqualityClaimName \<and>
    isVarnodeInConstantSpace (vars ! 1) \<and>
    LiftParamPtr env bldr (vars ! 2) st = Inr (p, st1)
      \<longrightarrow> HandleCallOther env bldr outvar vars st
            = Inr (kLiftedInstruction,
                   if current_replacements st1 (offset (vars ! 1)) = None
                   then st1\<lparr>current_replacements :=
                              (current_replacements st1)(offset (vars ! 1) \<mapsto> p)\<rparr>
                   else st1)) \<and>
   (getName (space v) = ''register'' \<and>
    LiftNormalRegister env bldr (getRegisterName env (space v) (offset v) (size_vn v)) = Some r
      \<longrightarrow> LiftParamPtr env bldr v st = Inr (r, st)) \<and>
   (getName (space v) = ''unique'' \<and> uniques st (offset v) = None
      \<longrightarrow> LiftParamPtr env bldr v st
            = Inr (RegisterValue (Inst (next_id st) PointerTy),
                   st\<lparr>blocks := (blocks st)
                          [bldr := blocks st ! bldr @
                             [(next_id st,
                               Alloca (IntegerType (unat (ucast (8 * (ucast (size_vn v) :: 64 word))
                                                            :: 32 word)))
                                 (''unique_'' @ digits 16 (unat (offset v)) @ '':'' @
                                  digits 10 (unat (ucast (size_vn v) :: 64 word))))]],
                        next_id := Suc (next_id st),
                        uniques := (uniques st)(offset v \<mapsto> Inst (next_id st) PointerTy)\<rparr>))"
proof (intro conjI impI)
  assume "vars = [] \<or> length (user_op_names env) \<le> unat (offset (vars ! 0))"
  then show "HandleCallOther env bldr outvar vars st = Inr (kLiftedUnsupportedInstruction, st)"
    by (cases vars) (auto simp: HandleCallOther_def GetOtherFuncName_def returnL_def)
next
  assume "vars \<noteq> [] \<and> unat (offset (vars ! 0)) < length (user_op_names env) \<and>
    (user_op_names env ! unat (offset (vars ! 0)) \<noteq> kEqualityClaimName \<or> length vars \<noteq> 3)"
  then show "HandleCallOther env bldr outvar vars st = Inr (kLiftedUnsupportedInstruction, st)"
    by (cases vars)
      (auto simp: HandleCallOther_def GetOtherFuncName_def returnL_def kEqualityClaimArity_def)
next
  assume a: "length vars = 3 \<and> unat (offset (vars ! 0)) < length (user_op_names env) \<and>
    user_op_names env ! unat (offset (vars ! 0)) = kEqualityClaimName \<and>
    isVarnodeInConstantSpace (vars ! 1) \<and>
    LiftParamPtr env bldr (vars ! 2) st = Inr (p, st1)"
  then have "vars \<noteq> []" by auto
  with a show "HandleCallOther env bldr outvar vars st
            = Inr (kLiftedInstruction,
                   if current_replacements st1 (offset (vars ! 1)) = None
                   then st1\<lparr>current_replacements :=
                              (current_replacements st1)(offset (vars ! 1) \<mapsto> p)\<rparr>
                   else st1)"
    by (cases vars)
      (simp_all add: HandleCallOther_def GetOtherFuncName_def returnL_def kEqualityClaimArity_def
        ApplyEqualityClaim_def bindL_def modifyL_def)
next
  assume "getName (space v) = ''register'' \<and>
    LiftNormalRegister env bldr (getRegisterName env (space v) (offset v) (size_vn v)) = Some r"
  then show "LiftParamPtr env bldr v st = Inr (r, st)"
    by (simp add: LiftParamPtr_def LiftNormalRegisterOrCreateUnique_def returnL_def)
next
  assume "getName (space v) = ''unique'' \<and> uniques st (offset v) = None"
  then show "LiftParamPtr env bldr v st
            = Inr (RegisterValue (Inst (next_id st) PointerTy),
                   st\<lparr>blocks := (blocks st)
                          [bldr := blocks st ! bldr @
                             [(next_id st,
                               Alloca (IntegerType (unat (ucast (8 * (ucast (size_vn v) :: 64 word))
                                                            :: 32 word)))
                                 (''unique_'' @ digits 16 (unat (offset v)) @ '':'' @
                                  digits 10 (unat (ucast (size_vn v) :: 64 word))))]],
                        next_id := Suc (next_id st),
                        uniques := (uniques st)(offset v \<mapsto> Inst (next_id st) PointerTy)\<rparr>)"
    by (simp add: LiftParamPtr_def uniques_GetUniquePtr_def GetUniquePtr_def CreateAlloca_def
        Insert_def bindL_def getL_def modifyL_def returnL_def)
qed

theorem CALLOTHER_lowering_witness:
  "HandleCallOther example_env 0 None [] initial_lifter
     = Inr (kLiftedUnsupportedInstruction, initial_lifter) \<and>
   HandleCallOther example_env 0 None [varnode const_space 1 4] initial_lifter
     = Inr (kLiftedUnsupportedInstruction, initial_lifter) \<and>
   HandleCallOther example_env 0 None
       [varnode const_space 0 4, varnode const_space 0xDEAD 8] initial_lifter
     = Inr (kLiftedUnsupportedInstruction, initial_lifter) \<and>
   HandleCallOther example_env 0 None
       [varnode const_space 0 4, varnode const_space 0xDEAD 8, varnode register_space 8 8]
       initial_lifter
     = Inr (kLiftedInstruction,
            initial_lifter\<lparr>current_replacements :=
               [0xDEAD \<mapsto> RegisterValue (RegAddress ''R1'')]\<rparr>) \<and>
   LiftParamPtr example_env 0 (varnode register_space 8 8) initial_lifter
     = Inr (RegisterValue (RegAddress ''R1''), initial_lifter) \<and>
   LiftParamPtr example_env 0 (varnode unique_space 0x100 8) initial_lifter
     = Inr (RegisterValue (Inst 4 PointerTy),
            initial_lifter
              \<lparr>blocks := [entry_block_body @ [(4, Alloca (IntegerType 64) ''unique_100:8'')],
                           exit_block_body],
               next_id := 5,
               uniques := [0x100 \<mapsto> Inst 4 PointerTy]\<rparr>)"
proof -
  note a = CALLOTHER_lowering
      [where env = example_env and bldr = 0 and outvar = None and st = initial_lifter]
  have reg: "LiftParamPtr example_env 0 (varnode register_space 8 8) initial_lifter
     = Inr (RegisterValue (RegAddress ''R1''), initial_lifter)"
    using a [where vars = "[]" and v = "varnode register_space 8 8"
               and r = "RegisterValue (RegAddress ''R1'')"]
    by (simp add: example_defs LiftNormalRegister_def toupper_def LoadRegAddress_def)
  have uniq: "LiftParamPtr example_env 0 (varnode unique_space 0x100 8) initial_lifter
     = Inr (RegisterValue (Inst 4 PointerTy),
            initial_lifter
              \<lparr>blocks := [entry_block_body @ [(4, Alloca (IntegerType 64) ''unique_100:8'')],
                           exit_block_body],
               next_id := 5,
               uniques := [0x100 \<mapsto> Inst 4 PointerTy]\<rparr>)"
    using a [where vars = "[]" and v = "varnode unique_space 0x100 8"]
    by (simp add: example_defs entry_block_body_def digits.simps)
  have none: "HandleCallOther example_env 0 None [] initial_lifter
     = Inr (kLiftedUnsupportedInstruction, initial_lifter)"
    using a [where vars = "[]"] by simp
  have range: "HandleCallOther example_env 0 None [varnode const_space 1 4] initial_lifter
     = Inr (kLiftedUnsupportedInstruction, initial_lifter)"
    using a [where vars = "[varnode const_space 1 4]"] by (simp add: example_defs)
  have arity: "HandleCallOther example_env 0 None
       [varnode const_space 0 4, varnode const_space 0xDEAD 8] initial_lifter
     = Inr (kLiftedUnsupportedInstruction, initial_lifter)"
    using a [where vars = "[varnode const_space 0 4, varnode const_space 0xDEAD 8]"]
    by (simp add: example_defs)
  have claim: "HandleCallOther example_env 0 None
       [varnode const_space 0 4, varnode const_space 0xDEAD 8, varnode register_space 8 8]
       initial_lifter
     = Inr (kLiftedInstruction,
            initial_lifter\<lparr>current_replacements :=
               [0xDEAD \<mapsto> RegisterValue (RegAddress ''R1'')]\<rparr>)"
    using a [where vars = "[varnode const_space 0 4, varnode const_space 0xDEAD 8,
                            varnode register_space 8 8]"
               and p = "RegisterValue (RegAddress ''R1'')" and ?st1.0 = initial_lifter] reg
    by (simp add: example_defs kEqualityClaimName_def isVarnodeInConstantSpace_def)
  from none range arity claim reg uniq show ?thesis by blast
qed

text \<open>
  Claim C7: when lifting produces a function, every block of it ends in a terminator,
  and every path from the entry block reaches a return of a value of the memory-pointer
  type (\<open>returns_within\<close> follows the first terminator of each block, as execution does,
  for at most as many steps as there are blocks plus one).
\<close>

theorem lift_blocks_terminated_and_return:
  assumes "LiftIntoInternalBlockWithSleighState env ops = Inr (s, Some f)"
  shows "list_all has_terminator f \<and> returns_within (Suc (length f)) f 0"
proof -
  from assms obtain u st1 w st2
    where run: "oneInstruction env ops initial_lifter = Inr (u, st1)"
      and fin: "TerminateBlock st1 = Inr (w, st2)" and f: "f = blocks st2"
    by (auto simp: lift_unfold bindL_def split: if_splits sum.splits)
  from keeps_inv_oneInstruction cfg_invariant_initial run have inv1: "cfg_invariant st1"
    unfolding keeps_inv_def by blast
  with keeps_cfg_TerminateBlock [of "target_block st1"] fin
  have inv2: "cfg_invariant st2" and tb: "target_block st2 = target_block st1"
    unfolding keeps_cfg_def by blast+
  from TerminateBlock_terminates [OF fin cfg_invariantD(2) [OF inv1]]
  have tt: "getTerminator (blocks st2 ! target_block st2) \<noteq> None" .
  have ex: "blocks st2 ! exit_block st2 = exit_block_body"
    by (rule cfg_invariantD(4) [OF inv2])
  have all: "getTerminator (f ! b) \<noteq> None" if "b < length f" for b
  proof -
    consider "b = target_block st2" | "b = exit_block st2"
      | "b \<noteq> target_block st2" "b \<noteq> exit_block st2" by blast
    then show ?thesis
    proof cases
      case 1
      with tt show ?thesis by (simp add: f)
    next
      case 2
      with ex show ?thesis by (simp add: f exit_block_body_def getTerminator_def)
    next
      case 3
      with cfg_invariantD(5) [OF inv2, of b] that show ?thesis by (simp add: f)
    qed
  qed
  then have "list_all has_terminator f"
    by (simp add: list_all_length has_terminator_def)
  moreover have "returns_within (Suc (length f)) f 0"
  proof (rule returns_from [where e = "exit_block st2"])
    show "list_all (\<lambda>x. branch_ok (length f) (exit_block st2) b (snd x)) (f ! b)"
      if "b < length f" "b \<noteq> exit_block st2" for b
      using cfg_invariantD(6) [OF inv2, of b] that by (simp add: f)
    show "getTerminator (f ! b) \<noteq> None" if "b < length f" for b by (rule all [OF that])
    show "exit_block st2 < length f" using cfg_invariantD(1) [OF inv2] by (simp add: f)
    show "f ! exit_block st2 = exit_block_body" using ex by (simp add: f)
    show "0 < length f" using cfg_invariantD(1) [OF inv2] by (cases "blocks st2") (simp_all add: f)
    show "0 \<noteq> exit_block st2" using cfg_invariantD(7) [OF inv2] by simp
    show "length f - 0 < Suc (length f)" by simp
  qed
  ultimately show ?thesis by simp
qed

text \<open>
  The theorem of claim C7 at an instruction with a conditional branch, an indirect
  branch and a copy: three blocks, each ends in a terminator, each path returns.
\<close>

theorem lift_blocks_terminated_and_return_witness:
  "LiftIntoInternalBlockWithSleighState example_env
     [pcode CPUI_CBRANCH None [varnode ram_space 0x1000 8, varnode register_space 8 1],
      pcode CPUI_BRANCHIND None [varnode register_space 16 8],
      pcode CPUI_COPY (Some (varnode register_space 0 8)) [varnode register_space 8 8]]
   = Inr (kLiftedInstruction,
      Some [entry_block_body @
             [(4, Load (IntegerType 8) (RegAddress ''R1'')),
              (5, Cast Trunc (Inst 4 (IntegerType 8)) (IntegerType 1)),
              (6, Load (IntegerType 64) (RegAddress ''PC'')),
              (7, Select (Inst 5 (IntegerType 1)) (ConstantInt 64 4096) (Inst 6 (IntegerType 64))),
              (8, Store (Inst 7 (IntegerType 64)) GetNextPcRef),
              (9, CondBr (Inst 5 (IntegerType 1)) 1 2)],
            exit_block_body,
            [(10, Load (IntegerType 64) (RegAddress ''R2'')),
             (11, Store (Inst 10 (IntegerType 64)) GetNextPcRef),
             (12, Br 1),
             (13, Load (IntegerType 64) (RegAddress ''R1'')),
             (14, Store (Inst 13 (IntegerType 64)) (RegAddress ''R0'')),
             (15, Br 1)]]) \<and>
   list_all has_terminator
     [entry_block_body @
             [(4, Load (IntegerType 8) (RegAddress ''R1'')),
              (5, Cast Trunc (Inst 4 (IntegerType 8)) (IntegerType 1)),
              (6, Load (IntegerType 64) (RegAddress ''PC'')),
              (7, Select (Inst 5 (IntegerType 1)) (ConstantInt 64 4096) (Inst 6 (IntegerType 64))),
              (8, Store (Inst 7 (IntegerType 64)) GetNextPcRef),
              (9, CondBr (Inst 5 (IntegerType 1)) 1 2)],
            exit_block_body,
            [(10, Load (IntegerType 64) (RegAddress ''R2'')),
             (11, Store (Inst 10 (IntegerType 64)) GetNextPcRef),
             (12, Br 1),
             (13, Load (IntegerType 64) (RegAddress ''R1'')),
             (14, Store (Inst 13 (IntegerType 64)) (RegAddress ''R0'')),
             (15, Br 1)]] \<and>
   returns_within 4
     [entry_block_body @
             [(4, Load (IntegerType 8) (RegAddress ''R1'')),
              (5, Cast Trunc (Inst 4 (IntegerType 8)) (IntegerType 1)),
              (6, Load (IntegerType 64) (RegAddress ''PC'')),
              (7, Select (Inst 5 (IntegerType 1)) (ConstantInt 64 4096) (Inst 6 (IntegerType 64))),
              (8, Store (Inst 7 (IntegerType 64)) GetNextPcRef),
              (9, CondBr (Inst 5 (IntegerType 1)) 1 2)],
            exit_block_body,
            [(10, Load (IntegerType 64) (RegAddress ''R2'')),
             (11, Store (Inst 10 (IntegerType 64)) GetNextPcRef),
             (12, Br 1),
             (13, Load (IntegerType 64) (RegAddress ''R1'')),
             (14, Store (Inst 13 (IntegerType 64)) (RegAddress ''R0'')),
             (15, Br 1)]] 0"
proof -
  have lifted: "LiftIntoInternalBlockWithSleighState example_env
     [pcode CPUI_CBRANCH None [varnode ram_space 0x1000 8, varnode register_space 8 1],
      pcode CPUI_BRANCHIND None [varnode register_space 16 8],
      pcode CPUI_COPY (Some (varnode register_space 0 8)) [varnode register_space 8 8]]
   = Inr (kLiftedInstruction,
      Some [entry_block_body @
             [(4, Load (IntegerType 8) (RegAddress ''R1'')),
              (5, Cast Trunc (Inst 4 (IntegerType 8)) (IntegerType 1)),
              (6, Load (IntegerType 64) (RegAddress ''PC'')),
              (7, Select (Inst 5 (IntegerType 1)) (ConstantInt 64 4096) (Inst 6 (IntegerType 64))),
              (8, Store (Inst 7 (IntegerType 64)) GetNextPcRef),
              (9, CondBr (Inst 5 (IntegerType 1)) 1 2)],
            exit_block_body,
            [(10, Load (IntegerType 64) (RegAddress ''R2'')),
             (11, Store (Inst 10 (IntegerType 64)) GetNextPcRef),
             (12, Br 1),
             (13, Load (IntegerType 64) (RegAddress ''R1'')),
             (14, Store (Inst 13 (IntegerType 64)) (RegAddress ''R0'')),
             (15, Br 1)]])"
    by (simp add: lift_unfold isFloatOp_def eval_defs entry_block_body_def)
  from lift_blocks_terminated_and_return [OF lifted] lifted show ?thesis
    by (simp add: eval_nat_numeral)
qed

text \<open>
  Claim C8 says that a lowering that returns \<open>Unsupported\<close> emits nothing.  An
  \<^verbatim>\<open>INT_EQUAL\<close> with no output varnode reads both inputs, compares them and extends the
  result before it finds that there is nowhere to store it.
\<close>

theorem unsupported_after_emitting_counterexample:
  "map_sum id (\<lambda>(r, st). (status st, blocks st ! 0))
      (LiftPcodeOp example_env 0 CPUI_INT_EQUAL None
         [varnode register_space 8 1, varnode register_space 16 1] initial_lifter)
     = Inr (kLiftedUnsupportedInstruction,
            entry_block_body @
            [(4, Load (IntegerType 8) (RegAddress ''R1'')),
             (5, Load (IntegerType 8) (RegAddress ''R2'')),
             (6, ICmp ICMP_EQ (Inst 4 (IntegerType 8)) (Inst 5 (IntegerType 8))),
             (7, Cast ZExt (Inst 6 (IntegerType 1)) (IntegerType 8))])"
  by (simp add: eval_defs entry_block_body_def)

lemma LiftPcodeOp_CPOOLREF:
  "LiftPcodeOp env bldr CPUI_CPOOLREF outvar vars st
     = Inr ((), st\<lparr>status := kLiftedUnsupportedInstruction\<rparr>)"
  by (simp add: LiftPcodeOp_def LiftVariadicOp_def UpdateStatus_def bindL_def returnL_def
      modifyL_def OpCode_defs)

lemma LiftPcodeOp_arity:
  assumes "opc \<noteq> CPUI_CPOOLREF" "opc \<noteq> CPUI_MULTIEQUAL" "opc \<noteq> CPUI_CALLOTHER"
    and "length vars \<noteq> 1" "length vars \<noteq> 2" "length vars \<noteq> 3"
  shows "LiftPcodeOp env bldr opc outvar vars st
     = Inr ((), st\<lparr>status := kLiftedUnsupportedInstruction\<rparr>)"
proof -
  have "(case vars of [] \<Rightarrow> d | [v0] \<Rightarrow> a v0 | [v0, v1] \<Rightarrow> b v0 v1 | [v0, v1, v2] \<Rightarrow> c v0 v1 v2
          | v0 # v1 # v2 # v3 # r \<Rightarrow> d) = d" for a b c and d :: "unit Emit"
    using assms(4-6) by (auto split: list.splits)
  with assms(1-3) show ?thesis
    by (simp add: LiftPcodeOp_def UpdateStatus_def modifyL_def)
qed

lemma LiftPcodeOp_unary:
  assumes "opc \<noteq> CPUI_CPOOLREF" "opc \<noteq> CPUI_MULTIEQUAL" "opc \<noteq> CPUI_CALLOTHER"
    and "LiftUnaryOp env bldr opc outvar v0 st = Inr (kLiftedUnsupportedInstruction, st)"
  shows "LiftPcodeOp env bldr opc outvar [v0] st
     = Inr ((), st\<lparr>status := kLiftedUnsupportedInstruction\<rparr>)"
  using assms by (simp add: LiftPcodeOp_def UpdateStatus_def modifyL_def bindL_def)

lemma LiftUnaryOp_other:
  assumes "opc \<notin> {CPUI_BOOL_NEGATE, CPUI_COPY, CPUI_CAST, CPUI_BRANCH, CPUI_CALL, CPUI_RETURN,
                     CPUI_BRANCHIND, CPUI_CALLIND, CPUI_INT_ZEXT, CPUI_INT_SEXT, CPUI_INT_2COMP,
                     CPUI_INT_NEGATE, CPUI_FLOAT_NEG, CPUI_FLOAT_ABS, CPUI_FLOAT_SQRT,
                     CPUI_FLOAT_CEIL, CPUI_FLOAT_FLOOR, CPUI_FLOAT_ROUND, CPUI_FLOAT_NAN,
                     CPUI_FLOAT_INT2FLOAT, CPUI_FLOAT_FLOAT2FLOAT, CPUI_FLOAT_TRUNC,
                     CPUI_POPCOUNT}"
  shows "LiftUnaryOp env bldr opc outvar v0 st = Inr (kLiftedUnsupportedInstruction, st)"
  using assms by (simp add: LiftUnaryOp_def returnL_def)

lemma LiftUnaryOp_constant_target:
  assumes "opc = CPUI_BRANCH \<or> opc = CPUI_CALL" and "isVarnodeInConstantSpace v0"
  shows "LiftUnaryOp env bldr opc outvar v0 st = Inr (kLiftedUnsupportedInstruction, st)"
  using assms by (auto simp: LiftUnaryOp_def returnL_def OpCode_defs)

lemma LiftBinOp_other:
  assumes "opc \<noteq> CPUI_CBRANCH"
    and "INTEGER_BINARY_OPS opc = None" and "BOOL_BINARY_OPS opc = None"
    and "FindFloatBinOpFunc opc = None"
    and "outvar = None \<or> opc \<notin> {CPUI_LOAD, CPUI_PIECE, CPUI_SUBPIECE}"
  shows "LiftBinOp env bldr opc outvar v0 v1 st = Inr (kLiftedUnsupportedInstruction, st)"
  using assms
  by (auto simp: LiftBinOp_def LiftIntegerBinOp_def LiftBoolBinOp_def LiftFloatBinOp_def
      orElse_def bindL_def returnL_def split: option.splits)

lemma LiftPcodeOp_binary:
  assumes "opc \<noteq> CPUI_CPOOLREF" "opc \<noteq> CPUI_MULTIEQUAL" "opc \<noteq> CPUI_CALLOTHER"
    and "LiftBinOp env bldr opc outvar v0 v1 st = Inr (kLiftedUnsupportedInstruction, st)"
  shows "LiftPcodeOp env bldr opc outvar [v0, v1] st
     = Inr ((), st\<lparr>status := kLiftedUnsupportedInstruction\<rparr>)"
  using assms by (simp add: LiftPcodeOp_def UpdateStatus_def modifyL_def bindL_def)

lemma LiftPcodeOp_ternary:
  assumes "opc \<noteq> CPUI_CPOOLREF" "opc \<noteq> CPUI_MULTIEQUAL" "opc \<noteq> CPUI_CALLOTHER"
    and "opc \<notin> {CPUI_STORE, CPUI_PTRADD, CPUI_PTRSUB}"
  shows "LiftPcodeOp env bldr opc outvar [v0, v1, v2] st
     = Inr ((), st\<lparr>status := kLiftedUnsupportedInstruction\<rparr>)"
  using assms
  by (simp add: LiftPcodeOp_def LiftThreeOperandOp_def UpdateStatus_def modifyL_def bindL_def
      returnL_def)

lemma is_none_case: "(case x of None \<Rightarrow> True | Some _ \<Rightarrow> False) = (x = None)"
  by (cases x) simp_all

text \<open>
  Claim C8, as the code has it: an operation refused before any operand is read
  (\<open>no_lowering\<close>) is \<open>Unsupported\<close> and leaves the function and the rest of the lifter's
  state as they were; only the status changes.  This covers the \<^verbatim>\<open>LOAD\<close> without output
  varnode and the opcodes without lowering, not the comparison without output varnode,
  whose instructions are emitted before the missing output is noticed.
\<close>

theorem unsupported_without_lowering_emits_nothing:
  assumes "no_lowering opc outvar vars"
  shows "LiftPcodeOp env bldr opc outvar vars st
           = Inr ((), st\<lparr>status := kLiftedUnsupportedInstruction\<rparr>)"
proof (cases "opc = CPUI_CPOOLREF")
  case True
  then show ?thesis by (simp add: LiftPcodeOp_CPOOLREF)
next
  case False
  with assms have ne: "opc \<noteq> CPUI_CPOOLREF" "opc \<noteq> CPUI_MULTIEQUAL" "opc \<noteq> CPUI_CALLOTHER"
    by (auto simp: no_lowering_def split: if_splits)
  have shapes: "(\<exists>v0. vars = [v0]) \<or> (\<exists>v0 v1. vars = [v0, v1])
      \<or> (\<exists>v0 v1 v2. vars = [v0, v1, v2])
      \<or> (length vars \<noteq> 1 \<and> length vars \<noteq> 2 \<and> length vars \<noteq> 3)"
    by (auto simp: length_Suc_conv eval_nat_numeral)
  then consider (one) v0 where "vars = [v0]" | (two) v0 v1 where "vars = [v0, v1]"
    | (three) v0 v1 v2 where "vars = [v0, v1, v2]"
    | (other) "length vars \<noteq> 1" "length vars \<noteq> 2" "length vars \<noteq> 3"
    by blast
  then show ?thesis
  proof cases
    case one
    with assms ne have
      "opc \<notin> {CPUI_BOOL_NEGATE, CPUI_COPY, CPUI_CAST, CPUI_BRANCH, CPUI_CALL, CPUI_RETURN,
                     CPUI_BRANCHIND, CPUI_CALLIND, CPUI_INT_ZEXT, CPUI_INT_SEXT, CPUI_INT_2COMP,
                     CPUI_INT_NEGATE, CPUI_FLOAT_NEG, CPUI_FLOAT_ABS, CPUI_FLOAT_SQRT,
                     CPUI_FLOAT_CEIL, CPUI_FLOAT_FLOOR, CPUI_FLOAT_ROUND, CPUI_FLOAT_NAN,
                     CPUI_FLOAT_INT2FLOAT, CPUI_FLOAT_FLOAT2FLOAT, CPUI_FLOAT_TRUNC,
                     CPUI_POPCOUNT}
       \<or> ((opc = CPUI_BRANCH \<or> opc = CPUI_CALL) \<and> isVarnodeInConstantSpace v0)"
      by (simp add: no_lowering_def)
    then have "LiftUnaryOp env bldr opc outvar v0 st = Inr (kLiftedUnsupportedInstruction, st)"
      using LiftUnaryOp_other LiftUnaryOp_constant_target by blast
    with ne one show ?thesis by (simp add: LiftPcodeOp_unary)
  next
    case two
    with assms ne have "opc \<noteq> CPUI_CBRANCH"
      and "INTEGER_BINARY_OPS opc = None" and "BOOL_BINARY_OPS opc = None"
      and "FindFloatBinOpFunc opc = None"
      and "outvar = None \<or> opc \<notin> {CPUI_LOAD, CPUI_PIECE, CPUI_SUBPIECE}"
      by (simp_all add: no_lowering_def is_none_case)
    then have "LiftBinOp env bldr opc outvar v0 v1 st = Inr (kLiftedUnsupportedInstruction, st)"
      by (rule LiftBinOp_other)
    with ne two show ?thesis by (simp add: LiftPcodeOp_binary)
  next
    case three
    with assms ne have "opc \<notin> {CPUI_STORE, CPUI_PTRADD, CPUI_PTRSUB}"
      by (simp add: no_lowering_def)
    with ne three show ?thesis by (simp add: LiftPcodeOp_ternary)
  next
    case other
    with ne show ?thesis by (simp add: LiftPcodeOp_arity)
  qed
qed

theorem unsupported_without_lowering_emits_nothing_witness:
  "no_lowering CPUI_LOAD None [varnode const_space 1 4, varnode register_space 8 8] \<and>
   LiftPcodeOp example_env 0 CPUI_LOAD None
       [varnode const_space 1 4, varnode register_space 8 8] initial_lifter
     = Inr ((), initial_lifter\<lparr>status := kLiftedUnsupportedInstruction\<rparr>) \<and>
   no_lowering CPUI_SEGMENTOP (Some (varnode register_space 0 8))
       [varnode register_space 8 8, varnode register_space 16 8] \<and>
   LiftPcodeOp example_env 0 CPUI_SEGMENTOP (Some (varnode register_space 0 8))
       [varnode register_space 8 8, varnode register_space 16 8] initial_lifter
     = Inr ((), initial_lifter\<lparr>status := kLiftedUnsupportedInstruction\<rparr>) \<and>
   no_lowering CPUI_BRANCH None [varnode const_space 2 4] \<and>
   LiftPcodeOp example_env 0 CPUI_BRANCH None [varnode const_space 2 4] initial_lifter
     = Inr ((), initial_lifter\<lparr>status := kLiftedUnsupportedInstruction\<rparr>)"
proof -
  have a: "no_lowering CPUI_LOAD None [varnode const_space 1 4, varnode register_space 8 8]"
    by (simp add: no_lowering_def INTEGER_BINARY_OPS_def BOOL_BINARY_OPS_def
        FindFloatBinOpFunc_def OpCode_defs)
  have b: "no_lowering CPUI_SEGMENTOP (Some (varnode register_space 0 8))
       [varnode register_space 8 8, varnode register_space 16 8]"
    by (simp add: no_lowering_def INTEGER_BINARY_OPS_def BOOL_BINARY_OPS_def
        FindFloatBinOpFunc_def OpCode_defs)
  have c: "no_lowering CPUI_BRANCH None [varnode const_space 2 4]"
    by (simp add: no_lowering_def OpCode_defs example_defs isVarnodeInConstantSpace_def)
  from a b c
    unsupported_without_lowering_emits_nothing [OF a, of example_env 0 initial_lifter]
    unsupported_without_lowering_emits_nothing [OF b, of example_env 0 initial_lifter]
    unsupported_without_lowering_emits_nothing [OF c, of example_env 0 initial_lifter]
  show ?thesis by blast
qed

text \<open>
  Claim C9: when the operation counter reaches the index of the branch-taken descriptor,
  \<^verbatim>\<open>dump\<close> first reads the descriptor's varnode as an integer.  If that gives no value,
  the status becomes \<open>LifterError\<close> and the operation is lowered from that state, then
  counted; if it gives a value, the value is zero-extended or truncated to 8 bits
  (\<^verbatim>\<open>CreateZExtOrTrunc\<close>), a store of the result into the branch-taken cell is appended to
  the current block, and the operation is lowered after that.  The operations that
  follow are lowered by \<open>oneInstruction\<close> from the state \<^verbatim>\<open>dump\<close> returns.
\<close>

theorem branch_taken_flag_then_op:
  assumes "to_lift_btaken env = Some bt" and "curr_id st = index bt"
  shows "(\<forall>st1. LiftIntegerInParam env (target_block st) (target_vnode bt) st = Inr (None, st1)
            \<longrightarrow> dump env opc outvar vars st
                  = bindL (LiftPcodeOp env (target_block st) opc outvar vars)
                      (\<lambda>_. modifyL (\<lambda>s. s\<lparr>curr_id := Suc (curr_id s)\<rparr>))
                      (st1\<lparr>status := kLiftedLifterError\<rparr>)) \<and>
         (\<forall>v st1 b st2.
            LiftIntegerInParam env (target_block st) (target_vnode bt) st = Inr (Some v, st1) \<and>
            CreateZExtOrTrunc (target_block st) v (IntegerType 8) st1 = Inr (b, st2)
            \<longrightarrow> dump env opc outvar vars st
                  = bindL (LiftPcodeOp env (target_block st) opc outvar vars)
                      (\<lambda>_. modifyL (\<lambda>s. s\<lparr>curr_id := Suc (curr_id s)\<rparr>))
                      (st2\<lparr>blocks := (blocks st2)
                              [target_block st := blocks st2 ! target_block st
                                 @ [(next_id st2, Store b GetBranchTakenRef)]],
                           next_id := Suc (next_id st2)\<rparr>)) \<and>
         oneInstruction env (\<lparr>pcode_op = opc, pcode_outvar = outvar, pcode_vars = vars\<rparr> # rest) st
           = bindL (dump env opc outvar vars) (\<lambda>_. oneInstruction env rest) st"
  using assms
  by (simp add: dump_def LiftBtakenIfReached_def LiftBranchTaken_def UpdateStatus_def
      CreateStore_def Insert_def bindL_def getL_def modifyL_def returnL_def)

theorem branch_taken_flag_then_op_witness:
  "map_sum id (\<lambda>(u, st). (status st, blocks st ! 0, curr_id st))
     (dump (example_env\<lparr>to_lift_btaken :=
              Some \<lparr>index = 0, target_vnode = varnode ram_space 0x2000 16\<rparr>\<rparr>)
        CPUI_COPY (Some (varnode register_space 0 8)) [varnode register_space 16 8]
        initial_lifter)
     = Inr (kLiftedLifterError,
            entry_block_body @
            [(4, Load PointerTy (RegAddress ''MEMORY'')),
             (5, Load (IntegerType 64) (RegAddress ''R2'')),
             (6, Store (Inst 5 (IntegerType 64)) (RegAddress ''R0''))], 1) \<and>
   map_sum id (\<lambda>(u, st). (status st, blocks st ! 0, curr_id st))
     (dump (example_env\<lparr>to_lift_btaken :=
              Some \<lparr>index = 0, target_vnode = varnode register_space 8 4\<rparr>\<rparr>)
        CPUI_COPY (Some (varnode register_space 0 8)) [varnode register_space 16 8]
        initial_lifter)
     = Inr (kLiftedInstruction,
            entry_block_body @
            [(4, Load (IntegerType 32) (RegAddress ''R1'')),
             (5, Cast Trunc (Inst 4 (IntegerType 32)) (IntegerType 8)),
             (6, Store (Inst 5 (IntegerType 8)) GetBranchTakenRef),
             (7, Load (IntegerType 64) (RegAddress ''R2'')),
             (8, Store (Inst 7 (IntegerType 64)) (RegAddress ''R0''))], 1)"
  using branch_taken_flag_then_op
          [of "example_env\<lparr>to_lift_btaken :=
                 Some \<lparr>index = 0, target_vnode = varnode ram_space 0x2000 16\<rparr>\<rparr>"
              "\<lparr>index = 0, target_vnode = varnode ram_space 0x2000 16\<rparr>" initial_lifter
              CPUI_COPY "Some (varnode register_space 0 8)" "[varnode register_space 16 8]" "[]"]
        branch_taken_flag_then_op
          [of "example_env\<lparr>to_lift_btaken :=
                 Some \<lparr>index = 0, target_vnode = varnode register_space 8 4\<rparr>\<rparr>"
              "\<lparr>index = 0, target_vnode = varnode register_space 8 4\<rparr>" initial_lifter
              CPUI_COPY "Some (varnode register_space 0 8)" "[varnode register_space 16 8]" "[]"]
  by (simp add: eval_defs entry_block_body_def Let_def)

text \<open>
  Claim C10: a \<^verbatim>\<open>CALLOTHER\<close> with no input is \<open>Unsupported\<close>; the handler leaves the
  lifter's state as it is (no claim recorded, no instruction emitted), and
  \<^verbatim>\<open>LiftPcodeOp\<close> changes nothing but the status.
\<close>

theorem CALLOTHER_without_inputs:
  "HandleCallOther env bldr outvar [] st = Inr (kLiftedUnsupportedInstruction, st) \<and>
   LiftPcodeOp env bldr CPUI_CALLOTHER outvar [] st
     = Inr ((), st\<lparr>status := kLiftedUnsupportedInstruction\<rparr>)"
  by (simp add: HandleCallOther_def GetOtherFuncName_def LiftPcodeOp_def UpdateStatus_def
      bindL_def returnL_def modifyL_def OpCode_defs)

end
